theory Spec2Isabelle
  imports Main "HOL-Library.Word" "HOL-Library.Sublist"
begin

section \<open>Chart dependency synchronisation: a model of internal/chart/dependency.go\<close>

text \<open>
  The Go package \<^verbatim>\<open>chart\<close> rewrites the repository references of a chart's
  dependencies, recomputes the lock digest and rebuilds the \<^verbatim>\<open>charts/\<close> folder.
  Every function of \<^verbatim>\<open>dependency.go\<close> is embedded below under its own name.
  Code that \<^verbatim>\<open>dependency.go\<close> calls but does not contain (the trust classifier,
  the location mapping, Go's \<^verbatim>\<open>net/url\<close>, JSON and SHA-256) is passed in as the
  record \<open>ext\<close>; the file system is an explicit state.
\<close>

subsection \<open>Data model\<close>

text \<open>
  \<^verbatim>\<open>chart.Dependency\<close> of Helm. The rewrite touches \<open>Repository\<close> only; the
  other fields travel with the entry. A Go slice \<^verbatim>\<open>[]*chart.Dependency\<close> is a
  \<open>Dependency list option\<close>: \<open>None\<close> is the nil slice, which the code tells apart
  from the empty one (\<^verbatim>\<open>deps != nil\<close>). Entries are taken to be non-nil pointers.
\<close>

record Dependency =
  Name :: string
  Version :: string
  Repository :: string
  Condition :: string
  Tags :: "string list"
  Enabled :: bool
  ImportValues :: "string list"
  Alias :: string

datatype Kind = UNKNOWN | HELM | CHARTMUSEUM | HARBOR | OCI | LOCAL

text \<open>\<^verbatim>\<open>api.Repo\<close>: the two fields this file reads. A \<^verbatim>\<open>*api.Repo\<close> may be nil
  (\<open>None\<close>); the generated getters then return the zero value.\<close>

record Repo =
  Url :: string
  Kind :: Kind

definition GetUrl :: "Repo option \<Rightarrow> string" where
  "GetUrl r = (case r of None \<Rightarrow> [] | Some x \<Rightarrow> Url x)"

definition GetKind :: "Repo option \<Rightarrow> Kind" where
  "GetKind r = (case r of None \<Rightarrow> UNKNOWN | Some x \<Rightarrow> Kind x)"

text \<open>The components of Go's \<^verbatim>\<open>url.URL\<close>.\<close>

record URL =
  Scheme :: string
  Opaque :: string
  User :: string
  Host :: string
  Path :: string
  RawQuery :: string
  Fragment :: string

text \<open>
  Errors are values. \<^verbatim>\<open>errors.Trace\<close> only records a source location and is the
  identity here; \<^verbatim>\<open>errors.Annotatef\<close> wraps its cause, one constructor per call
  site. \<open>Multierror\<close> is the aggregate built by \<^verbatim>\<open>multierror.Append\<close>.
\<close>

datatype error =
    OsError string string
  | YamlError string
  | UrlError string
  | JsonError string
  | ClientError string
  | UnrecognisedApiVersion string
  | Unmarshaling string error
  | Fetching string error
  | Copying string string error
  | Multierror "error list"

text \<open>
  The collaborators that live outside \<^verbatim>\<open>dependency.go\<close>:
  \<^verbatim>\<open>utils.ShouldIgnoreRepo\<close>, \<^verbatim>\<open>utils.GetRepoLocationId\<close> (a \<^verbatim>\<open>uint32\<close>),
  \<^verbatim>\<open>url.Parse\<close> and \<^verbatim>\<open>(*URL).String\<close>, \<^verbatim>\<open>json.Marshal\<close> on the pair
  of dependency slices, and the SHA-256 sum that \<^verbatim>\<open>provenance.Digest\<close> prints in
  hexadecimal. A failing collaborator returns its message on the left.
\<close>

record ext =
  ShouldIgnoreRepo :: "Repo \<Rightarrow> Repo list \<Rightarrow> Repo list \<Rightarrow> bool"
  GetRepoLocationId :: "string \<Rightarrow> 32 word"
  url_Parse :: "string \<Rightarrow> string + URL"
  url_String :: "URL \<Rightarrow> string"
  json_Marshal :: "Dependency list option \<times> Dependency list option \<Rightarrow> string + string"
  sha256_Sum :: "string \<Rightarrow> 256 word"

subsection \<open>getDependencyRepoURL\<close>

definition getDependencyRepoURL :: "ext \<Rightarrow> Repo option \<Rightarrow> error + string" where
  "getDependencyRepoURL X targetRepo =
     (let repoUrl = GetUrl targetRepo in
      if GetKind targetRepo = OCI then
        (case url_Parse X repoUrl of
           Inl msg \<Rightarrow> Inl (UrlError msg)
         | Inr parseUrl \<Rightarrow> Inr (url_String X (parseUrl\<lparr>Scheme := ''oci''\<rparr>)))
      else Inr repoUrl)"

subsection \<open>The three rewrite loops\<close>

text \<open>
  \<^verbatim>\<open>updateChartMetadataFile\<close>, \<^verbatim>\<open>updateRequirementsFile\<close> and
  \<^verbatim>\<open>updateLockFile\<close> each carry their own copy of the loop over the entries.
  Each copy is embedded separately. An entry is a pointer, so the assignment
  \<^verbatim>\<open>dep.Repository = repoUrl\<close> changes the list the caller holds; the loop returns
  the list after the assignments, or the error that made the function return.
\<close>

fun updateChartMetadataFile_loop ::
  "ext \<Rightarrow> Repo option \<Rightarrow> Repo option \<Rightarrow> Repo list \<Rightarrow> Repo list \<Rightarrow> Dependency list
     \<Rightarrow> error + Dependency list" where
  "updateChartMetadataFile_loop X sourceRepo targetRepo syncTrusted ignoreTrusted [] = Inr []"
| "updateChartMetadataFile_loop X sourceRepo targetRepo syncTrusted ignoreTrusted (dep # deps) =
     (let r = \<lparr>Url = Repository dep, Kind = UNKNOWN\<rparr>;
          replaceDependencyRepo = \<not> ShouldIgnoreRepo X r syncTrusted ignoreTrusted in
      if Repository dep = GetUrl sourceRepo \<or> replaceDependencyRepo then
        (case getDependencyRepoURL X targetRepo of
           Inl err \<Rightarrow> Inl err
         | Inr repoUrl \<Rightarrow>
             (case updateChartMetadataFile_loop X sourceRepo targetRepo syncTrusted ignoreTrusted deps of
                Inl err \<Rightarrow> Inl err
              | Inr deps' \<Rightarrow> Inr (dep\<lparr>Repository := repoUrl\<rparr> # deps')))
      else
        (case updateChartMetadataFile_loop X sourceRepo targetRepo syncTrusted ignoreTrusted deps of
           Inl err \<Rightarrow> Inl err
         | Inr deps' \<Rightarrow> Inr (dep # deps')))"

fun updateRequirementsFile_loop ::
  "ext \<Rightarrow> Repo option \<Rightarrow> Repo option \<Rightarrow> Repo list \<Rightarrow> Repo list \<Rightarrow> Dependency list
     \<Rightarrow> error + Dependency list" where
  "updateRequirementsFile_loop X sourceRepo targetRepo syncTrusted ignoreTrusted [] = Inr []"
| "updateRequirementsFile_loop X sourceRepo targetRepo syncTrusted ignoreTrusted (dep # deps) =
     (let r = \<lparr>Url = Repository dep, Kind = UNKNOWN\<rparr>;
          replaceDependencyRepo = \<not> ShouldIgnoreRepo X r syncTrusted ignoreTrusted in
      if Repository dep = GetUrl sourceRepo \<or> replaceDependencyRepo then
        (case getDependencyRepoURL X targetRepo of
           Inl err \<Rightarrow> Inl err
         | Inr repoUrl \<Rightarrow>
             (case updateRequirementsFile_loop X sourceRepo targetRepo syncTrusted ignoreTrusted deps of
                Inl err \<Rightarrow> Inl err
              | Inr deps' \<Rightarrow> Inr (dep\<lparr>Repository := repoUrl\<rparr> # deps')))
      else
        (case updateRequirementsFile_loop X sourceRepo targetRepo syncTrusted ignoreTrusted deps of
           Inl err \<Rightarrow> Inl err
         | Inr deps' \<Rightarrow> Inr (dep # deps')))"

fun updateLockFile_loop ::
  "ext \<Rightarrow> Repo option \<Rightarrow> Repo option \<Rightarrow> Repo list \<Rightarrow> Repo list \<Rightarrow> Dependency list
     \<Rightarrow> error + Dependency list" where
  "updateLockFile_loop X sourceRepo targetRepo syncTrusted ignoreTrusted [] = Inr []"
| "updateLockFile_loop X sourceRepo targetRepo syncTrusted ignoreTrusted (dep # deps) =
     (let r = \<lparr>Url = Repository dep, Kind = UNKNOWN\<rparr>;
          replaceDependencyRepo = \<not> ShouldIgnoreRepo X r syncTrusted ignoreTrusted in
      if Repository dep = GetUrl sourceRepo \<or> replaceDependencyRepo then
        (case getDependencyRepoURL X targetRepo of
           Inl err \<Rightarrow> Inl err
         | Inr repoUrl \<Rightarrow>
             (case updateLockFile_loop X sourceRepo targetRepo syncTrusted ignoreTrusted deps of
                Inl err \<Rightarrow> Inl err
              | Inr deps' \<Rightarrow> Inr (dep\<lparr>Repository := repoUrl\<rparr> # deps')))
      else
        (case updateLockFile_loop X sourceRepo targetRepo syncTrusted ignoreTrusted deps of
           Inl err \<Rightarrow> Inl err
         | Inr deps' \<Rightarrow> Inr (dep # deps')))"

text \<open>
  The decision in the spec's words, to compare the loops with: an entry is rewritten
  if its repository equals the source repository's URL, or the trust classifier does
  not leave it untouched; rewriting sets the repository to the URL \<open>T\<close> and nothing
  else.
\<close>

definition needs_rewrite :: "ext \<Rightarrow> Repo option \<Rightarrow> Repo list \<Rightarrow> Repo list \<Rightarrow> Dependency \<Rightarrow> bool" where
  "needs_rewrite X sourceRepo syncTrusted ignoreTrusted dep =
     (Repository dep = GetUrl sourceRepo \<or>
      \<not> ShouldIgnoreRepo X \<lparr>Url = Repository dep, Kind = UNKNOWN\<rparr> syncTrusted ignoreTrusted)"

definition rewrite_entry ::
  "ext \<Rightarrow> Repo option \<Rightarrow> Repo list \<Rightarrow> Repo list \<Rightarrow> string \<Rightarrow> Dependency \<Rightarrow> Dependency" where
  "rewrite_entry X sourceRepo syncTrusted ignoreTrusted T dep =
     (if needs_rewrite X sourceRepo syncTrusted ignoreTrusted dep
      then dep\<lparr>Repository := T\<rparr> else dep)"

text \<open>Ranging over a nil slice runs no iteration and leaves it nil.\<close>

definition over_slice ::
  "(Dependency list \<Rightarrow> error + Dependency list) \<Rightarrow> Dependency list option
     \<Rightarrow> error + Dependency list option" where
  "over_slice loop ds =
     (case ds of
        None \<Rightarrow> Inr None
      | Some xs \<Rightarrow> (case loop xs of Inl err \<Rightarrow> Inl err | Inr ys \<Rightarrow> Inr (Some ys)))"

subsection \<open>hashDeps\<close>

text \<open>
  \<^verbatim>\<open>hex.EncodeToString\<close> of the 32 bytes of the sum: 64 lower-case hexadecimal
  digits, most significant first.
\<close>

definition hexdigit :: "nat \<Rightarrow> char" where
  "hexdigit n = (if n < 10 then char_of (48 + n) else char_of (87 + n))"

definition hex_EncodeToString :: "256 word \<Rightarrow> string" where
  "hex_EncodeToString h =
     map (\<lambda>i. hexdigit (unat (take_bit 4 (drop_bit (4 * (63 - i)) h)))) [0..<64]"

text \<open>
  \<^verbatim>\<open>provenance.Digest\<close> of Helm reads the buffer into SHA-256 and returns the sum
  in hexadecimal; reading from a \<^verbatim>\<open>bytes.Buffer\<close> does not fail.
\<close>

definition provenance_Digest :: "ext \<Rightarrow> string \<Rightarrow> string \<times> error option" where
  "provenance_Digest X data = (hex_EncodeToString (sha256_Sum X data), None)"

definition hashDeps ::
  "ext \<Rightarrow> Dependency list option \<Rightarrow> Dependency list option \<Rightarrow> string \<times> error option" where
  "hashDeps X req lock =
     (case json_Marshal X (req, lock) of
        Inl msg \<Rightarrow> ([], Some (JsonError msg))
      | Inr data \<Rightarrow>
          (case provenance_Digest X data of (s, err) \<Rightarrow> (''sha256:'' @ s, err)))"

subsection \<open>Package files and the file system\<close>

text \<open>
  Modelled from the spec: the constants of package \<^verbatim>\<open>chart\<close> that
  \<^verbatim>\<open>dependency.go\<close> uses and another file declares: the Legacy and Modern lock
  and declaration file names and the two API version tags. \<open>chart_APIVersionV2\<close> is
  Helm's \<^verbatim>\<open>chart.APIVersionV2\<close>.
\<close>

definition ChartFilename :: string where "ChartFilename = ''Chart.yaml''"
definition RequirementsFilename :: string where "RequirementsFilename = ''requirements.yaml''"
definition RequirementsLockFilename :: string where "RequirementsLockFilename = ''requirements.lock''"
definition ChartLockFilename :: string where "ChartLockFilename = ''Chart.lock''"
definition APIV1 :: string where "APIV1 = ''v1''"
definition APIV2 :: string where "APIV2 = ''v2''"
definition chart_APIVersionV2 :: string where "chart_APIVersionV2 = ''v2''"

text \<open>
  A YAML file is represented by the mapping it parses to: the keys that the three Go
  structs read. \<^verbatim>\<open>yaml.Unmarshal\<close> is lenient, so each struct takes the keys it
  knows from whatever mapping the file holds, and \<^verbatim>\<open>yaml.Marshal\<close> writes the
  keys of the struct only. A file that is not YAML (an archive, or malformed text) is a
  \<open>Blob\<close>.
\<close>

record yaml_doc =
  y_apiVersion :: string
  y_name :: string
  y_version :: string
  y_dependencies :: "Dependency list option"
  y_generated :: string
  y_digest :: string

datatype content = Yaml yaml_doc | Blob string

datatype node = File content | Dir

text \<open>\<^verbatim>\<open>chart.Metadata\<close>, \<^verbatim>\<open>chart.Lock\<close> and the local struct
  \<^verbatim>\<open>dependencies\<close>.\<close>

record Metadata =
  meta_Name :: string
  meta_Version :: string
  APIVersion :: string
  meta_Dependencies :: "Dependency list option"

record Lock =
  Generated :: string
  Digest :: string
  lock_Dependencies :: "Dependency list option"

record dependencies =
  Dependencies :: "Dependency list option"

definition yaml_Unmarshal :: "content \<Rightarrow> error + yaml_doc" where
  "yaml_Unmarshal c = (case c of Yaml d \<Rightarrow> Inr d | Blob s \<Rightarrow> Inl (YamlError s))"

definition Metadata_of :: "yaml_doc \<Rightarrow> Metadata" where
  "Metadata_of d = \<lparr>meta_Name = y_name d, meta_Version = y_version d,
     APIVersion = y_apiVersion d, meta_Dependencies = y_dependencies d\<rparr>"

definition Lock_of :: "yaml_doc \<Rightarrow> Lock" where
  "Lock_of d = \<lparr>Generated = y_generated d, Digest = y_digest d,
     lock_Dependencies = y_dependencies d\<rparr>"

definition dependencies_of :: "yaml_doc \<Rightarrow> dependencies" where
  "dependencies_of d = \<lparr>Dependencies = y_dependencies d\<rparr>"

definition yaml_Marshal_Metadata :: "Metadata \<Rightarrow> yaml_doc" where
  "yaml_Marshal_Metadata m = \<lparr>y_apiVersion = APIVersion m, y_name = meta_Name m,
     y_version = meta_Version m, y_dependencies = meta_Dependencies m,
     y_generated = [], y_digest = []\<rparr>"

definition yaml_Marshal_Lock :: "Lock \<Rightarrow> yaml_doc" where
  "yaml_Marshal_Lock l = \<lparr>y_apiVersion = [], y_name = [], y_version = [],
     y_dependencies = lock_Dependencies l, y_generated = Generated l, y_digest = Digest l\<rparr>"

definition yaml_Marshal_dependencies :: "dependencies \<Rightarrow> yaml_doc" where
  "yaml_Marshal_dependencies r = \<lparr>y_apiVersion = [], y_name = [], y_version = [],
     y_dependencies = Dependencies r, y_generated = [], y_digest = []\<rparr>"

text \<open>
  The state: the file system, a map from paths to nodes, and the trace of the calls
  made on it and on the repository clients, oldest first.
\<close>

datatype origin = TargetSide | SourceSide "32 word"

datatype event =
    EvRemoveAll string
  | EvMkdir string
  | EvStat string
  | EvReadFile string
  | EvWriteFile string
  | EvFetch origin string string
  | EvCopyFile string string

record world =
  files :: "string \<Rightarrow> node option"
  trace :: "event list"

definition log :: "event \<Rightarrow> world \<Rightarrow> world" where
  "log e w = w\<lparr>trace := trace w @ [e]\<rparr>"

text \<open>
  \<^verbatim>\<open>path.Join\<close> drops empty elements and joins the rest with a slash. Go also
  cleans the result (\<^verbatim>\<open>.\<close>, \<^verbatim>\<open>..\<close>, doubled slashes); the model covers
  elements that are clean already. \<open>path_Dir\<close> is the parent of a path.
\<close>

fun join_slash :: "string list \<Rightarrow> string" where
  "join_slash [] = []"
| "join_slash [x] = x"
| "join_slash (x # y # ys) = x @ ''/'' @ join_slash (y # ys)"

definition path_Join :: "string list \<Rightarrow> string" where
  "path_Join elems = join_slash (filter (\<lambda>e. e \<noteq> []) elems)"

definition path_Dir :: "string \<Rightarrow> string" where
  "path_Dir p = rev (drop 1 (dropWhile (\<lambda>c. c \<noteq> CHR ''/'') (rev p)))"

definition is_directory :: "world \<Rightarrow> string \<Rightarrow> bool" where
  "is_directory w p = (p = [] \<or> files w p = Some Dir)"

definition under :: "string \<Rightarrow> string \<Rightarrow> bool" where
  "under d q = prefix (d @ ''/'') q"

text \<open>
  The calls of \<^verbatim>\<open>os\<close> and \<^verbatim>\<open>ioutil\<close>. \<^verbatim>\<open>os.RemoveAll\<close> removes the
  path and what lies under it, and removing a missing path is no error. The call fails,
  removing nothing, where the path cannot be looked up because the nearest existing
  directory above it is in fact a regular file: \<^verbatim>\<open>unlinkat\<close> answers
  \<^verbatim>\<open>ENOTDIR\<close> when that is the parent itself, and opening the parent does when it
  is further up. A directory is made where nothing is, inside a directory; a file is read
  where a file is, and written where no directory is, inside a directory. The state holds
  no permissions: a call that the operating system refuses for want of a permission is
  not covered.
\<close>

function not_a_directory :: "world \<Rightarrow> string \<Rightarrow> bool" where
  "not_a_directory w p =
     (if CHR ''/'' \<in> set p
      then (case files w (path_Dir p) of
              Some (File c) \<Rightarrow> True
            | Some Dir \<Rightarrow> False
            | None \<Rightarrow> not_a_directory w (path_Dir p))
      else False)"
  by pat_completeness auto
termination
proof (relation "measure (\<lambda>(w, p). length p)")
  show "wf (measure (\<lambda>(w, p). length p))" by simp
next
  fix w :: world and p :: string
  assume "CHR ''/'' \<in> set p"
  then have "dropWhile (\<lambda>c. c \<noteq> CHR ''/'') (rev p) \<noteq> []" by simp
  then have "length (drop 1 (dropWhile (\<lambda>c. c \<noteq> CHR ''/'') (rev p)))
               < length (dropWhile (\<lambda>c. c \<noteq> CHR ''/'') (rev p))"
    by (cases "dropWhile (\<lambda>c. c \<noteq> CHR ''/'') (rev p)") simp_all
  also have "\<dots> \<le> length (rev p)" by (rule length_dropWhile_le)
  finally have "length (path_Dir p) < length p" by (simp add: path_Dir_def)
  then show "((w, path_Dir p), (w, p)) \<in> measure (\<lambda>(w, p). length p)" by simp
qed

declare not_a_directory.simps [simp del]

definition os_RemoveAll :: "string \<Rightarrow> world \<Rightarrow> error option \<times> world" where
  "os_RemoveAll p w =
     (let w1 = log (EvRemoveAll p) w in
      if not_a_directory w p
      then (case files w (path_Dir p) of
              Some (File c) \<Rightarrow> (Some (OsError ''unlinkat'' p), w1)
            | _ \<Rightarrow> (Some (OsError ''open'' (path_Dir p)), w1))
      else (None, w1\<lparr>files := (\<lambda>q. if q = p \<or> under p q then None else files w q)\<rparr>))"

definition os_Mkdir :: "string \<Rightarrow> world \<Rightarrow> error option \<times> world" where
  "os_Mkdir p w =
     (let w1 = log (EvMkdir p) w in
      if files w p \<noteq> None \<or> \<not> is_directory w (path_Dir p)
      then (Some (OsError ''mkdir'' p), w1)
      else (None, w1\<lparr>files := (files w)(p \<mapsto> Dir)\<rparr>))"

definition ioutil_ReadFile :: "string \<Rightarrow> world \<Rightarrow> (error + content) \<times> world" where
  "ioutil_ReadFile p w =
     (let w1 = log (EvReadFile p) w in
      case files w p of
        Some (File c) \<Rightarrow> (Inr c, w1)
      | _ \<Rightarrow> (Inl (OsError ''open'' p), w1))"

definition ioutil_WriteFile :: "string \<Rightarrow> content \<Rightarrow> world \<Rightarrow> error option \<times> world" where
  "ioutil_WriteFile p c w =
     (let w1 = log (EvWriteFile p) w in
      if files w p = Some Dir \<or> \<not> is_directory w (path_Dir p)
      then (Some (OsError ''open'' p), w1)
      else (None, w1\<lparr>files := (files w)(p \<mapsto> File c)\<rparr>))"

text \<open>
  Modelled from the spec: \<^verbatim>\<open>utils.FileExists\<close> and \<^verbatim>\<open>utils.CopyFile\<close> of
  \<^verbatim>\<open>internal/utils\<close>. \<open>utils_FileExists\<close> answers by the presence of the
  name, and fails where the name cannot be looked up (its parent is a regular file).
  \<open>utils_CopyFile dest src\<close> copies the archive at \<open>src\<close> to \<open>dest\<close>.
\<close>

definition utils_FileExists :: "string \<Rightarrow> world \<Rightarrow> (error + bool) \<times> world" where
  "utils_FileExists p w =
     (let w1 = log (EvStat p) w in
      case files w (path_Dir p) of
        Some (File c) \<Rightarrow> (Inl (OsError ''stat'' p), w1)
      | _ \<Rightarrow> (Inr (files w p \<noteq> None), w1))"

definition utils_CopyFile :: "string \<Rightarrow> string \<Rightarrow> world \<Rightarrow> error option \<times> world" where
  "utils_CopyFile dest src w =
     (let w1 = log (EvCopyFile dest src) w in
      case files w src of
        Some (File c) \<Rightarrow>
          if files w dest = Some Dir \<or> \<not> is_directory w (path_Dir dest)
          then (Some (OsError ''create'' dest), w1)
          else (None, w1\<lparr>files := (files w)(dest \<mapsto> File c)\<rparr>)
      | _ \<Rightarrow> (Some (OsError ''open'' src), w1))"

subsection \<open>lockFilePath, GetLockAPIVersion, GetChartLock\<close>

definition lockFilePath :: "string \<Rightarrow> string \<Rightarrow> error + string" where
  "lockFilePath chartPath apiVersion =
     (if apiVersion = APIV1 then Inr (path_Join [chartPath, RequirementsLockFilename])
      else if apiVersion = APIV2 then Inr (path_Join [chartPath, ChartLockFilename])
      else Inl (UnrecognisedApiVersion apiVersion))"

definition GetLockAPIVersion :: "string \<Rightarrow> world \<Rightarrow> (error + string) \<times> world" where
  "GetLockAPIVersion chartPath w =
     (case utils_FileExists (path_Join [chartPath, RequirementsLockFilename]) w of
        (Inl err, w1) \<Rightarrow> (Inl err, w1)
      | (Inr ok, w1) \<Rightarrow>
          if ok then (Inr APIV1, w1)
          else
            (case utils_FileExists (path_Join [chartPath, ChartLockFilename]) w1 of
               (Inl err, w2) \<Rightarrow> (Inl err, w2)
             | (Inr ok', w2) \<Rightarrow>
                 if ok' then (Inr APIV2, w2) else (Inr [], w2)))"

definition GetChartLock :: "string \<Rightarrow> world \<Rightarrow> (error + Lock option) \<times> world" where
  "GetChartLock chartPath w =
     (case GetLockAPIVersion chartPath w of
        (Inl err, w1) \<Rightarrow> (Inl err, w1)
      | (Inr apiVersion, w1) \<Rightarrow>
          if apiVersion = [] then (Inr None, w1)
          else
            (case lockFilePath chartPath apiVersion of
               Inl err \<Rightarrow> (Inl err, w1)
             | Inr lockFilePath' \<Rightarrow>
                 (case ioutil_ReadFile lockFilePath' w1 of
                    (Inl err, w2) \<Rightarrow> (Inl err, w2)
                  | (Inr lockContent, w2) \<Rightarrow>
                      (case yaml_Unmarshal lockContent of
                         Inl err \<Rightarrow> (Inl (Unmarshaling lockFilePath' err), w2)
                       | Inr d \<Rightarrow> (Inr (Some (Lock_of d)), w2)))))"

text \<open>\<^verbatim>\<open>chartutil.LoadChartfile\<close> of Helm: read the file and unmarshal it into a
  \<^verbatim>\<open>chart.Metadata\<close>.\<close>

definition LoadChartfile :: "string \<Rightarrow> world \<Rightarrow> (error + Metadata) \<times> world" where
  "LoadChartfile filename w =
     (case ioutil_ReadFile filename w of
        (Inl err, w1) \<Rightarrow> (Inl err, w1)
      | (Inr b, w1) \<Rightarrow>
          (case yaml_Unmarshal b of
             Inl err \<Rightarrow> (Inl err, w1)
           | Inr d \<Rightarrow> (Inr (Metadata_of d), w1)))"

subsection \<open>writeChartFile and the three update functions\<close>

text \<open>\<^verbatim>\<open>yaml.Marshal\<close> does not fail on the three structs; the caller passes the
  marshalled mapping.\<close>

definition writeChartFile :: "string \<Rightarrow> yaml_doc \<Rightarrow> world \<Rightarrow> error option \<times> world" where
  "writeChartFile dest v w = ioutil_WriteFile dest (Yaml v) w"

text \<open>
  A call through a nil pointer or a nil interface panics; a panic is a result of its
  own, on the left. The update functions change the lock they are handed in place, so
  they return it beside their error.
\<close>

datatype panic = NilPointerDereference

definition updateLockFile ::
  "ext \<Rightarrow> string \<Rightarrow> Lock option \<Rightarrow> Dependency list option \<Rightarrow> Repo option \<Rightarrow> Repo option
     \<Rightarrow> bool \<Rightarrow> Repo list \<Rightarrow> Repo list \<Rightarrow> world
     \<Rightarrow> (panic + error option) \<times> Lock option \<times> world" where
  "updateLockFile X chartPath lock deps sourceRepo targetRepo legacyLockfile syncTrusted ignoreTrusted w =
     (case lock of
        None \<Rightarrow> (Inl NilPointerDereference, None, w)
      | Some l \<Rightarrow>
          (case over_slice (updateLockFile_loop X sourceRepo targetRepo syncTrusted ignoreTrusted)
                  (lock_Dependencies l) of
             Inl err \<Rightarrow> (Inr (Some err), Some l, w)
           | Inr lockDeps \<Rightarrow>
               (let l1 = l\<lparr>lock_Dependencies := lockDeps\<rparr> in
                case hashDeps X deps (lock_Dependencies l1) of
                  (newDigest, Some err) \<Rightarrow> (Inr (Some err), Some l1, w)
                | (newDigest, None) \<Rightarrow>
                    (let l2 = l1\<lparr>Digest := newDigest\<rparr>;
                         lockFileName = (if legacyLockfile then RequirementsLockFilename
                                         else ChartLockFilename);
                         dest = path_Join [chartPath, lockFileName] in
                     case writeChartFile dest (yaml_Marshal_Lock l2) w of
                       (Some err, w1) \<Rightarrow> (Inr (Some err), Some l2, w1)
                     | (None, w1) \<Rightarrow> (Inr None, Some l2, w1)))))"

definition updateChartMetadataFile ::
  "ext \<Rightarrow> string \<Rightarrow> Lock option \<Rightarrow> Repo option \<Rightarrow> Repo option \<Rightarrow> Repo list \<Rightarrow> Repo list
     \<Rightarrow> world \<Rightarrow> (panic + error option) \<times> Lock option \<times> world" where
  "updateChartMetadataFile X chartPath lock sourceRepo targetRepo syncTrusted ignoreTrusted w =
     (let chartFile = path_Join [chartPath, ChartFilename] in
      case ioutil_ReadFile chartFile w of
        (Inl err, w1) \<Rightarrow> (Inr (Some err), lock, w1)
      | (Inr chartYamlContent, w1) \<Rightarrow>
          (case yaml_Unmarshal chartYamlContent of
             Inl err \<Rightarrow> (Inr (Some (Unmarshaling chartFile err)), lock, w1)
           | Inr d \<Rightarrow>
               (let chartMetadata = Metadata_of d in
                case over_slice
                       (updateChartMetadataFile_loop X sourceRepo targetRepo syncTrusted ignoreTrusted)
                       (meta_Dependencies chartMetadata) of
                  Inl err \<Rightarrow> (Inr (Some err), lock, w1)
                | Inr deps \<Rightarrow>
                    (let chartMetadata' = chartMetadata\<lparr>meta_Dependencies := deps\<rparr>;
                         dest = path_Join [chartPath, ChartFilename] in
                     case writeChartFile dest (yaml_Marshal_Metadata chartMetadata') w1 of
                       (Some err, w2) \<Rightarrow> (Inr (Some err), lock, w2)
                     | (None, w2) \<Rightarrow>
                         if lock \<noteq> None
                         then updateLockFile X chartPath lock (meta_Dependencies chartMetadata')
                                sourceRepo targetRepo False syncTrusted ignoreTrusted w2
                         else (Inr None, lock, w2)))))"

definition updateRequirementsFile ::
  "ext \<Rightarrow> string \<Rightarrow> Lock option \<Rightarrow> Repo option \<Rightarrow> Repo option \<Rightarrow> Repo list \<Rightarrow> Repo list
     \<Rightarrow> world \<Rightarrow> (panic + error option) \<times> Lock option \<times> world" where
  "updateRequirementsFile X chartPath lock sourceRepo targetRepo syncTrusted ignoreTrusted w =
     (let requirementsFile = path_Join [chartPath, RequirementsFilename] in
      case ioutil_ReadFile requirementsFile w of
        (Inl err, w1) \<Rightarrow> (Inr (Some err), lock, w1)
      | (Inr requirements, w1) \<Rightarrow>
          (case yaml_Unmarshal requirements of
             Inl err \<Rightarrow> (Inr (Some (Unmarshaling requirementsFile err)), lock, w1)
           | Inr d \<Rightarrow>
               (let deps = dependencies_of d in
                case over_slice
                       (updateRequirementsFile_loop X sourceRepo targetRepo syncTrusted ignoreTrusted)
                       (Dependencies deps) of
                  Inl err \<Rightarrow> (Inr (Some err), lock, w1)
                | Inr ds \<Rightarrow>
                    (let deps' = deps\<lparr>Dependencies := ds\<rparr>;
                         dest = path_Join [chartPath, RequirementsFilename] in
                     case writeChartFile dest (yaml_Marshal_dependencies deps') w1 of
                       (Some err, w2) \<Rightarrow> (Inr (Some err), lock, w2)
                     | (None, w2) \<Rightarrow>
                         updateLockFile X chartPath lock (Dependencies deps')
                           sourceRepo targetRepo True syncTrusted ignoreTrusted w2))))"

subsection \<open>BuildDependencies\<close>

text \<open>
  A repository client is its \<^verbatim>\<open>Fetch\<close>: from a name and a version to the path of
  the downloaded archive, a file of the state, or to the message of its failure. The
  table \<open>t\<close> is a Go map: a missing key yields the nil client.
\<close>

type_synonym client = "string \<Rightarrow> string \<Rightarrow> string + string"

text \<open>
  \<^verbatim>\<open>multierror.Append\<close>: nothing and one error is that error; appending to an
  aggregate extends it; appending to a plain error starts an aggregate of the two.
  \<open>errors_of\<close> lists what a returned error enumerates.
\<close>

definition multierror_Append :: "error option \<Rightarrow> error \<Rightarrow> error option" where
  "multierror_Append errs e =
     (case errs of
        None \<Rightarrow> Some e
      | Some (Multierror es) \<Rightarrow> Some (Multierror (es @ [e]))
      | Some e0 \<Rightarrow> Some (Multierror [e0, e]))"

definition errors_of :: "error option \<Rightarrow> error list" where
  "errors_of errs =
     (case errs of None \<Rightarrow> [] | Some (Multierror es) \<Rightarrow> es | Some e \<Rightarrow> [e])"

text \<open>Lines 189 to 201: which client serves a dependency, decided on the repository
  URL that the entry holds when the loop reaches it.\<close>

definition fetch_origin :: "ext \<Rightarrow> Repo list \<Rightarrow> Repo list \<Rightarrow> Dependency \<Rightarrow> origin" where
  "fetch_origin X syncTrusted ignoreTrusted dep =
     (let depRepo = \<lparr>Url = Repository dep, Kind = UNKNOWN\<rparr> in
      if ShouldIgnoreRepo X depRepo syncTrusted ignoreTrusted
      then SourceSide (GetRepoLocationId X (Repository dep))
      else TargetSide)"

definition client_at :: "client \<Rightarrow> (32 word \<Rightarrow> client option) \<Rightarrow> origin \<Rightarrow> client option" where
  "client_at r t og = (case og of SourceSide l \<Rightarrow> t l | TargetSide \<Rightarrow> Some r)"

definition dep_id :: "Dependency \<Rightarrow> string" where
  "dep_id dep = Name dep @ ''-'' @ Version dep"

definition dep_file :: "string \<Rightarrow> Dependency \<Rightarrow> string" where
  "dep_file chartPath dep = path_Join [chartPath, ''charts'', dep_id dep @ ''.tgz'']"

fun BuildDependencies_loop ::
  "ext \<Rightarrow> string \<Rightarrow> client \<Rightarrow> (32 word \<Rightarrow> client option) \<Rightarrow> Repo list \<Rightarrow> Repo list
     \<Rightarrow> Dependency list \<Rightarrow> error option \<Rightarrow> world \<Rightarrow> (panic + error option) \<times> world" where
  "BuildDependencies_loop X chartPath r t syncTrusted ignoreTrusted [] errs w = (Inr errs, w)"
| "BuildDependencies_loop X chartPath r t syncTrusted ignoreTrusted (dep # deps) errs w =
     (let id = dep_id dep;
          og = fetch_origin X syncTrusted ignoreTrusted dep in
      case client_at r t og of
        None \<Rightarrow> (Inl NilPointerDereference, w)
      | Some repoClient \<Rightarrow>
          (let w1 = log (EvFetch og (Name dep) (Version dep)) w in
           case repoClient (Name dep) (Version dep) of
             Inl msg \<Rightarrow>
               BuildDependencies_loop X chartPath r t syncTrusted ignoreTrusted deps
                 (multierror_Append errs (Fetching id (ClientError msg))) w1
           | Inr depTgz \<Rightarrow>
               (let depFile = dep_file chartPath dep in
                case utils_CopyFile depFile depTgz w1 of
                  (Some err, w2) \<Rightarrow>
                    BuildDependencies_loop X chartPath r t syncTrusted ignoreTrusted deps
                      (multierror_Append errs (Copying id depFile err)) w2
                | (None, w2) \<Rightarrow>
                    BuildDependencies_loop X chartPath r t syncTrusted ignoreTrusted deps errs w2)))"

text \<open>Step 2 (lines 175 to 220): the authoritative list is the lock's entries when there
  is a lock, else the declarations read from the metadata.\<close>

definition authoritative_deps :: "Lock option \<Rightarrow> Dependency list option \<Rightarrow> Dependency list option" where
  "authoritative_deps lock depsFromMetadata =
     (case lock of
        Some l \<Rightarrow> lock_Dependencies l
      | None \<Rightarrow> (case depsFromMetadata of Some ds \<Rightarrow> Some ds | None \<Rightarrow> None))"

definition BuildDependencies_step2 ::
  "ext \<Rightarrow> string \<Rightarrow> client \<Rightarrow> (32 word \<Rightarrow> client option) \<Rightarrow> Repo list \<Rightarrow> Repo list
     \<Rightarrow> Lock option \<Rightarrow> Dependency list option \<Rightarrow> world \<Rightarrow> (panic + error option) \<times> world" where
  "BuildDependencies_step2 X chartPath r t syncTrusted ignoreTrusted lock depsFromMetadata w =
     (let deps = authoritative_deps lock depsFromMetadata in
      case deps of
        None \<Rightarrow> (Inr None, w)
      | Some ds \<Rightarrow> BuildDependencies_loop X chartPath r t syncTrusted ignoreTrusted ds None w)"

text \<open>The switch on the API version (lines 162 to 173), followed by step 2.\<close>

definition BuildDependencies_update ::
  "ext \<Rightarrow> string \<Rightarrow> client \<Rightarrow> Repo option \<Rightarrow> Repo option \<Rightarrow> (32 word \<Rightarrow> client option)
     \<Rightarrow> Repo list \<Rightarrow> Repo list \<Rightarrow> Lock option \<Rightarrow> string \<Rightarrow> Dependency list option \<Rightarrow> world
     \<Rightarrow> (panic + error option) \<times> world" where
  "BuildDependencies_update X chartPath r sourceRepo targetRepo t syncTrusted ignoreTrusted
       lock apiVersion depsFromMetadata w =
     (if apiVersion = APIV1 then
        (case updateRequirementsFile X chartPath lock sourceRepo targetRepo syncTrusted ignoreTrusted w of
           (Inl p, lock', w1) \<Rightarrow> (Inl p, w1)
         | (Inr (Some err), lock', w1) \<Rightarrow> (Inr (Some err), w1)
         | (Inr None, lock', w1) \<Rightarrow>
             BuildDependencies_step2 X chartPath r t syncTrusted ignoreTrusted lock' depsFromMetadata w1)
      else if apiVersion = APIV2 then
        (case updateChartMetadataFile X chartPath lock sourceRepo targetRepo syncTrusted ignoreTrusted w of
           (Inl p, lock', w1) \<Rightarrow> (Inl p, w1)
         | (Inr (Some err), lock', w1) \<Rightarrow> (Inr (Some err), w1)
         | (Inr None, lock', w1) \<Rightarrow>
             BuildDependencies_step2 X chartPath r t syncTrusted ignoreTrusted lock' depsFromMetadata w1)
      else (Inr (Some (UnrecognisedApiVersion apiVersion)), w))"

text \<open>Lines 145 to 160: without a lock file the metadata decides.\<close>

definition BuildDependencies_resolve ::
  "ext \<Rightarrow> string \<Rightarrow> client \<Rightarrow> Repo option \<Rightarrow> Repo option \<Rightarrow> (32 word \<Rightarrow> client option)
     \<Rightarrow> Repo list \<Rightarrow> Repo list \<Rightarrow> Lock option \<Rightarrow> string \<Rightarrow> world
     \<Rightarrow> (panic + error option) \<times> world" where
  "BuildDependencies_resolve X chartPath r sourceRepo targetRepo t syncTrusted ignoreTrusted
       lock apiVersion w =
     (if apiVersion = [] then
        (case LoadChartfile (path_Join [chartPath, ChartFilename]) w of
           (Inl err, w1) \<Rightarrow> (Inr (Some err), w1)
         | (Inr metadata, w1) \<Rightarrow>
             if APIVersion metadata = chart_APIVersionV2
             then BuildDependencies_update X chartPath r sourceRepo targetRepo t syncTrusted
                    ignoreTrusted lock APIV2 (meta_Dependencies metadata) w1
             else (Inr None, w1))
      else BuildDependencies_update X chartPath r sourceRepo targetRepo t syncTrusted
             ignoreTrusted lock apiVersion None w)"

definition BuildDependencies ::
  "ext \<Rightarrow> string \<Rightarrow> client \<Rightarrow> Repo option \<Rightarrow> Repo option \<Rightarrow> (32 word \<Rightarrow> client option)
     \<Rightarrow> Repo list \<Rightarrow> Repo list \<Rightarrow> world \<Rightarrow> (panic + error option) \<times> world" where
  "BuildDependencies X chartPath r sourceRepo targetRepo t syncTrusted ignoreTrusted w =
     (case os_RemoveAll (path_Join [chartPath, ''charts'']) w of
        (Some err, w1) \<Rightarrow> (Inr (Some err), w1)
      | (None, w1) \<Rightarrow>
          (case os_Mkdir (path_Join [chartPath, ''charts'']) w1 of
             (Some err, w2) \<Rightarrow> (Inr (Some err), w2)
           | (None, w2) \<Rightarrow>
               (case GetChartLock chartPath w2 of
                  (Inl err, w3) \<Rightarrow> (Inr (Some err), w3)
                | (Inr lock, w3) \<Rightarrow>
                    (case GetLockAPIVersion chartPath w3 of
                       (Inl err, w4) \<Rightarrow> (Inr (Some err), w4)
                     | (Inr apiVersion, w4) \<Rightarrow>
                         BuildDependencies_resolve X chartPath r sourceRepo targetRepo t
                           syncTrusted ignoreTrusted lock apiVersion w4))))"

subsection \<open>Notions used to state the properties\<close>

text \<open>
  The fetch events of a trace, and the event that the loop logs for an entry. The
  result of the fetch that the loop makes for an entry: \<open>None\<close> when the selected
  client is nil. The dependency that a recorded failure names. The errors that report
  malformed lock or metadata content.
\<close>

fun is_fetch :: "event \<Rightarrow> bool" where
  "is_fetch (EvFetch og n v) = True"
| "is_fetch e = False"

definition fetch_event :: "ext \<Rightarrow> Repo list \<Rightarrow> Repo list \<Rightarrow> Dependency \<Rightarrow> event" where
  "fetch_event X syncTrusted ignoreTrusted dep =
     EvFetch (fetch_origin X syncTrusted ignoreTrusted dep) (Name dep) (Version dep)"

definition fetch_result ::
  "ext \<Rightarrow> client \<Rightarrow> (32 word \<Rightarrow> client option) \<Rightarrow> Repo list \<Rightarrow> Repo list \<Rightarrow> Dependency
     \<Rightarrow> (string + string) option" where
  "fetch_result X r t syncTrusted ignoreTrusted dep =
     (case client_at r t (fetch_origin X syncTrusted ignoreTrusted dep) of
        None \<Rightarrow> None
      | Some repoClient \<Rightarrow> Some (repoClient (Name dep) (Version dep)))"

fun is_write :: "event \<Rightarrow> bool" where
  "is_write (EvWriteFile p) = True"
| "is_write e = False"

text \<open>The elements of a slice: none for the nil slice.\<close>

definition slice :: "'a list option \<Rightarrow> 'a list" where
  "slice xs = (case xs of None \<Rightarrow> [] | Some ys \<Rightarrow> ys)"

fun failure_id :: "error \<Rightarrow> string" where
  "failure_id (Fetching i e) = i"
| "failure_id (Copying i f e) = i"
| "failure_id e = []"

fun is_parse_error :: "error \<Rightarrow> bool" where
  "is_parse_error (YamlError s) = True"
| "is_parse_error (Unmarshaling f e) = True"
| "is_parse_error e = False"

text \<open>The body of the loop of step 2 for one entry whose client is not nil: the failure
  it records, if any, and the state it leaves.\<close>

definition build_one ::
  "string \<Rightarrow> client \<Rightarrow> origin \<Rightarrow> Dependency \<Rightarrow> world \<Rightarrow> error option \<times> world" where
  "build_one chartPath repoClient og dep w =
     (let w1 = log (EvFetch og (Name dep) (Version dep)) w in
      case repoClient (Name dep) (Version dep) of
        Inl msg \<Rightarrow> (Some (Fetching (dep_id dep) (ClientError msg)), w1)
      | Inr depTgz \<Rightarrow>
          (case utils_CopyFile (dep_file chartPath dep) depTgz w1 of
             (Some err, w2) \<Rightarrow> (Some (Copying (dep_id dep) (dep_file chartPath dep) err), w2)
           | (None, w2) \<Rightarrow> (None, w2)))"

text \<open>
  The four package files of a chart, and the relation between two states of which the
  later extends the trace of the earlier by calls that are no fetches and differs
  from it on package files only.
\<close>

definition pkg_paths :: "string \<Rightarrow> string set" where
  "pkg_paths chartPath =
     {path_Join [chartPath, ChartFilename], path_Join [chartPath, RequirementsFilename],
      path_Join [chartPath, RequirementsLockFilename], path_Join [chartPath, ChartLockFilename]}"

definition quiet_step :: "string \<Rightarrow> world \<Rightarrow> world \<Rightarrow> bool" where
  "quiet_step chartPath w w' =
     ((\<exists>rest. trace w' = trace w @ rest \<and> filter is_fetch rest = []) \<and>
      (\<forall>q. q \<notin> pkg_paths chartPath \<longrightarrow> files w' q = files w q))"

text \<open>The iterations one after the other, none skipped: the failures they record, in
  order, and the state after the last. (It stops at a nil client, where the loop
  panics.)\<close>

fun run_deps ::
  "ext \<Rightarrow> string \<Rightarrow> client \<Rightarrow> (32 word \<Rightarrow> client option) \<Rightarrow> Repo list \<Rightarrow> Repo list
     \<Rightarrow> Dependency list \<Rightarrow> world \<Rightarrow> error list \<times> world" where
  "run_deps X chartPath r t syncTrusted ignoreTrusted [] w = ([], w)"
| "run_deps X chartPath r t syncTrusted ignoreTrusted (dep # deps) w =
     (case client_at r t (fetch_origin X syncTrusted ignoreTrusted dep) of
        None \<Rightarrow> ([], w)
      | Some repoClient \<Rightarrow>
          (case build_one chartPath repoClient (fetch_origin X syncTrusted ignoreTrusted dep) dep w of
             (e, w1) \<Rightarrow>
               (case run_deps X chartPath r t syncTrusted ignoreTrusted deps w1 of
                  (fs, w') \<Rightarrow> ((case e of None \<Rightarrow> [] | Some x \<Rightarrow> [x]) @ fs, w'))))"

subsection \<open>Reference collaborators\<close>

text \<open>
  Modelled from the spec: an instance of the collaborators, for running the functions
  above on concrete packages. The trust classifier is the spec's
  \<^verbatim>\<open>isIgnored(repositoryURL, syncList, ignoreList)\<close>, a pure function of the URL
  and the two lists: a repository is ignored when the ignore list names its URL and
  the sync list does not. The location identifier is a checksum of the URL. The URL
  codec covers URLs of the shape \<^verbatim>\<open>scheme://host/path\<close>. The serialiser and the
  sum are stand-ins of the right types. The theorems below that quantify over \<open>X\<close>
  hold for every instance.
\<close>

definition ref_ShouldIgnoreRepo :: "Repo \<Rightarrow> Repo list \<Rightarrow> Repo list \<Rightarrow> bool" where
  "ref_ShouldIgnoreRepo repo syncTrusted ignoreTrusted =
     (Url repo \<in> set (map Url ignoreTrusted) \<and> Url repo \<notin> set (map Url syncTrusted))"

definition ref_GetRepoLocationId :: "string \<Rightarrow> 32 word" where
  "ref_GetRepoLocationId u = word_of_nat (sum_list (map of_char u))"

fun split_scheme :: "string \<Rightarrow> string \<Rightarrow> (string \<times> string) option" where
  "split_scheme acc [] = None"
| "split_scheme acc (c # cs) =
     (if c = CHR '':'' \<and> take 2 cs = ''//'' then Some (rev acc, drop 2 cs)
      else split_scheme (c # acc) cs)"

definition ref_url_Parse :: "string \<Rightarrow> string + URL" where
  "ref_url_Parse s =
     (case split_scheme [] s of
        None \<Rightarrow> Inl ''missing protocol scheme''
      | Some (sch, rest) \<Rightarrow>
          Inr \<lparr>Scheme = sch, Opaque = [], User = [],
               Host = takeWhile (\<lambda>c. c \<noteq> CHR ''/'') rest,
               Path = dropWhile (\<lambda>c. c \<noteq> CHR ''/'') rest,
               RawQuery = [], Fragment = []\<rparr>)"

definition ref_url_String :: "URL \<Rightarrow> string" where
  "ref_url_String u = Scheme u @ ''://'' @ Host u @ Path u"

definition ref_show_deps :: "Dependency list option \<Rightarrow> string" where
  "ref_show_deps ds =
     (case ds of
        None \<Rightarrow> ''null''
      | Some xs \<Rightarrow>
          ''['' @ concat (map (\<lambda>d. Name d @ '','' @ Version d @ '','' @ Repository d @ '';'') xs)
            @ '']'')"

definition ref_json_Marshal ::
  "Dependency list option \<times> Dependency list option \<Rightarrow> string + string" where
  "ref_json_Marshal p = Inr (''['' @ ref_show_deps (fst p) @ '','' @ ref_show_deps (snd p) @ '']'')"

definition ref_sha256_Sum :: "string \<Rightarrow> 256 word" where
  "ref_sha256_Sum s = word_of_nat (foldl (\<lambda>h c. 31 * h + of_char c) 7 s)"

definition ref_ext :: ext where
  "ref_ext = \<lparr>ShouldIgnoreRepo = ref_ShouldIgnoreRepo,
     GetRepoLocationId = ref_GetRepoLocationId,
     url_Parse = ref_url_Parse, url_String = ref_url_String,
     json_Marshal = ref_json_Marshal, sha256_Sum = ref_sha256_Sum\<rparr>"

text \<open>A dependency entry with the three fields of the spec's data model set.\<close>

definition mk_dep :: "string \<Rightarrow> string \<Rightarrow> string \<Rightarrow> Dependency" where
  "mk_dep n v u = \<lparr>Name = n, Version = v, Repository = u, Condition = [], Tags = [],
     Enabled = False, ImportValues = [], Alias = []\<rparr>"

definition mk_doc :: "string \<Rightarrow> Dependency list option \<Rightarrow> yaml_doc" where
  "mk_doc api ds = \<lparr>y_apiVersion = api, y_name = ''app'', y_version = ''0.1.0'',
     y_dependencies = ds, y_generated = [], y_digest = []\<rparr>"

definition dep_key :: "Dependency \<Rightarrow> string \<times> string \<times> string" where
  "dep_key dep = (Name dep, Version dep, Repository dep)"

subsection \<open>Example packages\<close>

text \<open>
  A source repository, an OCI target, and one trusted repository on the ignore list.
  \<open>legacy_pkg\<close> is a Legacy package whose declaration names the trusted repository
  by an alias while its lock holds the URL.
\<close>

definition ex_source :: "Repo option" where
  "ex_source = Some \<lparr>Url = ''http://src/charts'', Kind = HELM\<rparr>"

definition ex_target :: "Repo option" where
  "ex_target = Some \<lparr>Url = ''https://tgt/charts'', Kind = OCI\<rparr>"

definition ex_ignore :: "Repo list" where
  "ex_ignore = [\<lparr>Url = ''http://trusted/charts'', Kind = HELM\<rparr>]"

definition ex_ignore_source :: "Repo list" where
  "ex_ignore_source = [\<lparr>Url = ''http://src/charts'', Kind = HELM\<rparr>]"

definition legacy_pkg :: world where
  "legacy_pkg = \<lparr>files =
      [''p'' \<mapsto> Dir,
       ''p/Chart.yaml'' \<mapsto> File (Yaml (mk_doc ''v1'' None)),
       ''p/requirements.yaml'' \<mapsto> File (Yaml (mk_doc [] (Some
          [mk_dep ''redis'' ''1.0.0'' ''http://src/charts'',
           mk_dep ''etcd'' ''1.2.3'' ''@trusted'']))),
       ''p/requirements.lock'' \<mapsto> File (Yaml (mk_doc [] (Some
          [mk_dep ''redis'' ''1.0.0'' ''http://src/charts'',
           mk_dep ''etcd'' ''1.2.3'' ''http://trusted/charts''])))],
     trace = []\<rparr>"

definition legacy_lock :: Lock where
  "legacy_lock = \<lparr>Generated = [], Digest = [], lock_Dependencies = Some
      [mk_dep ''redis'' ''1.0.0'' ''http://src/charts'',
       mk_dep ''etcd'' ''1.2.3'' ''http://trusted/charts'']\<rparr>"

text \<open>
  \<open>modern_pkg\<close> is a Modern package with a lock that mirrors its declarations.
  \<open>inline_pkg\<close> is a Modern package that declares three dependencies in its
  metadata and has no lock; its \<^verbatim>\<open>charts/\<close> folder holds a stale archive, and
  the archives the clients hand back lie under \<^verbatim>\<open>cache/\<close>.
\<close>

definition modern_pkg :: world where
  "modern_pkg = \<lparr>files =
      [''p'' \<mapsto> Dir,
       ''p/Chart.yaml'' \<mapsto> File (Yaml (mk_doc ''v2'' (Some
          [mk_dep ''redis'' ''1.0.0'' ''http://src/charts'',
           mk_dep ''etcd'' ''1.2.3'' ''http://trusted/charts'']))),
       ''p/Chart.lock'' \<mapsto> File (Yaml (mk_doc [] (Some
          [mk_dep ''redis'' ''1.0.0'' ''http://src/charts'',
           mk_dep ''etcd'' ''1.2.3'' ''http://trusted/charts'']))),
       ''p/charts'' \<mapsto> Dir,
       ''cache/redis-1.0.0.tgz'' \<mapsto> File (Blob ''redis archive''),
       ''cache/etcd-1.2.3.tgz'' \<mapsto> File (Blob ''etcd archive'')],
     trace = []\<rparr>"

definition modern_lock :: Lock where
  "modern_lock = \<lparr>Generated = [], Digest = [], lock_Dependencies = Some
      [mk_dep ''redis'' ''1.0.0'' ''http://src/charts'',
       mk_dep ''etcd'' ''1.2.3'' ''http://trusted/charts'']\<rparr>"

definition inline_deps :: "Dependency list" where
  "inline_deps =
     [mk_dep ''redis'' ''1.0.0'' ''http://src/charts'',
      mk_dep ''etcd'' ''1.2.3'' ''http://src/charts'',
      mk_dep ''nginx'' ''2.0.0'' ''http://other/charts'']"

definition inline_pkg :: world where
  "inline_pkg = \<lparr>files =
      [''p'' \<mapsto> Dir,
       ''p/Chart.yaml'' \<mapsto> File (Yaml (mk_doc ''v2'' (Some inline_deps))),
       ''p/charts'' \<mapsto> Dir,
       ''p/charts/stale-0.0.1.tgz'' \<mapsto> File (Blob ''stale''),
       ''cache/redis-1.0.0.tgz'' \<mapsto> File (Blob ''redis archive''),
       ''cache/etcd-1.2.3.tgz'' \<mapsto> File (Blob ''etcd archive''),
       ''cache/nginx-2.0.0.tgz'' \<mapsto> File (Blob ''nginx archive'')],
     trace = []\<rparr>"

text \<open>\<open>broken_pkg\<close> is a Modern package whose lock file is not YAML.\<close>

definition broken_pkg :: world where
  "broken_pkg = \<lparr>files =
      [''p'' \<mapsto> Dir,
       ''p/Chart.yaml'' \<mapsto> File (Yaml (mk_doc ''v2'' (Some inline_deps))),
       ''p/Chart.lock'' \<mapsto> File (Blob ''dependencies: [''),
       ''p/charts'' \<mapsto> Dir,
       ''p/charts/stale-0.0.1.tgz'' \<mapsto> File (Blob ''stale'')],
     trace = []\<rparr>"

text \<open>\<open>pinned_pkg\<close> is a Modern package that declares \<^verbatim>\<open>redis\<close> at the source
  repository while its lock holds it at the trusted repository.\<close>

definition pinned_pkg :: world where
  "pinned_pkg = \<lparr>files =
      [''p'' \<mapsto> Dir,
       ''p/Chart.yaml'' \<mapsto> File (Yaml (mk_doc ''v2'' (Some
          [mk_dep ''redis'' ''1.0.0'' ''http://src/charts'']))),
       ''p/Chart.lock'' \<mapsto> File (Yaml (mk_doc [] (Some
          [mk_dep ''redis'' ''1.0.0'' ''http://trusted/charts'']))),
       ''cache/redis-1.0.0.tgz'' \<mapsto> File (Blob ''redis archive'')],
     trace = []\<rparr>"

text \<open>\<open>blocked_pkg\<close> has a regular file where the chart path should be.\<close>

definition blocked_pkg :: world where
  "blocked_pkg = \<lparr>files = [''p'' \<mapsto> File (Blob ''not a chart'')], trace = []\<rparr>"

text \<open>A client that serves every chart from the cache, and one whose transport fails
  for \<^verbatim>\<open>etcd\<close>.\<close>

definition cache_client :: client where
  "cache_client n v = Inr (''cache/'' @ n @ ''-'' @ v @ ''.tgz'')"

definition flaky_client :: client where
  "flaky_client n v =
     (if n = ''etcd'' then Inl ''transport error'' else Inr (''cache/'' @ n @ ''-'' @ v @ ''.tgz''))"

definition no_clients :: "32 word \<Rightarrow> client option" where
  "no_clients l = None"

definition all_clients :: "32 word \<Rightarrow> client option" where
  "all_clients l = Some cache_client"

section \<open>Properties\<close>

subsection \<open>Paths\<close>

lemma path_Join2: "n \<noteq> [] \<Longrightarrow> path_Join [cp, n] = (if cp = [] then n else cp @ ''/'' @ n)"
  by (simp add: path_Join_def)

lemma path_Join3: "a \<noteq> [] \<Longrightarrow> n \<noteq> [] \<Longrightarrow>
   path_Join [cp, a, n] = (if cp = [] then a @ ''/'' @ n else cp @ ''/'' @ a @ ''/'' @ n)"
  by (simp add: path_Join_def)

lemma path_Dir_append: "CHR ''/'' \<notin> set n \<Longrightarrow> path_Dir (p @ CHR ''/'' # n) = p"
proof -
  assume a: "CHR ''/'' \<notin> set n"
  have "dropWhile (\<lambda>c. c \<noteq> CHR ''/'') (rev n @ CHR ''/'' # rev p) = CHR ''/'' # rev p"
    using a by (auto simp add: dropWhile_append3)
  then show ?thesis by (simp add: path_Dir_def)
qed

lemma path_Dir_plain: "CHR ''/'' \<notin> set n \<Longrightarrow> path_Dir n = []"
proof -
  assume a: "CHR ''/'' \<notin> set n"
  then have h: "dropWhile (\<lambda>c. c \<noteq> CHR ''/'') (rev n) = []"
    by simp blast
  show ?thesis unfolding path_Dir_def h by simp
qed

lemma path_Dir_Join2: "n \<noteq> [] \<Longrightarrow> CHR ''/'' \<notin> set n \<Longrightarrow> path_Dir (path_Join [cp, n]) = cp"
  by (simp add: path_Join2 path_Dir_append path_Dir_plain)

subsection \<open>The rewrite loops\<close>

lemma requirements_loop_eq:
  "updateRequirementsFile_loop X s t sy ig ds = updateChartMetadataFile_loop X s t sy ig ds"
  by (induction ds) (simp_all split: sum.splits)

lemma lock_loop_eq:
  "updateLockFile_loop X s t sy ig ds = updateChartMetadataFile_loop X s t sy ig ds"
  by (induction ds) (simp_all split: sum.splits)

lemma loop_Inr:
  "getDependencyRepoURL X t = Inr T \<Longrightarrow>
   updateChartMetadataFile_loop X s t sy ig ds = Inr (map (rewrite_entry X s sy ig T) ds)"
  by (induction ds) (simp_all add: rewrite_entry_def needs_rewrite_def)

lemma loop_Inl:
  "getDependencyRepoURL X t = Inl e \<Longrightarrow>
   updateChartMetadataFile_loop X s t sy ig ds =
     (if \<exists>d\<in>set ds. needs_rewrite X s sy ig d then Inl e else Inr ds)"
  by (induction ds) (simp_all add: needs_rewrite_def)

lemma rewrite_entry_twice:
  "rewrite_entry X s sy ig T (rewrite_entry X s sy ig T d) = rewrite_entry X s sy ig T d"
  by (simp add: rewrite_entry_def)

lemma loop_idem:
  assumes "updateChartMetadataFile_loop X s t sy ig ds = Inr ds'"
  shows "updateChartMetadataFile_loop X s t sy ig ds' = Inr ds'"
proof (cases "getDependencyRepoURL X t")
  case (Inr T)
  from assms have "ds' = map (rewrite_entry X s sy ig T) ds"
    by (simp add: loop_Inr [OF Inr])
  then show ?thesis
    by (simp add: loop_Inr [OF Inr] rewrite_entry_twice)
next
  case (Inl e)
  from assms have "ds' = ds"
    by (simp add: loop_Inl [OF Inl] split: if_splits)
  with assms show ?thesis by simp
qed

text \<open>
  Claim C5. The rewrite is idempotent: whenever one of the three rewrite loops,
  for fixed source, target and trust lists, turns a list \<open>ds\<close> into \<open>ds'\<close>, the
  same loop run on \<open>ds'\<close> returns \<open>ds'\<close> again.
\<close>

theorem rewrite_idempotent:
  "(updateChartMetadataFile_loop X s t sy ig ds = Inr ds' \<longrightarrow>
      updateChartMetadataFile_loop X s t sy ig ds' = Inr ds') \<and>
   (updateRequirementsFile_loop X s t sy ig ds = Inr ds' \<longrightarrow>
      updateRequirementsFile_loop X s t sy ig ds' = Inr ds') \<and>
   (updateLockFile_loop X s t sy ig ds = Inr ds' \<longrightarrow>
      updateLockFile_loop X s t sy ig ds' = Inr ds')"
  by (simp add: requirements_loop_eq lock_loop_eq loop_idem)

subsection \<open>getDependencyRepoURL\<close>

text \<open>
  Claim C4. For every target kind other than OCI (a nil target included),
  \<open>getDependencyRepoURL\<close> returns the configured target URL unchanged. For an OCI
  target whose URL parses, it returns the printed form of the parsed URL with the
  scheme set to exactly \<open>oci\<close> and every other component (host, path, opaque part,
  user, query, fragment) as parsed; if the URL does not parse, the parse error is
  returned and no URL.
\<close>

theorem getDependencyRepoURL_canonical:
  "(GetKind targetRepo \<noteq> OCI \<longrightarrow> getDependencyRepoURL X targetRepo = Inr (GetUrl targetRepo)) \<and>
   (GetKind targetRepo = OCI \<longrightarrow>
      (\<forall>u. url_Parse X (GetUrl targetRepo) = Inr u \<longrightarrow>
         (\<exists>u'. getDependencyRepoURL X targetRepo = Inr (url_String X u') \<and>
               Scheme u' = ''oci'' \<and> Host u' = Host u \<and> Path u' = Path u \<and>
               Opaque u' = Opaque u \<and> User u' = User u \<and>
               RawQuery u' = RawQuery u \<and> Fragment u' = Fragment u)) \<and>
      (\<forall>msg. url_Parse X (GetUrl targetRepo) = Inl msg \<longrightarrow>
         getDependencyRepoURL X targetRepo = Inl (UrlError msg)))"
proof (intro conjI impI allI)
  fix u assume "GetKind targetRepo = OCI" "url_Parse X (GetUrl targetRepo) = Inr u"
  then have "getDependencyRepoURL X targetRepo = Inr (url_String X (u\<lparr>Scheme := ''oci''\<rparr>))"
    by (simp add: getDependencyRepoURL_def)
  then show "\<exists>u'. getDependencyRepoURL X targetRepo = Inr (url_String X u') \<and>
               Scheme u' = ''oci'' \<and> Host u' = Host u \<and> Path u' = Path u \<and>
               Opaque u' = Opaque u \<and> User u' = User u \<and>
               RawQuery u' = RawQuery u \<and> Fragment u' = Fragment u"
    by (intro exI [of _ "u\<lparr>Scheme := ''oci''\<rparr>"]) simp
qed (simp_all add: getDependencyRepoURL_def)

lemmas const_defs = ChartFilename_def RequirementsFilename_def RequirementsLockFilename_def
  ChartLockFilename_def APIV1_def APIV2_def chart_APIVersionV2_def

lemmas ref_defs = ref_ext_def ref_ShouldIgnoreRepo_def ref_GetRepoLocationId_def ref_url_Parse_def
  ref_url_String_def ref_json_Marshal_def ref_show_deps_def mk_dep_def mk_doc_def

text \<open>
  With the reference codec: \<^verbatim>\<open>https://registry.example.com/charts\<close> becomes
  \<^verbatim>\<open>oci://registry.example.com/charts\<close> for an OCI target and stays as it is
  for a HARBOR target.
\<close>

theorem getDependencyRepoURL_canonical_witness:
  "GetKind (Some \<lparr>Url = ''https://registry.example.com/charts'', Kind = OCI\<rparr>) = OCI \<and>
   url_Parse ref_ext ''https://registry.example.com/charts'' =
     Inr \<lparr>Scheme = ''https'', Opaque = [], User = [], Host = ''registry.example.com'',
          Path = ''/charts'', RawQuery = [], Fragment = []\<rparr> \<and>
   getDependencyRepoURL ref_ext (Some \<lparr>Url = ''https://registry.example.com/charts'', Kind = OCI\<rparr>)
     = Inr ''oci://registry.example.com/charts'' \<and>
   GetKind (Some \<lparr>Url = ''https://registry.example.com/charts'', Kind = HARBOR\<rparr>) \<noteq> OCI \<and>
   getDependencyRepoURL ref_ext (Some \<lparr>Url = ''https://registry.example.com/charts'', Kind = HARBOR\<rparr>)
     = Inr ''https://registry.example.com/charts''"
  using getDependencyRepoURL_canonical
          [of "Some \<lparr>Url = ''https://registry.example.com/charts'', Kind = OCI\<rparr>" ref_ext]
        getDependencyRepoURL_canonical
          [of "Some \<lparr>Url = ''https://registry.example.com/charts'', Kind = HARBOR\<rparr>" ref_ext]
  by (simp add: GetKind_def GetUrl_def ref_defs getDependencyRepoURL_def)

text \<open>
  Three entries (from the source, from an ignored trusted repository, from elsewhere):
  the first pass rewrites the first and the third, the second pass changes nothing.
\<close>

theorem rewrite_idempotent_witness:
  "updateChartMetadataFile_loop ref_ext (Some \<lparr>Url = ''http://src/charts'', Kind = HELM\<rparr>)
      (Some \<lparr>Url = ''https://tgt/charts'', Kind = OCI\<rparr>) []
      [\<lparr>Url = ''http://trusted/charts'', Kind = HELM\<rparr>]
      [mk_dep ''redis'' ''1.0.0'' ''http://src/charts'',
       mk_dep ''etcd'' ''1.2.3'' ''http://trusted/charts'',
       mk_dep ''nginx'' ''2.0.0'' ''http://other/charts'']
     = Inr [mk_dep ''redis'' ''1.0.0'' ''oci://tgt/charts'',
            mk_dep ''etcd'' ''1.2.3'' ''http://trusted/charts'',
            mk_dep ''nginx'' ''2.0.0'' ''oci://tgt/charts''] \<and>
   updateChartMetadataFile_loop ref_ext (Some \<lparr>Url = ''http://src/charts'', Kind = HELM\<rparr>)
      (Some \<lparr>Url = ''https://tgt/charts'', Kind = OCI\<rparr>) []
      [\<lparr>Url = ''http://trusted/charts'', Kind = HELM\<rparr>]
      [mk_dep ''redis'' ''1.0.0'' ''oci://tgt/charts'',
       mk_dep ''etcd'' ''1.2.3'' ''http://trusted/charts'',
       mk_dep ''nginx'' ''2.0.0'' ''oci://tgt/charts'']
     = Inr [mk_dep ''redis'' ''1.0.0'' ''oci://tgt/charts'',
            mk_dep ''etcd'' ''1.2.3'' ''http://trusted/charts'',
            mk_dep ''nginx'' ''2.0.0'' ''oci://tgt/charts'']"
proof -
  have first: "updateChartMetadataFile_loop ref_ext (Some \<lparr>Url = ''http://src/charts'', Kind = HELM\<rparr>)
      (Some \<lparr>Url = ''https://tgt/charts'', Kind = OCI\<rparr>) []
      [\<lparr>Url = ''http://trusted/charts'', Kind = HELM\<rparr>]
      [mk_dep ''redis'' ''1.0.0'' ''http://src/charts'',
       mk_dep ''etcd'' ''1.2.3'' ''http://trusted/charts'',
       mk_dep ''nginx'' ''2.0.0'' ''http://other/charts'']
     = Inr [mk_dep ''redis'' ''1.0.0'' ''oci://tgt/charts'',
            mk_dep ''etcd'' ''1.2.3'' ''http://trusted/charts'',
            mk_dep ''nginx'' ''2.0.0'' ''oci://tgt/charts'']"
    by (simp add: GetKind_def GetUrl_def ref_defs getDependencyRepoURL_def)
  from rewrite_idempotent [THEN conjunct1, rule_format, OF first] first
  show ?thesis by simp
qed

subsection \<open>GetLockAPIVersion\<close>

lemma utils_FileExists_ok:
  "n \<noteq> [] \<Longrightarrow> CHR ''/'' \<notin> set n \<Longrightarrow> \<forall>c. files w cp \<noteq> Some (File c) \<Longrightarrow>
   utils_FileExists (path_Join [cp, n]) w =
     (Inr (files w (path_Join [cp, n]) \<noteq> None), log (EvStat (path_Join [cp, n])) w)"
  by (auto simp add: utils_FileExists_def path_Dir_Join2 Let_def split: option.splits node.splits)

lemma files_log [simp]: "files (log e w) = files w"
  by (simp add: log_def)

lemma trace_log [simp]: "trace (log e w) = trace w @ [e]"
  by (simp add: log_def)

lemma GetLockAPIVersion_eq:
  assumes "\<forall>c. files w cp \<noteq> Some (File c)"
  shows "GetLockAPIVersion cp w =
     (if files w (path_Join [cp, RequirementsLockFilename]) \<noteq> None
      then (Inr APIV1, log (EvStat (path_Join [cp, RequirementsLockFilename])) w)
      else if files w (path_Join [cp, ChartLockFilename]) \<noteq> None
      then (Inr APIV2, log (EvStat (path_Join [cp, ChartLockFilename]))
                         (log (EvStat (path_Join [cp, RequirementsLockFilename])) w))
      else (Inr [], log (EvStat (path_Join [cp, ChartLockFilename]))
                         (log (EvStat (path_Join [cp, RequirementsLockFilename])) w)))"
proof -
  have a: "utils_FileExists (path_Join [cp, RequirementsLockFilename]) w =
     (Inr (files w (path_Join [cp, RequirementsLockFilename]) \<noteq> None),
      log (EvStat (path_Join [cp, RequirementsLockFilename])) w)"
    using assms by (intro utils_FileExists_ok) (simp_all add: const_defs)
  have b: "utils_FileExists (path_Join [cp, ChartLockFilename])
             (log (EvStat (path_Join [cp, RequirementsLockFilename])) w) =
     (Inr (files w (path_Join [cp, ChartLockFilename]) \<noteq> None),
      log (EvStat (path_Join [cp, ChartLockFilename]))
        (log (EvStat (path_Join [cp, RequirementsLockFilename])) w))"
    using assms utils_FileExists_ok [of ChartLockFilename "log (EvStat (path_Join [cp, RequirementsLockFilename])) w" cp]
    by (simp add: const_defs)
  show ?thesis
    unfolding GetLockAPIVersion_def a by (simp add: b)
qed

text \<open>
  Claim C7. For a package root that is not itself a regular file,
  \<open>GetLockAPIVersion\<close> answers by the presence of the lock file names alone: the
  Legacy tag when \<^verbatim>\<open>requirements.lock\<close> exists (whether or not
  \<^verbatim>\<open>Chart.lock\<close> exists too), the Modern tag when only \<^verbatim>\<open>Chart.lock\<close>
  exists, and the empty tag, without an error, when neither exists. The three answers
  are distinct and the file system is left as it was.
\<close>

theorem GetLockAPIVersion_by_presence:
  assumes "\<forall>c. files w chartPath \<noteq> Some (File c)"
  shows "fst (GetLockAPIVersion chartPath w) =
           (if files w (path_Join [chartPath, RequirementsLockFilename]) \<noteq> None then Inr APIV1
            else if files w (path_Join [chartPath, ChartLockFilename]) \<noteq> None then Inr APIV2
            else Inr [])
         \<and> files (snd (GetLockAPIVersion chartPath w)) = files w
         \<and> APIV1 \<noteq> APIV2 \<and> APIV1 \<noteq> [] \<and> APIV2 \<noteq> []"
  by (simp add: GetLockAPIVersion_eq [OF assms]) (simp add: const_defs)

subsection \<open>hashDeps\<close>

lemma hexdigit_inj: "m < 16 \<Longrightarrow> n < 16 \<Longrightarrow> hexdigit m = hexdigit n \<Longrightarrow> m = n"
proof -
  assume m: "m < 16" and n: "n < 16" and e: "hexdigit m = hexdigit n"
  have v: "\<And>k. k < 16 \<Longrightarrow> (of_char (hexdigit k) :: nat) = (if k < 10 then 48 + k else 87 + k)"
    by (simp add: hexdigit_def)
  from e have "(of_char (hexdigit m) :: nat) = of_char (hexdigit n)" by simp
  with v [OF m] v [OF n] show ?thesis by (simp split: if_splits)
qed

lemma length_hex [simp]: "length (hex_EncodeToString h) = 64"
  by (simp add: hex_EncodeToString_def)

lemma hex_inj:
  assumes "hex_EncodeToString h = hex_EncodeToString h'"
  shows "h = h'"
proof (rule bit_word_eqI)
  fix n assume "n < LENGTH(256)"
  then have n: "n < 256" by simp
  define q where "q = n div 4"
  define r where "r = n mod 4"
  have q: "q < 64" and r: "r < 4" and nqr: "n = 4 * q + r"
    using n by (simp_all add: q_def r_def) 
  define i where "i = 63 - q"
  have i: "i < 64" and qi: "4 * (63 - i) = 4 * q" using q by (simp_all add: i_def)
  from assms have "\<forall>j\<in>set [0..<64].
      hexdigit (unat (take_bit 4 (drop_bit (4 * (63 - j)) h))) =
      hexdigit (unat (take_bit 4 (drop_bit (4 * (63 - j)) h')))"
    unfolding hex_EncodeToString_def map_eq_conv .
  with i have "hexdigit (unat (take_bit 4 (drop_bit (4 * q) h))) =
      hexdigit (unat (take_bit 4 (drop_bit (4 * q) h')))"
    using qi by (metis atLeastLessThan_iff set_upt zero_le)
  moreover have "unat (take_bit 4 x) < 16" for x :: "256 word"
  proof -
    have "take_bit 4 (unat x) < 2 ^ 4" by (rule take_bit_nat_less_exp)
    then show ?thesis by (simp add: unsigned_take_bit_eq)
  qed
  ultimately have "unat (take_bit 4 (drop_bit (4 * q) h)) = unat (take_bit 4 (drop_bit (4 * q) h'))"
    by (intro hexdigit_inj) auto
  then have "take_bit 4 (drop_bit (4 * q) h) = take_bit 4 (drop_bit (4 * q) h')"
    by (rule unsigned_word_eqI)
  then have "bit (take_bit 4 (drop_bit (4 * q) h)) r = bit (take_bit 4 (drop_bit (4 * q) h')) r"
    by simp
  then show "bit h n = bit h' n"
    using r by (simp add: bit_take_bit_iff bit_drop_bit_eq nqr)
qed

text \<open>
  Claim C6. \<open>hashDeps\<close> is a function of the ordered pair of lists alone: equal pairs
  get the identical result. When the pair serialises, the digest is \<^verbatim>\<open>sha256:\<close>
  followed by the 64 hexadecimal digits of the SHA-256 sum of the serialisation, with no
  error, and the digest text determines the sum: two pairs that serialise get the same
  digest string exactly when their serialisations have the same sum. So a change to
  either list changes the digest string whenever it changes the serialisation and the
  two serialisations do not collide under SHA-256; the serialiser and the sum are library
  code, and nothing that \<open>hashDeps\<close> does itself loses a difference. When the pair does
  not serialise, the digest is empty and the error is returned.
\<close>

theorem hashDeps_digest:
  "((req, lock) = (req', lock') \<longrightarrow> hashDeps X req lock = hashDeps X req' lock') \<and>
   (json_Marshal X (req, lock) = Inr d \<longrightarrow>
      hashDeps X req lock = (''sha256:'' @ hex_EncodeToString (sha256_Sum X d), None) \<and>
      length (fst (hashDeps X req lock)) = 71 \<and>
      (\<forall>req2 lock2 d2. json_Marshal X (req2, lock2) = Inr d2 \<longrightarrow>
         (fst (hashDeps X req lock) = fst (hashDeps X req2 lock2)
            \<longleftrightarrow> sha256_Sum X d = sha256_Sum X d2) \<and>
         (d \<noteq> d2 \<and> (sha256_Sum X d = sha256_Sum X d2 \<longrightarrow> d = d2) \<longrightarrow>
            fst (hashDeps X req lock) \<noteq> fst (hashDeps X req2 lock2)) \<and>
         ((req, lock) \<noteq> (req2, lock2) \<and> (d = d2 \<longrightarrow> (req, lock) = (req2, lock2)) \<and>
          (sha256_Sum X d = sha256_Sum X d2 \<longrightarrow> d = d2) \<longrightarrow>
            fst (hashDeps X req lock) \<noteq> fst (hashDeps X req2 lock2)))) \<and>
   (\<forall>msg. json_Marshal X (req, lock) = Inl msg \<longrightarrow>
      hashDeps X req lock = ([], Some (JsonError msg)))"
  by (auto simp add: hashDeps_def provenance_Digest_def dest: hex_inj)

lemma ref_sums_differ:
  "sha256_Sum ref_ext ''[[a,1,u;],null]'' \<noteq> sha256_Sum ref_ext ''[[a,1,u;],[]]''"
  by (simp add: ref_ext_def ref_sha256_Sum_def)

text \<open>
  A nil and an empty lock list serialise differently and their sums differ: the two
  digest strings differ.
\<close>

theorem hashDeps_digest_witness:
  "json_Marshal ref_ext (Some [mk_dep ''a'' ''1'' ''u''], None) = Inr ''[[a,1,u;],null]'' \<and>
   json_Marshal ref_ext (Some [mk_dep ''a'' ''1'' ''u''], Some []) = Inr ''[[a,1,u;],[]]'' \<and>
   (Some [mk_dep ''a'' ''1'' ''u''], None :: Dependency list option) \<noteq>
     (Some [mk_dep ''a'' ''1'' ''u''], Some ([] :: Dependency list)) \<and>
   sha256_Sum ref_ext ''[[a,1,u;],null]'' \<noteq> sha256_Sum ref_ext ''[[a,1,u;],[]]'' \<and>
   hashDeps ref_ext (Some [mk_dep ''a'' ''1'' ''u'']) None =
     (''sha256:'' @ hex_EncodeToString (sha256_Sum ref_ext ''[[a,1,u;],null]''), None) \<and>
   hashDeps ref_ext (Some [mk_dep ''a'' ''1'' ''u'']) (Some []) =
     (''sha256:'' @ hex_EncodeToString (sha256_Sum ref_ext ''[[a,1,u;],[]]''), None) \<and>
   fst (hashDeps ref_ext (Some [mk_dep ''a'' ''1'' ''u'']) None) \<noteq>
     fst (hashDeps ref_ext (Some [mk_dep ''a'' ''1'' ''u'']) (Some []))"
proof -
  let ?r = "Some [mk_dep ''a'' ''1'' ''u'']"
  have a: "json_Marshal ref_ext (?r, None) = Inr ''[[a,1,u;],null]''"
    by (simp add: ref_defs)
  have b: "json_Marshal ref_ext (?r, Some []) = Inr ''[[a,1,u;],[]]''"
    by (simp add: ref_defs)
  have ne: "''[[a,1,u;],null]'' \<noteq> ''[[a,1,u;],[]]''" by simp
  have pne: "(?r, None :: Dependency list option) \<noteq> (?r, Some ([] :: Dependency list))" by simp
  note i1 = hashDeps_digest [of ?r None ?r None ref_ext "''[[a,1,u;],null]''"]
  note i2 = hashDeps_digest [of ?r "Some []" ?r "Some []" ref_ext "''[[a,1,u;],[]]''"]
  from i1 have imp1: "json_Marshal ref_ext (?r, None) = Inr ''[[a,1,u;],null]'' \<longrightarrow>
      hashDeps ref_ext ?r None = (''sha256:'' @ hex_EncodeToString (sha256_Sum ref_ext ''[[a,1,u;],null]''), None) \<and>
      length (fst (hashDeps ref_ext ?r None)) = 71 \<and>
      (\<forall>req2 lock2 d2. json_Marshal ref_ext (req2, lock2) = Inr d2 \<longrightarrow>
         (fst (hashDeps ref_ext ?r None) = fst (hashDeps ref_ext req2 lock2)
            \<longleftrightarrow> sha256_Sum ref_ext ''[[a,1,u;],null]'' = sha256_Sum ref_ext d2) \<and>
         (''[[a,1,u;],null]'' \<noteq> d2 \<and> (sha256_Sum ref_ext ''[[a,1,u;],null]'' = sha256_Sum ref_ext d2 \<longrightarrow> ''[[a,1,u;],null]'' = d2) \<longrightarrow>
            fst (hashDeps ref_ext ?r None) \<noteq> fst (hashDeps ref_ext req2 lock2)) \<and>
         ((?r, None) \<noteq> (req2, lock2) \<and> (''[[a,1,u;],null]'' = d2 \<longrightarrow> (?r, None) = (req2, lock2)) \<and>
          (sha256_Sum ref_ext ''[[a,1,u;],null]'' = sha256_Sum ref_ext d2 \<longrightarrow> ''[[a,1,u;],null]'' = d2) \<longrightarrow>
            fst (hashDeps ref_ext ?r None) \<noteq> fst (hashDeps ref_ext req2 lock2)))"
    by (elim conjE)
  from imp1 a have body1:
     "hashDeps ref_ext ?r None = (''sha256:'' @ hex_EncodeToString (sha256_Sum ref_ext ''[[a,1,u;],null]''), None) \<and>
      length (fst (hashDeps ref_ext ?r None)) = 71 \<and>
      (\<forall>req2 lock2 d2. json_Marshal ref_ext (req2, lock2) = Inr d2 \<longrightarrow>
         (fst (hashDeps ref_ext ?r None) = fst (hashDeps ref_ext req2 lock2)
            \<longleftrightarrow> sha256_Sum ref_ext ''[[a,1,u;],null]'' = sha256_Sum ref_ext d2) \<and>
         (''[[a,1,u;],null]'' \<noteq> d2 \<and> (sha256_Sum ref_ext ''[[a,1,u;],null]'' = sha256_Sum ref_ext d2 \<longrightarrow> ''[[a,1,u;],null]'' = d2) \<longrightarrow>
            fst (hashDeps ref_ext ?r None) \<noteq> fst (hashDeps ref_ext req2 lock2)) \<and>
         ((?r, None) \<noteq> (req2, lock2) \<and> (''[[a,1,u;],null]'' = d2 \<longrightarrow> (?r, None) = (req2, lock2)) \<and>
          (sha256_Sum ref_ext ''[[a,1,u;],null]'' = sha256_Sum ref_ext d2 \<longrightarrow> ''[[a,1,u;],null]'' = d2) \<longrightarrow>
            fst (hashDeps ref_ext ?r None) \<noteq> fst (hashDeps ref_ext req2 lock2)))"
    by (rule mp)
  from body1 have h1: "hashDeps ref_ext ?r None =
     (''sha256:'' @ hex_EncodeToString (sha256_Sum ref_ext ''[[a,1,u;],null]''), None)"
    by (rule conjunct1)
  from body1 have all: "\<forall>req2 lock2 d2. json_Marshal ref_ext (req2, lock2) = Inr d2 \<longrightarrow>
         (fst (hashDeps ref_ext ?r None) = fst (hashDeps ref_ext req2 lock2)
            \<longleftrightarrow> sha256_Sum ref_ext ''[[a,1,u;],null]'' = sha256_Sum ref_ext d2) \<and>
         (''[[a,1,u;],null]'' \<noteq> d2 \<and> (sha256_Sum ref_ext ''[[a,1,u;],null]'' = sha256_Sum ref_ext d2 \<longrightarrow> ''[[a,1,u;],null]'' = d2) \<longrightarrow>
            fst (hashDeps ref_ext ?r None) \<noteq> fst (hashDeps ref_ext req2 lock2)) \<and>
         ((?r, None) \<noteq> (req2, lock2) \<and> (''[[a,1,u;],null]'' = d2 \<longrightarrow> (?r, None) = (req2, lock2)) \<and>
          (sha256_Sum ref_ext ''[[a,1,u;],null]'' = sha256_Sum ref_ext d2 \<longrightarrow> ''[[a,1,u;],null]'' = d2) \<longrightarrow>
            fst (hashDeps ref_ext ?r None) \<noteq> fst (hashDeps ref_ext req2 lock2))"
    by (elim conjE)
  from i2 have imp2: "json_Marshal ref_ext (?r, Some []) = Inr ''[[a,1,u;],[]]'' \<longrightarrow>
      hashDeps ref_ext ?r (Some []) = (''sha256:'' @ hex_EncodeToString (sha256_Sum ref_ext ''[[a,1,u;],[]]''), None) \<and>
      length (fst (hashDeps ref_ext ?r (Some []))) = 71 \<and>
      (\<forall>req2 lock2 d2. json_Marshal ref_ext (req2, lock2) = Inr d2 \<longrightarrow>
         (fst (hashDeps ref_ext ?r (Some [])) = fst (hashDeps ref_ext req2 lock2)
            \<longleftrightarrow> sha256_Sum ref_ext ''[[a,1,u;],[]]'' = sha256_Sum ref_ext d2) \<and>
         (''[[a,1,u;],[]]'' \<noteq> d2 \<and> (sha256_Sum ref_ext ''[[a,1,u;],[]]'' = sha256_Sum ref_ext d2 \<longrightarrow> ''[[a,1,u;],[]]'' = d2) \<longrightarrow>
            fst (hashDeps ref_ext ?r (Some [])) \<noteq> fst (hashDeps ref_ext req2 lock2)) \<and>
         ((?r, (Some [])) \<noteq> (req2, lock2) \<and> (''[[a,1,u;],[]]'' = d2 \<longrightarrow> (?r, (Some [])) = (req2, lock2)) \<and>
          (sha256_Sum ref_ext ''[[a,1,u;],[]]'' = sha256_Sum ref_ext d2 \<longrightarrow> ''[[a,1,u;],[]]'' = d2) \<longrightarrow>
            fst (hashDeps ref_ext ?r (Some [])) \<noteq> fst (hashDeps ref_ext req2 lock2)))"
    by (elim conjE)
  from mp [OF imp2 b] have h2: "hashDeps ref_ext ?r (Some []) =
     (''sha256:'' @ hex_EncodeToString (sha256_Sum ref_ext ''[[a,1,u;],[]]''), None)"
    by (rule conjunct1)
  from all [rule_format, OF b]
  have step: "(?r, None :: Dependency list option) \<noteq> (?r, Some ([] :: Dependency list)) \<and> (''[[a,1,u;],null]'' = ''[[a,1,u;],[]]'' \<longrightarrow> (?r, None :: Dependency list option) = (?r, Some ([] :: Dependency list))) \<and>
          (sha256_Sum ref_ext ''[[a,1,u;],null]'' = sha256_Sum ref_ext ''[[a,1,u;],[]]'' \<longrightarrow> ''[[a,1,u;],null]'' = ''[[a,1,u;],[]]'') \<longrightarrow>
            fst (hashDeps ref_ext ?r None) \<noteq> fst (hashDeps ref_ext ?r (Some []))"
    by (rule conjunct2 [OF conjunct2])
  from ne have inj: "''[[a,1,u;],null]'' = ''[[a,1,u;],[]]'' \<longrightarrow> (?r, None :: Dependency list option) = (?r, Some ([] :: Dependency list))" by simp
  from ref_sums_differ have nc: "sha256_Sum ref_ext ''[[a,1,u;],null]'' = sha256_Sum ref_ext ''[[a,1,u;],[]]'' \<longrightarrow> ''[[a,1,u;],null]'' = ''[[a,1,u;],[]]''"
    by simp
  from step conjI [OF pne conjI [OF inj nc]]
  have d: "fst (hashDeps ref_ext ?r None) \<noteq> fst (hashDeps ref_ext ?r (Some []))"
    by (rule mp)
  from a b pne ref_sums_differ h1 h2 d show ?thesis by (intro conjI)
qed

subsection \<open>Package paths\<close>

lemma pkg_not_charts:
  "n \<in> {ChartFilename, RequirementsFilename, RequirementsLockFilename, ChartLockFilename} \<Longrightarrow>
   path_Join [cp, n] \<noteq> path_Join [cp, ''charts''] \<and>
   \<not> under (path_Join [cp, ''charts'']) (path_Join [cp, n])"
  by (auto simp add: path_Join_def under_def const_defs prefix_def)

lemma pkg_parent:
  "n \<in> {ChartFilename, RequirementsFilename, RequirementsLockFilename, ChartLockFilename} \<Longrightarrow>
   path_Dir (path_Join [cp, n]) = cp"
  by (auto simp add: const_defs intro!: path_Dir_Join2)

lemma pkg_distinct:
  "path_Join [cp, ChartFilename] \<noteq> path_Join [cp, ChartLockFilename]"
  "path_Join [cp, ChartLockFilename] \<noteq> path_Join [cp, ChartFilename]"
  "path_Join [cp, RequirementsFilename] \<noteq> path_Join [cp, RequirementsLockFilename]"
  "path_Join [cp, RequirementsLockFilename] \<noteq> path_Join [cp, RequirementsFilename]"
  "path_Join [cp, RequirementsLockFilename] \<noteq> path_Join [cp, ChartLockFilename]"
  "path_Join [cp, ChartLockFilename] \<noteq> path_Join [cp, RequirementsLockFilename]"
  "path_Join [cp, RequirementsLockFilename] \<noteq> path_Join [cp, ChartFilename]"
  "path_Join [cp, ChartFilename] \<noteq> path_Join [cp, RequirementsLockFilename]"
  "path_Join [cp, RequirementsFilename] \<noteq> path_Join [cp, ChartLockFilename]"
  "path_Join [cp, ChartLockFilename] \<noteq> path_Join [cp, RequirementsFilename]"
  "path_Join [cp, RequirementsFilename] \<noteq> path_Join [cp, ChartFilename]"
  "path_Join [cp, ChartFilename] \<noteq> path_Join [cp, RequirementsFilename]"
  by (simp_all add: path_Join_def const_defs)

lemma pkg_not_root:
  "n \<in> {ChartFilename, RequirementsFilename, RequirementsLockFilename, ChartLockFilename} \<Longrightarrow>
   path_Join [cp, n] \<noteq> cp \<and> cp \<noteq> path_Join [cp, n]"
  by (auto simp add: path_Join_def const_defs)

lemma dep_file_under: "under (path_Join [cp, ''charts'']) (dep_file cp dep)"
  by (simp add: dep_file_def path_Join_def under_def)

lemma under_not_self: "\<not> under p p"
  by (simp add: under_def prefix_def)

lemma dep_file_not_charts: "dep_file cp dep \<noteq> path_Join [cp, ''charts'']"
  using dep_file_under [of cp dep] under_not_self by metis

lemma dep_file_parent:
  "CHR ''/'' \<notin> set (dep_id dep) \<Longrightarrow> path_Dir (dep_file cp dep) = path_Join [cp, ''charts'']"
proof -
  assume a: "CHR ''/'' \<notin> set (dep_id dep)"
  have "path_Dir (path_Join [cp, ''charts''] @ CHR ''/'' # (dep_id dep @ ''.tgz'')) = path_Join [cp, ''charts'']"
    using a by (intro path_Dir_append) simp
  moreover have "dep_file cp dep = path_Join [cp, ''charts''] @ CHR ''/'' # (dep_id dep @ ''.tgz'')"
    by (simp add: dep_file_def path_Join_def)
  ultimately show ?thesis by simp
qed

subsection \<open>The calls on the file system\<close>

lemma ioutil_ReadFile_file:
  "files w p = Some (File c) \<Longrightarrow> ioutil_ReadFile p w = (Inr c, log (EvReadFile p) w)"
  by (simp add: ioutil_ReadFile_def)

lemma ioutil_ReadFile_frame:
  "files (snd (ioutil_ReadFile p w)) = files w \<and> trace (snd (ioutil_ReadFile p w)) = trace w @ [EvReadFile p]"
  by (simp add: ioutil_ReadFile_def Let_def split: option.splits node.splits)

lemma ioutil_ReadFile_Inr:
  "ioutil_ReadFile p w = (Inr c, w1) \<Longrightarrow> files w p = Some (File c) \<and> w1 = log (EvReadFile p) w"
  by (auto simp add: ioutil_ReadFile_def Let_def split: option.splits node.splits)

lemma ioutil_ReadFile_Inl:
  "ioutil_ReadFile p w = (Inl e, w1) \<Longrightarrow> e = OsError ''open'' p \<and> w1 = log (EvReadFile p) w"
  by (auto simp add: ioutil_ReadFile_def Let_def split: option.splits node.splits)

lemma writeChartFile_ok:
  "files w p \<noteq> Some Dir \<Longrightarrow> is_directory w (path_Dir p) \<Longrightarrow>
   writeChartFile p v w = (None, (log (EvWriteFile p) w)\<lparr>files := (files w)(p \<mapsto> File (Yaml v))\<rparr>)"
  by (simp add: writeChartFile_def ioutil_WriteFile_def)

lemma writeChartFile_cases:
  "writeChartFile p v w = (r, w1) \<Longrightarrow>
   (r = Some (OsError ''open'' p) \<and> w1 = log (EvWriteFile p) w) \<or>
   (r = None \<and> w1 = (log (EvWriteFile p) w)\<lparr>files := (files w)(p \<mapsto> File (Yaml v))\<rparr>)"
  by (auto simp add: writeChartFile_def ioutil_WriteFile_def Let_def split: if_splits)

lemma over_slice_Inr:
  "getDependencyRepoURL X t = Inr T \<Longrightarrow>
   over_slice (updateChartMetadataFile_loop X s t sy ig) ds
     = Inr (map_option (map (rewrite_entry X s sy ig T)) ds)"
  by (simp add: over_slice_def loop_Inr split: option.splits)

subsection \<open>The update functions, when nothing fails\<close>

lemma lock_loop_fun: "updateLockFile_loop X s t sy ig = updateChartMetadataFile_loop X s t sy ig"
  by (rule ext) (rule lock_loop_eq)

lemma requirements_loop_fun:
  "updateRequirementsFile_loop X s t sy ig = updateChartMetadataFile_loop X s t sy ig"
  by (rule ext) (rule requirements_loop_eq)

lemma updateLockFile_ok:
  assumes T: "getDependencyRepoURL X t = Inr T"
    and json: "json_Marshal X (deps, map_option (map (rewrite_entry X s sy ig T)) (lock_Dependencies l)) = Inr data"
    and nd: "files w (path_Join [cp, if legacy then RequirementsLockFilename else ChartLockFilename]) \<noteq> Some Dir"
    and root: "is_directory w cp"
  shows "updateLockFile X cp (Some l) deps s t legacy sy ig w =
     (Inr None,
      Some (l\<lparr>lock_Dependencies := map_option (map (rewrite_entry X s sy ig T)) (lock_Dependencies l),
              Digest := ''sha256:'' @ hex_EncodeToString (sha256_Sum X data)\<rparr>),
      (log (EvWriteFile (path_Join [cp, if legacy then RequirementsLockFilename else ChartLockFilename])) w)
        \<lparr>files := (files w)(path_Join [cp, if legacy then RequirementsLockFilename else ChartLockFilename]
            \<mapsto> File (Yaml (yaml_Marshal_Lock
                 (l\<lparr>lock_Dependencies := map_option (map (rewrite_entry X s sy ig T)) (lock_Dependencies l),
                    Digest := ''sha256:'' @ hex_EncodeToString (sha256_Sum X data)\<rparr>))))\<rparr>)"
proof -
  show ?thesis
    unfolding updateLockFile_def
    using nd root json
    by (cases legacy)
       (simp_all add: lock_loop_fun over_slice_Inr [OF T] hashDeps_def provenance_Digest_def
          writeChartFile_ok pkg_parent Let_def)
qed

lemma is_directory_log [simp]: "is_directory (log e w) p = is_directory w p"
  by (simp add: is_directory_def)

lemma updateChartMetadataFile_written:
  assumes T: "getDependencyRepoURL X t = Inr T"
    and root: "is_directory w cp"
    and chart: "files w (path_Join [cp, ChartFilename]) = Some (File (Yaml d))"
  shows "updateChartMetadataFile X cp lock s t sy ig w =
     (let rd = map_option (map (rewrite_entry X s sy ig T)) (y_dependencies d);
          w2 = (log (EvWriteFile (path_Join [cp, ChartFilename]))
                  (log (EvReadFile (path_Join [cp, ChartFilename])) w))
                \<lparr>files := (files w)(path_Join [cp, ChartFilename] \<mapsto>
                    File (Yaml (yaml_Marshal_Metadata ((Metadata_of d)\<lparr>meta_Dependencies := rd\<rparr>))))\<rparr>
      in if lock \<noteq> None then updateLockFile X cp lock rd s t False sy ig w2
         else (Inr None, lock, w2))"
  unfolding updateChartMetadataFile_def
  using root
  by (simp add: ioutil_ReadFile_file [OF chart] yaml_Unmarshal_def over_slice_Inr [OF T]
        writeChartFile_ok chart pkg_parent Let_def Metadata_of_def)

lemma updateRequirementsFile_written:
  assumes T: "getDependencyRepoURL X t = Inr T"
    and root: "is_directory w cp"
    and req: "files w (path_Join [cp, RequirementsFilename]) = Some (File (Yaml d))"
  shows "updateRequirementsFile X cp lock s t sy ig w =
     (let rd = map_option (map (rewrite_entry X s sy ig T)) (y_dependencies d);
          w2 = (log (EvWriteFile (path_Join [cp, RequirementsFilename]))
                  (log (EvReadFile (path_Join [cp, RequirementsFilename])) w))
                \<lparr>files := (files w)(path_Join [cp, RequirementsFilename] \<mapsto>
                    File (Yaml (yaml_Marshal_dependencies \<lparr>Dependencies = rd\<rparr>)))\<rparr>
      in updateLockFile X cp lock rd s t True sy ig w2)"
  unfolding updateRequirementsFile_def
  using root
  by (simp add: ioutil_ReadFile_file [OF req] yaml_Unmarshal_def requirements_loop_fun
        over_slice_Inr [OF T] writeChartFile_ok req pkg_parent Let_def dependencies_of_def)

text \<open>Both generations at once: \<open>legacy\<close> selects the Legacy files and function.\<close>

lemma rewrite_step_ok:
  assumes root: "is_directory w cp"
    and decl: "files w (path_Join [cp, if legacy then RequirementsFilename else ChartFilename])
                 = Some (File (Yaml d))"
    and nd: "files w (path_Join [cp, if legacy then RequirementsLockFilename else ChartLockFilename])
                 \<noteq> Some Dir"
    and T: "getDependencyRepoURL X t = Inr T"
    and json: "json_Marshal X (map_option (map (rewrite_entry X s sy ig T)) (y_dependencies d),
                               map_option (map (rewrite_entry X s sy ig T)) (lock_Dependencies l))
                 = Inr data"
    and run: "(if legacy then updateRequirementsFile X cp (Some l) s t sy ig w
              else updateChartMetadataFile X cp (Some l) s t sy ig w) = (res, lock', w')"
  shows "res = Inr None \<and>
    lock' = Some (l\<lparr>lock_Dependencies := map_option (map (rewrite_entry X s sy ig T)) (lock_Dependencies l),
                    Digest := ''sha256:'' @ hex_EncodeToString (sha256_Sum X data)\<rparr>) \<and>
    (\<exists>d'. files w' (path_Join [cp, if legacy then RequirementsFilename else ChartFilename])
                 = Some (File (Yaml d')) \<and>
          y_dependencies d' = map_option (map (rewrite_entry X s sy ig T)) (y_dependencies d)) \<and>
    (\<exists>d'. files w' (path_Join [cp, if legacy then RequirementsLockFilename else ChartLockFilename])
                 = Some (File (Yaml d')) \<and>
          y_dependencies d' = map_option (map (rewrite_entry X s sy ig T)) (lock_Dependencies l) \<and>
          y_digest d' = ''sha256:'' @ hex_EncodeToString (sha256_Sum X data))"
proof (cases legacy)
  case True
  let ?rd = "map_option (map (rewrite_entry X s sy ig T)) (y_dependencies d)"
  let ?w2 = "(log (EvWriteFile (path_Join [cp, RequirementsFilename]))
                (log (EvReadFile (path_Join [cp, RequirementsFilename])) w))
              \<lparr>files := (files w)(path_Join [cp, RequirementsFilename] \<mapsto>
                  File (Yaml (yaml_Marshal_dependencies \<lparr>Dependencies = ?rd\<rparr>)))\<rparr>"
  have r2: "is_directory ?w2 cp"
    using root by (auto simp add: is_directory_def pkg_not_root)
  have nd2: "files ?w2 (path_Join [cp, if True then RequirementsLockFilename else ChartLockFilename]) \<noteq> Some Dir"
    using nd True by (simp add: pkg_distinct)
  have "updateRequirementsFile X cp (Some l) s t sy ig w = updateLockFile X cp (Some l) ?rd s t True sy ig ?w2"
    using updateRequirementsFile_written [OF T root, of d "Some l" s sy ig] decl True
    by (simp add: Let_def)
  with run True
  have eq: "(res, lock', w') = updateLockFile X cp (Some l) ?rd s t True sy ig ?w2"
    by simp
  note ok = updateLockFile_ok [OF T json nd2 r2]
  from eq show ?thesis
    unfolding ok using True by (simp add: pkg_distinct yaml_Marshal_dependencies_def yaml_Marshal_Lock_def)
next
  case False
  let ?rd = "map_option (map (rewrite_entry X s sy ig T)) (y_dependencies d)"
  let ?w2 = "(log (EvWriteFile (path_Join [cp, ChartFilename]))
                (log (EvReadFile (path_Join [cp, ChartFilename])) w))
              \<lparr>files := (files w)(path_Join [cp, ChartFilename] \<mapsto>
                  File (Yaml (yaml_Marshal_Metadata ((Metadata_of d)\<lparr>meta_Dependencies := ?rd\<rparr>))))\<rparr>"
  have r2: "is_directory ?w2 cp"
    using root by (auto simp add: is_directory_def pkg_not_root)
  have nd2: "files ?w2 (path_Join [cp, if False then RequirementsLockFilename else ChartLockFilename]) \<noteq> Some Dir"
    using nd False by (simp add: pkg_distinct)
  have "updateChartMetadataFile X cp (Some l) s t sy ig w = updateLockFile X cp (Some l) ?rd s t False sy ig ?w2"
    using updateChartMetadataFile_written [OF T root, of d "Some l" s sy ig] decl False
    by (simp add: Let_def)
  with run False
  have eq: "(res, lock', w') = updateLockFile X cp (Some l) ?rd s t False sy ig ?w2"
    by simp
  note ok = updateLockFile_ok [OF T json nd2 r2]
  from eq show ?thesis
    unfolding ok using False by (simp add: pkg_distinct yaml_Marshal_Metadata_def yaml_Marshal_Lock_def)
qed

lemma rewrite_entry_source:
  "Repository e = GetUrl s \<Longrightarrow> Repository (rewrite_entry X s sy ig T e) = T"
  by (simp add: rewrite_entry_def needs_rewrite_def)

lemma rewrite_entry_keeps [simp]:
  "Name (rewrite_entry X s sy ig T e) = Name e"
  "Version (rewrite_entry X s sy ig T e) = Version e"
  by (simp_all add: rewrite_entry_def)

lemma needs_rewrite_url:
  "Repository e = Repository e' \<Longrightarrow> needs_rewrite X s sy ig e = needs_rewrite X s sy ig e'"
  unfolding needs_rewrite_def by (erule subst) (rule refl)

lemma rewrite_entry_same_url:
  assumes "Repository e = Repository e'"
  shows "Repository (rewrite_entry X s sy ig T e) = Repository (rewrite_entry X s sy ig T e')"
proof (cases "needs_rewrite X s sy ig e")
  case True
  with needs_rewrite_url [OF assms, of X s sy ig] show ?thesis
    by (simp add: rewrite_entry_def)
next
  case False
  with needs_rewrite_url [OF assms, of X s sy ig] assms show ?thesis
    by (simp add: rewrite_entry_def)
qed

lemma rewrite_entry_key:
  assumes "dep_key e = dep_key e'"
  shows "dep_key (rewrite_entry X s sy ig T e) = dep_key (rewrite_entry X s sy ig T e')"
proof -
  from assms have n: "Name e = Name e'" and v: "Version e = Version e'"
    and u: "Repository e = Repository e'"
    by (simp_all add: dep_key_def)
  show ?thesis
    unfolding dep_key_def
    using rewrite_entry_same_url [OF u, of X s sy ig T] n v by simp
qed

lemma map_key_rewrite:
  "map dep_key ds = map dep_key lds \<Longrightarrow>
   map dep_key (map (rewrite_entry X s sy ig T) ds) = map dep_key (map (rewrite_entry X s sy ig T) lds)"
proof (induction ds arbitrary: lds)
  case Nil
  then show ?case by simp
next
  case (Cons a ds)
  then obtain b lds' where l: "lds = b # lds'" by (cases lds) auto
  from Cons.prems l have h: "dep_key a = dep_key b" and t: "map dep_key ds = map dep_key lds'"
    by simp_all
  from Cons.IH [OF t] rewrite_entry_key [OF h, of X s sy ig T] l
  show ?case by simp
qed


lemma rewritten_lists:
  assumes root: "files w chartPath = Some Dir"
    and decl: "files w (path_Join [chartPath, if legacy then RequirementsFilename else ChartFilename])
                 = Some (File (Yaml d))"
    and nd: "files w (path_Join [chartPath, if legacy then RequirementsLockFilename else ChartLockFilename])
                 \<noteq> Some Dir"
    and T: "getDependencyRepoURL X targetRepo = Inr T"
    and json: "\<forall>p. \<exists>data. json_Marshal X p = Inr data"
    and declared: "y_dependencies d = Some ds"
    and locked: "lock_Dependencies l = Some lds"
    and run: "(if legacy
               then updateRequirementsFile X chartPath (Some l) sourceRepo targetRepo syncTrusted ignoreTrusted w
               else updateChartMetadataFile X chartPath (Some l) sourceRepo targetRepo syncTrusted ignoreTrusted w)
              = (res, lock', w')"
  shows "res = Inr None \<and>
    (\<exists>d' ld'.
       files w' (path_Join [chartPath, if legacy then RequirementsFilename else ChartFilename])
         = Some (File (Yaml d')) \<and>
       files w' (path_Join [chartPath, if legacy then RequirementsLockFilename else ChartLockFilename])
         = Some (File (Yaml ld')) \<and>
       y_dependencies d' = Some (map (rewrite_entry X sourceRepo syncTrusted ignoreTrusted T) ds) \<and>
       y_dependencies ld' = Some (map (rewrite_entry X sourceRepo syncTrusted ignoreTrusted T) lds))"
proof -
  from json obtain data where
    j: "json_Marshal X (map_option (map (rewrite_entry X sourceRepo syncTrusted ignoreTrusted T)) (y_dependencies d),
           map_option (map (rewrite_entry X sourceRepo syncTrusted ignoreTrusted T)) (lock_Dependencies l)) = Inr data"
    by blast
  have r: "is_directory w chartPath" using root by (simp add: is_directory_def)
  from rewrite_step_ok [OF r decl nd T j run]
  show ?thesis
    unfolding declared locked by (elim conjE exE) (simp del: map_map)
qed

lemma rewrite_entry_url:
  "Repository (rewrite_entry X s sy ig T e) =
     (if Repository e = GetUrl s \<or> \<not> ShouldIgnoreRepo X \<lparr>Url = Repository e, Kind = UNKNOWN\<rparr> sy ig
      then T else Repository e)"
  by (simp add: rewrite_entry_def needs_rewrite_def)

text \<open>
  Claim C3, as amended. In a package whose declaration file and lock can be read and
  written, with a target that has a canonical dependency URL \<open>T\<close>, the rewrite step of
  either generation (\<open>updateRequirementsFile\<close> for Legacy, \<open>updateChartMetadataFile\<close>
  for Modern) succeeds, and every entry whose own repository equals the source
  repository's URL is written back with repository \<open>T\<close>: each declaration entry in the
  requirements or metadata file, and each lock entry in the lock file. Every entry is
  decided on the URL that the entry itself holds, a lock entry not on the URL of its
  declaration: it is written back with \<open>T\<close> when its own URL is the source URL or is
  not ignored by the classifier, and with its own URL otherwise.
\<close>

theorem source_entries_rewritten:
  assumes root: "files w chartPath = Some Dir"
    and decl: "files w (path_Join [chartPath, if legacy then RequirementsFilename else ChartFilename])
                 = Some (File (Yaml d))"
    and nd: "files w (path_Join [chartPath, if legacy then RequirementsLockFilename else ChartLockFilename])
                 \<noteq> Some Dir"
    and T: "getDependencyRepoURL X targetRepo = Inr T"
    and json: "\<forall>p. \<exists>data. json_Marshal X p = Inr data"
    and declared: "y_dependencies d = Some ds"
    and locked: "lock_Dependencies l = Some lds"
    and run: "(if legacy
               then updateRequirementsFile X chartPath (Some l) sourceRepo targetRepo syncTrusted ignoreTrusted w
               else updateChartMetadataFile X chartPath (Some l) sourceRepo targetRepo syncTrusted ignoreTrusted w)
              = (res, lock', w')"
  shows "res = Inr None \<and>
    (\<exists>d' ds'. files w' (path_Join [chartPath, if legacy then RequirementsFilename else ChartFilename])
                  = Some (File (Yaml d')) \<and>
       y_dependencies d' = Some ds' \<and> length ds' = length ds \<and>
       (\<forall>i<length ds. Repository (ds ! i) = GetUrl sourceRepo \<longrightarrow> Repository (ds' ! i) = T) \<and>
       (\<forall>i<length ds. Repository (ds' ! i) =
            (if Repository (ds ! i) = GetUrl sourceRepo \<or>
                \<not> ShouldIgnoreRepo X \<lparr>Url = Repository (ds ! i), Kind = UNKNOWN\<rparr> syncTrusted ignoreTrusted
             then T else Repository (ds ! i)))) \<and>
    (\<exists>d' lds'. files w' (path_Join [chartPath, if legacy then RequirementsLockFilename else ChartLockFilename])
                  = Some (File (Yaml d')) \<and>
       y_dependencies d' = Some lds' \<and> length lds' = length lds \<and>
       (\<forall>j<length lds. Repository (lds ! j) = GetUrl sourceRepo \<longrightarrow> Repository (lds' ! j) = T) \<and>
       (\<forall>j<length lds. Repository (lds' ! j) =
            (if Repository (lds ! j) = GetUrl sourceRepo \<or>
                \<not> ShouldIgnoreRepo X \<lparr>Url = Repository (lds ! j), Kind = UNKNOWN\<rparr> syncTrusted ignoreTrusted
             then T else Repository (lds ! j))))"
proof -
  let ?R = "rewrite_entry X sourceRepo syncTrusted ignoreTrusted T"
  from rewritten_lists [OF root decl nd T json declared locked run]
  obtain d' ld' where res: "res = Inr None"
    and fd: "files w' (path_Join [chartPath, if legacy then RequirementsFilename else ChartFilename])
         = Some (File (Yaml d'))"
    and fl: "files w' (path_Join [chartPath, if legacy then RequirementsLockFilename else ChartLockFilename])
         = Some (File (Yaml ld'))"
    and yd: "y_dependencies d' = Some (map ?R ds)"
    and yl: "y_dependencies ld' = Some (map ?R lds)"
    by blast
  have a: "\<forall>i<length ds. Repository (ds ! i) = GetUrl sourceRepo \<longrightarrow> Repository (map ?R ds ! i) = T"
    by (simp add: rewrite_entry_source)
  have b: "\<forall>j<length lds. Repository (lds ! j) = GetUrl sourceRepo \<longrightarrow> Repository (map ?R lds ! j) = T"
    by (simp add: rewrite_entry_source)
  have a': "\<forall>i<length ds. Repository (map ?R ds ! i) =
            (if Repository (ds ! i) = GetUrl sourceRepo \<or>
                \<not> ShouldIgnoreRepo X \<lparr>Url = Repository (ds ! i), Kind = UNKNOWN\<rparr> syncTrusted ignoreTrusted
             then T else Repository (ds ! i))"
    by (simp add: rewrite_entry_url)
  have b': "\<forall>j<length lds. Repository (map ?R lds ! j) =
            (if Repository (lds ! j) = GetUrl sourceRepo \<or>
                \<not> ShouldIgnoreRepo X \<lparr>Url = Repository (lds ! j), Kind = UNKNOWN\<rparr> syncTrusted ignoreTrusted
             then T else Repository (lds ! j))"
    by (simp add: rewrite_entry_url)
  have la: "length (map ?R ds) = length ds" and lb: "length (map ?R lds) = length lds" by simp_all
  have A: "\<exists>d' ds'. files w' (path_Join [chartPath, if legacy then RequirementsFilename else ChartFilename])
                  = Some (File (Yaml d')) \<and>
       y_dependencies d' = Some ds' \<and> length ds' = length ds \<and>
       (\<forall>i<length ds. Repository (ds ! i) = GetUrl sourceRepo \<longrightarrow> Repository (ds' ! i) = T) \<and>
       (\<forall>i<length ds. Repository (ds' ! i) =
            (if Repository (ds ! i) = GetUrl sourceRepo \<or>
                \<not> ShouldIgnoreRepo X \<lparr>Url = Repository (ds ! i), Kind = UNKNOWN\<rparr> syncTrusted ignoreTrusted
             then T else Repository (ds ! i)))"
    by (rule exI [of _ d'], rule exI [of _ "map ?R ds"]) (intro conjI fd yd la a a')
  have B: "\<exists>d' lds'. files w' (path_Join [chartPath, if legacy then RequirementsLockFilename else ChartLockFilename])
                  = Some (File (Yaml d')) \<and>
       y_dependencies d' = Some lds' \<and> length lds' = length lds \<and>
       (\<forall>j<length lds. Repository (lds ! j) = GetUrl sourceRepo \<longrightarrow> Repository (lds' ! j) = T) \<and>
       (\<forall>j<length lds. Repository (lds' ! j) =
            (if Repository (lds ! j) = GetUrl sourceRepo \<or>
                \<not> ShouldIgnoreRepo X \<lparr>Url = Repository (lds ! j), Kind = UNKNOWN\<rparr> syncTrusted ignoreTrusted
             then T else Repository (lds ! j)))"
    by (rule exI [of _ ld'], rule exI [of _ "map ?R lds"]) (intro conjI fl yl lb b b')
  from res A B show ?thesis by (intro conjI)
qed

text \<open>
  Claim C9, as amended. The rewrite step applies one and the same decision function to
  every declaration entry and every lock entry, each decided on the repository URL the
  entry itself holds, and changes nothing but the repository: both lists keep their
  names and versions in order, a declaration entry and a lock entry that held the same
  URL hold the same URL afterwards, and lists that agreed on (name, version,
  repository) before the step agree after it.
\<close>

theorem rewrite_keeps_agreement:
  assumes root: "files w chartPath = Some Dir"
    and decl: "files w (path_Join [chartPath, if legacy then RequirementsFilename else ChartFilename])
                 = Some (File (Yaml d))"
    and nd: "files w (path_Join [chartPath, if legacy then RequirementsLockFilename else ChartLockFilename])
                 \<noteq> Some Dir"
    and T: "getDependencyRepoURL X targetRepo = Inr T"
    and json: "\<forall>p. \<exists>data. json_Marshal X p = Inr data"
    and declared: "y_dependencies d = Some ds"
    and locked: "lock_Dependencies l = Some lds"
    and run: "(if legacy
               then updateRequirementsFile X chartPath (Some l) sourceRepo targetRepo syncTrusted ignoreTrusted w
               else updateChartMetadataFile X chartPath (Some l) sourceRepo targetRepo syncTrusted ignoreTrusted w)
              = (res, lock', w')"
  shows "res = Inr None \<and>
    (\<exists>d' ld' ds' lds'.
       files w' (path_Join [chartPath, if legacy then RequirementsFilename else ChartFilename])
         = Some (File (Yaml d')) \<and>
       files w' (path_Join [chartPath, if legacy then RequirementsLockFilename else ChartLockFilename])
         = Some (File (Yaml ld')) \<and>
       y_dependencies d' = Some ds' \<and> y_dependencies ld' = Some lds' \<and>
       map Name ds' = map Name ds \<and> map Version ds' = map Version ds \<and>
       map Name lds' = map Name lds \<and> map Version lds' = map Version lds \<and>
       (\<forall>i<length ds. \<forall>j<length lds.
          Repository (ds ! i) = Repository (lds ! j) \<longrightarrow> Repository (ds' ! i) = Repository (lds' ! j)) \<and>
       (map dep_key ds = map dep_key lds \<longrightarrow> map dep_key ds' = map dep_key lds'))"
proof -
  let ?R = "rewrite_entry X sourceRepo syncTrusted ignoreTrusted T"
  from rewritten_lists [OF root decl nd T json declared locked run]
  obtain d' ld' where res: "res = Inr None"
    and fd: "files w' (path_Join [chartPath, if legacy then RequirementsFilename else ChartFilename])
         = Some (File (Yaml d'))"
    and fl: "files w' (path_Join [chartPath, if legacy then RequirementsLockFilename else ChartLockFilename])
         = Some (File (Yaml ld'))"
    and yd: "y_dependencies d' = Some (map ?R ds)"
    and yl: "y_dependencies ld' = Some (map ?R lds)"
    by blast
  have nv: "map Name (map ?R ds) = map Name ds" "map Version (map ?R ds) = map Version ds"
       "map Name (map ?R lds) = map Name lds" "map Version (map ?R lds) = map Version lds"
    by simp_all
  have u: "\<forall>i<length ds. \<forall>j<length lds.
          Repository (ds ! i) = Repository (lds ! j) \<longrightarrow>
          Repository (map ?R ds ! i) = Repository (map ?R lds ! j)"
  proof (intro allI impI)
    fix i j assume i: "i < length ds" and j: "j < length lds"
      and e: "Repository (ds ! i) = Repository (lds ! j)"
    from rewrite_entry_same_url [OF e, of X sourceRepo syncTrusted ignoreTrusted T] i j
    show "Repository (map ?R ds ! i) = Repository (map ?R lds ! j)" by simp
  qed
  have k: "map dep_key ds = map dep_key lds \<longrightarrow> map dep_key (map ?R ds) = map dep_key (map ?R lds)"
    by (intro impI map_key_rewrite)
  have "\<exists>d' ld' ds' lds'.
       files w' (path_Join [chartPath, if legacy then RequirementsFilename else ChartFilename])
         = Some (File (Yaml d')) \<and>
       files w' (path_Join [chartPath, if legacy then RequirementsLockFilename else ChartLockFilename])
         = Some (File (Yaml ld')) \<and>
       y_dependencies d' = Some ds' \<and> y_dependencies ld' = Some lds' \<and>
       map Name ds' = map Name ds \<and> map Version ds' = map Version ds \<and>
       map Name lds' = map Name lds \<and> map Version lds' = map Version lds \<and>
       (\<forall>i<length ds. \<forall>j<length lds.
          Repository (ds ! i) = Repository (lds ! j) \<longrightarrow> Repository (ds' ! i) = Repository (lds' ! j)) \<and>
       (map dep_key ds = map dep_key lds \<longrightarrow> map dep_key ds' = map dep_key lds')"
    apply (rule exI [of _ d'], rule exI [of _ ld'])
    apply (rule exI [of _ "map ?R ds"], rule exI [of _ "map ?R lds"])
    apply (intro conjI)
    apply (rule fd fl yd yl nv u k)+
    done
  with res show ?thesis by (rule conjI)
qed

lemmas ex_defs = ex_source_def ex_target_def ex_ignore_def ex_ignore_source_def legacy_pkg_def legacy_lock_def
  modern_pkg_def modern_lock_def inline_pkg_def inline_deps_def broken_pkg_def blocked_pkg_def pinned_pkg_def cache_client_def flaky_client_def
  no_clients_def all_clients_def

lemma ex_target_url: "getDependencyRepoURL ref_ext ex_target = Inr ''oci://tgt/charts''"
  by (simp add: getDependencyRepoURL_def GetKind_def GetUrl_def ex_defs ref_defs)

lemma ref_json_total: "\<forall>p. \<exists>data. json_Marshal ref_ext p = Inr data"
  by (simp add: ref_ext_def ref_json_Marshal_def)

text \<open>
  The Legacy package: \<^verbatim>\<open>redis\<close> is declared and locked at the source URL, and both
  files hold it at the target's \<^verbatim>\<open>oci\<close> URL afterwards; \<^verbatim>\<open>etcd\<close>, declared at
  an alias and locked at the trusted URL, is rewritten in the declarations and kept in
  the lock.
\<close>

theorem source_entries_rewritten_witness:
  "files legacy_pkg ''p'' = Some Dir \<and>
   getDependencyRepoURL ref_ext ex_target = Inr ''oci://tgt/charts'' \<and>
   fst (updateRequirementsFile ref_ext ''p'' (Some legacy_lock) ex_source ex_target [] ex_ignore legacy_pkg)
     = Inr None \<and>
   (\<exists>d' ds'. files (snd (snd (updateRequirementsFile ref_ext ''p'' (Some legacy_lock) ex_source
                                ex_target [] ex_ignore legacy_pkg))) ''p/requirements.yaml''
                = Some (File (Yaml d')) \<and>
      y_dependencies d' = Some ds' \<and> length ds' = 2 \<and> Repository (ds' ! 0) = ''oci://tgt/charts'' \<and>
      Repository (ds' ! 1) = ''oci://tgt/charts'') \<and>
   (\<exists>d' lds'. files (snd (snd (updateRequirementsFile ref_ext ''p'' (Some legacy_lock) ex_source
                                ex_target [] ex_ignore legacy_pkg))) ''p/requirements.lock''
                = Some (File (Yaml d')) \<and>
      y_dependencies d' = Some lds' \<and> length lds' = 2 \<and> Repository (lds' ! 0) = ''oci://tgt/charts'' \<and>
      Repository (lds' ! 1) = ''http://trusted/charts'')"
proof -
  let ?run = "updateRequirementsFile ref_ext ''p'' (Some legacy_lock) ex_source ex_target [] ex_ignore legacy_pkg"
  let ?ds = "[mk_dep ''redis'' ''1.0.0'' ''http://src/charts'', mk_dep ''etcd'' ''1.2.3'' ''@trusted'']"
  let ?lds = "[mk_dep ''redis'' ''1.0.0'' ''http://src/charts'', mk_dep ''etcd'' ''1.2.3'' ''http://trusted/charts'']"
  have root: "files legacy_pkg ''p'' = Some Dir"
    by (simp add: legacy_pkg_def)
  have decl: "files legacy_pkg (path_Join [''p'', if True then RequirementsFilename else ChartFilename])
                = Some (File (Yaml (mk_doc [] (Some ?ds))))"
    by (simp add: legacy_pkg_def path_Join_def const_defs)
  have nd: "files legacy_pkg (path_Join [''p'', if True then RequirementsLockFilename else ChartLockFilename])
                \<noteq> Some Dir"
    by (simp add: legacy_pkg_def path_Join_def const_defs)
  have declared: "y_dependencies (mk_doc [] (Some ?ds)) = Some ?ds"
    by (simp add: mk_doc_def)
  have locked: "lock_Dependencies legacy_lock = Some ?lds"
    by (simp add: legacy_lock_def)
  have run: "(if True then ?run
              else updateChartMetadataFile ref_ext ''p'' (Some legacy_lock) ex_source ex_target [] ex_ignore legacy_pkg)
             = (fst ?run, fst (snd ?run), snd (snd ?run))"
    by simp
  have p: "path_Join [''p'', RequirementsFilename] = ''p/requirements.yaml''"
          "path_Join [''p'', RequirementsLockFilename] = ''p/requirements.lock''"
    by (simp_all add: path_Join_def const_defs)
  have s0: "Repository (?ds ! 0) = GetUrl ex_source" "Repository (?lds ! 0) = GetUrl ex_source"
    by (simp_all add: mk_dep_def ex_source_def GetUrl_def)
  from source_entries_rewritten [OF root decl nd ex_target_url ref_json_total declared locked run]
  obtain d' ds' ld' lds' where r: "fst ?run = Inr None"
    and fd: "files (snd (snd ?run)) (path_Join [''p'', if True then RequirementsFilename else ChartFilename])
               = Some (File (Yaml d'))"
    and yd: "y_dependencies d' = Some ds'" and nd': "length ds' = length ?ds"
    and a: "\<forall>i<length ?ds. Repository (?ds ! i) = GetUrl ex_source \<longrightarrow> Repository (ds' ! i) = ''oci://tgt/charts''"
    and a': "\<forall>i<length ?ds. Repository (ds' ! i) =
            (if Repository (?ds ! i) = GetUrl ex_source \<or>
                \<not> ShouldIgnoreRepo ref_ext \<lparr>Url = Repository (?ds ! i), Kind = UNKNOWN\<rparr> [] ex_ignore
             then ''oci://tgt/charts'' else Repository (?ds ! i))"
    and fl: "files (snd (snd ?run)) (path_Join [''p'', if True then RequirementsLockFilename else ChartLockFilename])
               = Some (File (Yaml ld'))"
    and yl: "y_dependencies ld' = Some lds'" and nl': "length lds' = length ?lds"
    and b: "\<forall>j<length ?lds. Repository (?lds ! j) = GetUrl ex_source \<longrightarrow> Repository (lds' ! j) = ''oci://tgt/charts''"
    and b': "\<forall>j<length ?lds. Repository (lds' ! j) =
            (if Repository (?lds ! j) = GetUrl ex_source \<or>
                \<not> ShouldIgnoreRepo ref_ext \<lparr>Url = Repository (?lds ! j), Kind = UNKNOWN\<rparr> [] ex_ignore
             then ''oci://tgt/charts'' else Repository (?lds ! j))"
    by (elim conjE exE) blast
  from a s0 have a0: "Repository (ds' ! 0) = ''oci://tgt/charts''" by simp
  from b s0 have b0: "Repository (lds' ! 0) = ''oci://tgt/charts''" by simp
  from a' [rule_format, of 1] have a1: "Repository (ds' ! 1) = ''oci://tgt/charts''"
    by (simp add: mk_dep_def ex_source_def ex_ignore_def GetUrl_def ref_ext_def ref_ShouldIgnoreRepo_def)
  from b' [rule_format, of 1] have b1: "Repository (lds' ! 1) = ''http://trusted/charts''"
    by (simp add: mk_dep_def ex_source_def ex_ignore_def GetUrl_def ref_ext_def ref_ShouldIgnoreRepo_def)
  from nd' have n2: "length ds' = 2" by simp
  from nl' have m2: "length lds' = 2" by simp
  from fd p have fd': "files (snd (snd ?run)) ''p/requirements.yaml'' = Some (File (Yaml d'))" by simp
  from fl p have fl': "files (snd (snd ?run)) ''p/requirements.lock'' = Some (File (Yaml ld'))" by simp
  have A: "\<exists>d' ds'. files (snd (snd ?run)) ''p/requirements.yaml'' = Some (File (Yaml d')) \<and>
      y_dependencies d' = Some ds' \<and> length ds' = 2 \<and> Repository (ds' ! 0) = ''oci://tgt/charts'' \<and>
      Repository (ds' ! 1) = ''oci://tgt/charts''"
    by (rule exI [of _ d'], rule exI [of _ ds']) (intro conjI fd' yd n2 a0 a1)
  have B: "\<exists>d' lds'. files (snd (snd ?run)) ''p/requirements.lock'' = Some (File (Yaml d')) \<and>
      y_dependencies d' = Some lds' \<and> length lds' = 2 \<and> Repository (lds' ! 0) = ''oci://tgt/charts'' \<and>
      Repository (lds' ! 1) = ''http://trusted/charts''"
    by (rule exI [of _ ld'], rule exI [of _ lds']) (intro conjI fl' yl m2 b0 b1)
  from root ex_target_url r A B show ?thesis by (intro conjI)
qed


text \<open>
  The Legacy package, the Legacy package with a \<^verbatim>\<open>Chart.lock\<close> added, the
  Modern package and the package without a lock.
\<close>

theorem GetLockAPIVersion_by_presence_witness:
  "fst (GetLockAPIVersion ''p'' legacy_pkg) = Inr ''v1'' \<and>
   fst (GetLockAPIVersion ''p''
          (legacy_pkg\<lparr>files := (files legacy_pkg)(''p/Chart.lock'' \<mapsto> File (Blob []))\<rparr>)) = Inr ''v1'' \<and>
   fst (GetLockAPIVersion ''p'' modern_pkg) = Inr ''v2'' \<and>
   fst (GetLockAPIVersion ''p'' inline_pkg) = Inr []"
proof -
  have p: "path_Join [''p'', RequirementsLockFilename] = ''p/requirements.lock''"
          "path_Join [''p'', ChartLockFilename] = ''p/Chart.lock''"
    by (simp_all add: path_Join_def const_defs)
  have a: "\<forall>c. files legacy_pkg ''p'' \<noteq> Some (File c)"
    by (simp add: legacy_pkg_def)
  have b: "\<forall>c. files (legacy_pkg\<lparr>files := (files legacy_pkg)(''p/Chart.lock'' \<mapsto> File (Blob []))\<rparr>) ''p''
             \<noteq> Some (File c)"
    by (simp add: legacy_pkg_def)
  have c: "\<forall>c. files modern_pkg ''p'' \<noteq> Some (File c)"
    by (simp add: modern_pkg_def)
  have d: "\<forall>c. files inline_pkg ''p'' \<noteq> Some (File c)"
    by (simp add: inline_pkg_def)
  from GetLockAPIVersion_by_presence [OF a] have 1: "fst (GetLockAPIVersion ''p'' legacy_pkg) = Inr ''v1''"
    unfolding p by (simp add: legacy_pkg_def APIV1_def)
  from GetLockAPIVersion_by_presence [OF b]
  have 2: "fst (GetLockAPIVersion ''p''
          (legacy_pkg\<lparr>files := (files legacy_pkg)(''p/Chart.lock'' \<mapsto> File (Blob []))\<rparr>)) = Inr ''v1''"
    unfolding p by (simp add: legacy_pkg_def APIV1_def)
  from GetLockAPIVersion_by_presence [OF c] have 3: "fst (GetLockAPIVersion ''p'' modern_pkg) = Inr ''v2''"
    unfolding p by (simp add: modern_pkg_def APIV2_def)
  from GetLockAPIVersion_by_presence [OF d] have 4: "fst (GetLockAPIVersion ''p'' inline_pkg) = Inr []"
    unfolding p by (simp add: inline_pkg_def)
  from 1 2 3 4 show ?thesis by (intro conjI)
qed

text \<open>The declaration names the trusted repository by an alias, the lock by its URL:
  the alias is rewritten, the URL is kept.\<close>

text \<open>
  Claim C9 says that after the rewrite step corresponding entries of the declaration
  list and of the lock carry the same repository URL. Each entry is decided on the URL
  it holds itself. In the Legacy example package \<^verbatim>\<open>etcd\<close> is declared at the
  alias \<^verbatim>\<open>@trusted\<close> and locked at the trusted repository's URL, which is on the
  ignore list: the declaration is rewritten to the target and the lock entry is kept.
\<close>

theorem rewrite_diverges:
  "\<exists>d' ld'.
     files (snd (snd (updateRequirementsFile ref_ext ''p'' (Some legacy_lock) ex_source ex_target []
                        ex_ignore legacy_pkg))) ''p/requirements.yaml'' = Some (File (Yaml d')) \<and>
     files (snd (snd (updateRequirementsFile ref_ext ''p'' (Some legacy_lock) ex_source ex_target []
                        ex_ignore legacy_pkg))) ''p/requirements.lock'' = Some (File (Yaml ld')) \<and>
     map_option (map dep_key) (y_dependencies d') =
       Some [(''redis'', ''1.0.0'', ''oci://tgt/charts''), (''etcd'', ''1.2.3'', ''oci://tgt/charts'')] \<and>
     map_option (map dep_key) (y_dependencies ld') =
       Some [(''redis'', ''1.0.0'', ''oci://tgt/charts''), (''etcd'', ''1.2.3'', ''http://trusted/charts'')]"
proof -
  let ?run = "updateRequirementsFile ref_ext ''p'' (Some legacy_lock) ex_source ex_target [] ex_ignore legacy_pkg"
  let ?ds = "[mk_dep ''redis'' ''1.0.0'' ''http://src/charts'', mk_dep ''etcd'' ''1.2.3'' ''@trusted'']"
  let ?lds = "[mk_dep ''redis'' ''1.0.0'' ''http://src/charts'', mk_dep ''etcd'' ''1.2.3'' ''http://trusted/charts'']"
  let ?R = "rewrite_entry ref_ext ex_source [] ex_ignore ''oci://tgt/charts''"
  have root: "files legacy_pkg ''p'' = Some Dir"
    by (simp add: legacy_pkg_def)
  have decl: "files legacy_pkg (path_Join [''p'', if True then RequirementsFilename else ChartFilename])
                = Some (File (Yaml (mk_doc [] (Some ?ds))))"
    by (simp add: legacy_pkg_def path_Join_def const_defs)
  have nd: "files legacy_pkg (path_Join [''p'', if True then RequirementsLockFilename else ChartLockFilename])
                \<noteq> Some Dir"
    by (simp add: legacy_pkg_def path_Join_def const_defs)
  have declared: "y_dependencies (mk_doc [] (Some ?ds)) = Some ?ds"
    by (simp add: mk_doc_def)
  have locked: "lock_Dependencies legacy_lock = Some ?lds"
    by (simp add: legacy_lock_def)
  have run: "(if True then ?run
              else updateChartMetadataFile ref_ext ''p'' (Some legacy_lock) ex_source ex_target [] ex_ignore legacy_pkg)
             = (fst ?run, fst (snd ?run), snd (snd ?run))"
    by simp
  have p: "path_Join [''p'', RequirementsFilename] = ''p/requirements.yaml''"
          "path_Join [''p'', RequirementsLockFilename] = ''p/requirements.lock''"
    by (simp_all add: path_Join_def const_defs)
  have k1: "map dep_key (map ?R ?ds) =
       [(''redis'', ''1.0.0'', ''oci://tgt/charts''), (''etcd'', ''1.2.3'', ''oci://tgt/charts'')]"
    by (simp add: rewrite_entry_def needs_rewrite_def dep_key_def ref_defs ex_defs GetUrl_def)
  have k2: "map dep_key (map ?R ?lds) =
       [(''redis'', ''1.0.0'', ''oci://tgt/charts''), (''etcd'', ''1.2.3'', ''http://trusted/charts'')]"
    by (simp add: rewrite_entry_def needs_rewrite_def dep_key_def ref_defs ex_defs GetUrl_def)
  from rewritten_lists [OF root decl nd ex_target_url ref_json_total declared locked run]
  obtain d' ld' where
        fd: "files (snd (snd ?run)) (path_Join [''p'', if True then RequirementsFilename else ChartFilename])
               = Some (File (Yaml d'))"
    and fl: "files (snd (snd ?run)) (path_Join [''p'', if True then RequirementsLockFilename else ChartLockFilename])
               = Some (File (Yaml ld'))"
    and yd: "y_dependencies d' = Some (map ?R ?ds)"
    and yl: "y_dependencies ld' = Some (map ?R ?lds)"
    by (elim conjE exE) blast
  from fd p have fd': "files (snd (snd ?run)) ''p/requirements.yaml'' = Some (File (Yaml d'))" by simp
  from fl p have fl': "files (snd (snd ?run)) ''p/requirements.lock'' = Some (File (Yaml ld'))" by simp
  from yd k1 have kd: "map_option (map dep_key) (y_dependencies d') =
       Some [(''redis'', ''1.0.0'', ''oci://tgt/charts''), (''etcd'', ''1.2.3'', ''oci://tgt/charts'')]"
    by (simp del: map_map)
  from yl k2 have kl: "map_option (map dep_key) (y_dependencies ld') =
       Some [(''redis'', ''1.0.0'', ''oci://tgt/charts''), (''etcd'', ''1.2.3'', ''http://trusted/charts'')]"
    by (simp del: map_map)
  show ?thesis
    apply (rule exI [of _ d'], rule exI [of _ ld'])
    apply (intro conjI)
    apply (rule fd' fl' kd kl)+
    done
qed

text \<open>
  The Modern package, whose lock mirrors its declarations: both files agree after the
  step.
\<close>

theorem rewrite_keeps_agreement_witness:
  "files modern_pkg ''p'' = Some Dir \<and>
   getDependencyRepoURL ref_ext ex_target = Inr ''oci://tgt/charts'' \<and>
   fst (updateChartMetadataFile ref_ext ''p'' (Some modern_lock) ex_source ex_target [] ex_ignore modern_pkg)
     = Inr None \<and>
   (\<exists>d' ld' ds' lds'.
      files (snd (snd (updateChartMetadataFile ref_ext ''p'' (Some modern_lock) ex_source ex_target []
                         ex_ignore modern_pkg))) ''p/Chart.yaml'' = Some (File (Yaml d')) \<and>
      files (snd (snd (updateChartMetadataFile ref_ext ''p'' (Some modern_lock) ex_source ex_target []
                         ex_ignore modern_pkg))) ''p/Chart.lock'' = Some (File (Yaml ld')) \<and>
      y_dependencies d' = Some ds' \<and> y_dependencies ld' = Some lds' \<and>
      map Name ds' = [''redis'', ''etcd''] \<and> map Version ds' = [''1.0.0'', ''1.2.3''] \<and>
      map dep_key ds' = map dep_key lds')"
proof -
  let ?run = "updateChartMetadataFile ref_ext ''p'' (Some modern_lock) ex_source ex_target [] ex_ignore modern_pkg"
  let ?ds = "[mk_dep ''redis'' ''1.0.0'' ''http://src/charts'', mk_dep ''etcd'' ''1.2.3'' ''http://trusted/charts'']"
  have root: "files modern_pkg ''p'' = Some Dir"
    by (simp add: modern_pkg_def)
  have decl: "files modern_pkg (path_Join [''p'', if False then RequirementsFilename else ChartFilename])
                = Some (File (Yaml (mk_doc ''v2'' (Some ?ds))))"
    by (simp add: modern_pkg_def path_Join_def const_defs)
  have nd: "files modern_pkg (path_Join [''p'', if False then RequirementsLockFilename else ChartLockFilename])
                \<noteq> Some Dir"
    by (simp add: modern_pkg_def path_Join_def const_defs)
  have declared: "y_dependencies (mk_doc ''v2'' (Some ?ds)) = Some ?ds"
    by (simp add: mk_doc_def)
  have locked: "lock_Dependencies modern_lock = Some ?ds"
    by (simp add: modern_lock_def)
  have run: "(if False
              then updateRequirementsFile ref_ext ''p'' (Some modern_lock) ex_source ex_target [] ex_ignore modern_pkg
              else ?run)
             = (fst ?run, fst (snd ?run), snd (snd ?run))"
    by simp
  have p: "path_Join [''p'', ChartFilename] = ''p/Chart.yaml''"
          "path_Join [''p'', ChartLockFilename] = ''p/Chart.lock''"
    by (simp_all add: path_Join_def const_defs)
  from rewrite_keeps_agreement [OF root decl nd ex_target_url ref_json_total declared locked run]
  obtain d' ld' ds' lds' where r: "fst ?run = Inr None"
    and fd: "files (snd (snd ?run)) (path_Join [''p'', if False then RequirementsFilename else ChartFilename])
               = Some (File (Yaml d'))"
    and fl: "files (snd (snd ?run)) (path_Join [''p'', if False then RequirementsLockFilename else ChartLockFilename])
               = Some (File (Yaml ld'))"
    and yd: "y_dependencies d' = Some ds'" and yl: "y_dependencies ld' = Some lds'"
    and n: "map Name ds' = map Name ?ds" and v: "map Version ds' = map Version ?ds"
    and k: "map dep_key ?ds = map dep_key ?ds \<longrightarrow> map dep_key ds' = map dep_key lds'"
    by (elim conjE exE) blast
  from fd p have fd': "files (snd (snd ?run)) ''p/Chart.yaml'' = Some (File (Yaml d'))" by simp
  from fl p have fl': "files (snd (snd ?run)) ''p/Chart.lock'' = Some (File (Yaml ld'))" by simp
  from n have n': "map Name ds' = [''redis'', ''etcd'']" by (simp add: mk_dep_def)
  from v have v': "map Version ds' = [''1.0.0'', ''1.2.3'']" by (simp add: mk_dep_def)
  from k have k': "map dep_key ds' = map dep_key lds'" by simp
  have "\<exists>d' ld' ds' lds'.
      files (snd (snd ?run)) ''p/Chart.yaml'' = Some (File (Yaml d')) \<and>
      files (snd (snd ?run)) ''p/Chart.lock'' = Some (File (Yaml ld')) \<and>
      y_dependencies d' = Some ds' \<and> y_dependencies ld' = Some lds' \<and>
      map Name ds' = [''redis'', ''etcd''] \<and> map Version ds' = [''1.0.0'', ''1.2.3''] \<and>
      map dep_key ds' = map dep_key lds'"
    apply (rule exI [of _ d'], rule exI [of _ ld'], rule exI [of _ ds'], rule exI [of _ lds'])
    apply (intro conjI)
    apply (rule fd' fl' yd yl n' v' k')+
    done
  with root ex_target_url r show ?thesis by (intro conjI)
qed

subsection \<open>One iteration of step 2\<close>

lemma loop_Cons:
  "BuildDependencies_loop X cp r t sy ig (dep # deps) errs w =
     (case client_at r t (fetch_origin X sy ig dep) of
        None \<Rightarrow> (Inl NilPointerDereference, w)
      | Some c \<Rightarrow>
          (case build_one cp c (fetch_origin X sy ig dep) dep w of
             (Some e, w') \<Rightarrow> BuildDependencies_loop X cp r t sy ig deps (multierror_Append errs e) w'
           | (None, w') \<Rightarrow> BuildDependencies_loop X cp r t sy ig deps errs w'))"
  by (simp add: build_one_def Let_def split: option.splits sum.splits prod.splits)

lemma utils_CopyFile_cases:
  assumes "utils_CopyFile d s w = (r, w2)"
  shows "trace w2 = trace w @ [EvCopyFile d s] \<and>
         ((r = None \<and> files w d \<noteq> Some Dir \<and>
             (\<exists>c. files w s = Some (File c) \<and> files w2 = (files w)(d \<mapsto> File c))) \<or>
          (r \<noteq> None \<and> files w2 = files w))"
  using assms
  by (auto simp add: utils_CopyFile_def Let_def split: option.splits node.splits if_splits)

lemma utils_CopyFile_ok:
  "files w s = Some (File c) \<Longrightarrow> files w d \<noteq> Some Dir \<Longrightarrow> is_directory w (path_Dir d) \<Longrightarrow>
   utils_CopyFile d s w = (None, (log (EvCopyFile d s) w)\<lparr>files := (files w)(d \<mapsto> File c)\<rparr>)"
  by (simp add: utils_CopyFile_def)

lemma build_one_cases:
  assumes "build_one cp c og dep w = (r, w')"
  shows "filter is_fetch (trace w') = filter is_fetch (trace w) @ [EvFetch og (Name dep) (Version dep)] \<and>
    ((\<exists>msg. c (Name dep) (Version dep) = Inl msg \<and> r = Some (Fetching (dep_id dep) (ClientError msg))
             \<and> files w' = files w) \<or>
     (\<exists>p cause. c (Name dep) (Version dep) = Inr p \<and>
             r = Some (Copying (dep_id dep) (dep_file cp dep) cause) \<and> files w' = files w) \<or>
     (\<exists>p b. c (Name dep) (Version dep) = Inr p \<and> r = None \<and> files w p = Some (File b) \<and>
             files w (dep_file cp dep) \<noteq> Some Dir \<and>
             files w' = (files w)(dep_file cp dep \<mapsto> File b)))"
proof (cases "c (Name dep) (Version dep)")
  case (Inl msg)
  with assms show ?thesis by (auto simp add: build_one_def Let_def)
next
  case (Inr p)
  obtain r2 w2 where cf: "utils_CopyFile (dep_file cp dep) p (log (EvFetch og (Name dep) (Version dep)) w) = (r2, w2)"
    by (cases "utils_CopyFile (dep_file cp dep) p (log (EvFetch og (Name dep) (Version dep)) w)") auto
  from utils_CopyFile_cases [OF cf] assms Inr cf show ?thesis
    by (auto simp add: build_one_def Let_def split: option.splits)
qed

subsection \<open>The loop of step 2 runs every iteration\<close>

lemma errors_of_Append:
  "\<forall>es. e \<noteq> Multierror es \<Longrightarrow> errors_of (multierror_Append errs e) = errors_of errs @ [e]"
  by (cases errs; cases e) (auto simp add: multierror_Append_def errors_of_def split: error.splits)

lemma Append_not_None: "multierror_Append errs e \<noteq> None"
  by (auto simp add: multierror_Append_def split: option.splits error.splits)

lemma build_one_failure_shape:
  "build_one cp c og dep w = (Some e, w') \<Longrightarrow> (\<forall>es. e \<noteq> Multierror es) \<and> failure_id e = dep_id dep"
  by (auto dest!: build_one_cases)

lemma run_deps_Cons:
  "client_at r t (fetch_origin X sy ig dep) = Some c \<Longrightarrow>
   build_one cp c (fetch_origin X sy ig dep) dep w = (e, w1) \<Longrightarrow>
   run_deps X cp r t sy ig (dep # ds) w =
     ((case e of None \<Rightarrow> [] | Some x \<Rightarrow> [x]) @ fst (run_deps X cp r t sy ig ds w1),
      snd (run_deps X cp r t sy ig ds w1))"
  by (simp split: prod.splits)

lemma loop_eq_run:
  assumes "\<forall>dep\<in>set ds. fetch_result X r t sy ig dep \<noteq> None"
  shows "\<exists>res. BuildDependencies_loop X cp r t sy ig ds errs w
            = (Inr res, snd (run_deps X cp r t sy ig ds w)) \<and>
          errors_of res = errors_of errs @ fst (run_deps X cp r t sy ig ds w) \<and>
          (res = None \<longleftrightarrow> errs = None \<and> fst (run_deps X cp r t sy ig ds w) = [])"
  using assms
proof (induction ds arbitrary: errs w)
  case Nil
  then show ?case by simp
next
  case (Cons dep ds)
  from Cons.prems obtain c where c: "client_at r t (fetch_origin X sy ig dep) = Some c"
    by (auto simp add: fetch_result_def split: option.splits)
  from Cons.prems have rest: "\<forall>dep\<in>set ds. fetch_result X r t sy ig dep \<noteq> None" by simp
  obtain e w1 where b: "build_one cp c (fetch_origin X sy ig dep) dep w = (e, w1)"
    by (cases "build_one cp c (fetch_origin X sy ig dep) dep w") auto
  obtain fs w2 where rd: "run_deps X cp r t sy ig ds w1 = (fs, w2)"
    by (cases "run_deps X cp r t sy ig ds w1") auto
  show ?case
  proof (cases e)
    case None
    from Cons.IH [OF rest, of errs w1] obtain res where
      "BuildDependencies_loop X cp r t sy ig ds errs w1 = (Inr res, snd (run_deps X cp r t sy ig ds w1))"
      "errors_of res = errors_of errs @ fst (run_deps X cp r t sy ig ds w1)"
      "(res = None \<longleftrightarrow> errs = None \<and> fst (run_deps X cp r t sy ig ds w1) = [])"
      by blast
    with None c b rd show ?thesis
      by (simp add: loop_Cons del: BuildDependencies_loop.simps)
  next
    case (Some x)
    from build_one_failure_shape [OF b [unfolded Some]] have nm: "\<forall>es. x \<noteq> Multierror es" by simp
    from Cons.IH [OF rest, of "multierror_Append errs x" w1] obtain res where
      "BuildDependencies_loop X cp r t sy ig ds (multierror_Append errs x) w1
         = (Inr res, snd (run_deps X cp r t sy ig ds w1))"
      "errors_of res = errors_of (multierror_Append errs x) @ fst (run_deps X cp r t sy ig ds w1)"
      "(res = None \<longleftrightarrow> multierror_Append errs x = None \<and> fst (run_deps X cp r t sy ig ds w1) = [])"
      by blast
    with Some c b rd show ?thesis
      by (simp add: loop_Cons errors_of_Append [OF nm] Append_not_None del: BuildDependencies_loop.simps)
  qed
qed

lemma run_deps_fetches:
  assumes "\<forall>dep\<in>set ds. fetch_result X r t sy ig dep \<noteq> None"
  shows "filter is_fetch (trace (snd (run_deps X cp r t sy ig ds w)))
           = filter is_fetch (trace w) @ map (fetch_event X sy ig) ds"
  using assms
proof (induction ds arbitrary: w)
  case Nil
  then show ?case by simp
next
  case (Cons dep ds)
  from Cons.prems obtain c where c: "client_at r t (fetch_origin X sy ig dep) = Some c"
    by (auto simp add: fetch_result_def split: option.splits)
  from Cons.prems have rest: "\<forall>dep\<in>set ds. fetch_result X r t sy ig dep \<noteq> None" by simp
  obtain e w1 where b: "build_one cp c (fetch_origin X sy ig dep) dep w = (e, w1)"
    by (cases "build_one cp c (fetch_origin X sy ig dep) dep w") auto
  from build_one_cases [OF b]
  have t1: "filter is_fetch (trace w1) = filter is_fetch (trace w) @ [fetch_event X sy ig dep]"
    by (simp add: fetch_event_def)
  from Cons.IH [OF rest, of w1] t1 show ?case
    unfolding run_deps_Cons [OF c b] by simp
qed

lemma run_deps_files:
  "(\<forall>q. \<not> under (path_Join [cp, ''charts'']) q \<longrightarrow>
        files (snd (run_deps X cp r t sy ig ds w)) q = files w q) \<and>
   (\<forall>q b. files w q = Some (File b) \<longrightarrow>
        (\<exists>b'. files (snd (run_deps X cp r t sy ig ds w)) q = Some (File b'))) \<and>
   (\<forall>q. files (snd (run_deps X cp r t sy ig ds w)) q = Some Dir \<longleftrightarrow> files w q = Some Dir) \<and>
   (\<forall>q. files (snd (run_deps X cp r t sy ig ds w)) q \<noteq> None \<longrightarrow>
        files w q \<noteq> None \<or> q \<in> dep_file cp ` set ds)"
proof (induction ds arbitrary: w)
  case Nil
  then show ?case by simp
next
  case (Cons dep ds)
  show ?case
  proof (cases "client_at r t (fetch_origin X sy ig dep)")
    case None
    then show ?thesis by simp
  next
    case (Some c)
    obtain e w1 where b: "build_one cp c (fetch_origin X sy ig dep) dep w = (e, w1)"
      by (cases "build_one cp c (fetch_origin X sy ig dep) dep w") auto
    from build_one_cases [OF b]
    have f1: "files w1 = files w \<or>
        (\<exists>b. files w (dep_file cp dep) \<noteq> Some Dir \<and> files w1 = (files w)(dep_file cp dep \<mapsto> File b))"
      by blast
    have s: "snd (run_deps X cp r t sy ig (dep # ds) w) = snd (run_deps X cp r t sy ig ds w1)"
      unfolding run_deps_Cons [OF Some b] by simp
    note IH = Cons.IH [of w1]
    from f1 show ?thesis
    proof
      assume "files w1 = files w"
      with IH show ?thesis unfolding s by auto
    next
      assume "\<exists>b. files w (dep_file cp dep) \<noteq> Some Dir \<and> files w1 = (files w)(dep_file cp dep \<mapsto> File b)"
      then obtain b where nd: "files w (dep_file cp dep) \<noteq> Some Dir"
        and fw: "files w1 = (files w)(dep_file cp dep \<mapsto> File b)" by blast
      have u: "under (path_Join [cp, ''charts'']) (dep_file cp dep)" by (rule dep_file_under)
      from IH have 1: "\<forall>q. \<not> under (path_Join [cp, ''charts'']) q \<longrightarrow>
            files (snd (run_deps X cp r t sy ig ds w1)) q = files w q"
        using fw u by auto
      have 2: "\<forall>q b. files w q = Some (File b) \<longrightarrow>
            (\<exists>b'. files (snd (run_deps X cp r t sy ig ds w1)) q = Some (File b'))"
      proof (intro allI impI)
        fix q b0 assume "files w q = Some (File b0)"
        then have "\<exists>b1. files w1 q = Some (File b1)" using fw by simp
        with IH show "\<exists>b'. files (snd (run_deps X cp r t sy ig ds w1)) q = Some (File b')" by blast
      qed
      have 3: "\<forall>q. files (snd (run_deps X cp r t sy ig ds w1)) q = Some Dir \<longleftrightarrow> files w q = Some Dir"
      proof
        fix q
        have "files w1 q = Some Dir \<longleftrightarrow> files w q = Some Dir" using fw nd by simp
        with IH show "files (snd (run_deps X cp r t sy ig ds w1)) q = Some Dir \<longleftrightarrow> files w q = Some Dir"
          by simp
      qed
      have 4: "\<forall>q. files (snd (run_deps X cp r t sy ig ds w1)) q \<noteq> None \<longrightarrow>
            files w q \<noteq> None \<or> q \<in> dep_file cp ` set (dep # ds)"
      proof (intro allI impI)
        fix q assume "files (snd (run_deps X cp r t sy ig ds w1)) q \<noteq> None"
        with IH have "files w1 q \<noteq> None \<or> q \<in> dep_file cp ` set ds" by blast
        then show "files w q \<noteq> None \<or> q \<in> dep_file cp ` set (dep # ds)"
          using fw by (cases "q = dep_file cp dep") auto
      qed
      from 1 2 3 4 show ?thesis unfolding s by blast
    qed
  qed
qed

lemma fetch_result_client:
  "client_at r t (fetch_origin X sy ig dep) = Some c \<Longrightarrow>
   fetch_result X r t sy ig dep = Some (c (Name dep) (Version dep))"
  by (simp add: fetch_result_def)


lemma run_deps_sound:
  "\<forall>e\<in>set (fst (run_deps X cp r t sy ig ds w)). \<exists>dep\<in>set ds.
      (\<exists>msg. e = Fetching (dep_id dep) (ClientError msg) \<and>
             fetch_result X r t sy ig dep = Some (Inl msg)) \<or>
      (\<exists>p cause. e = Copying (dep_id dep) (dep_file cp dep) cause \<and>
             fetch_result X r t sy ig dep = Some (Inr p))"
proof (induction ds arbitrary: w)
  case Nil
  then show ?case by simp
next
  case (Cons dep ds)
  show ?case
  proof (cases "client_at r t (fetch_origin X sy ig dep)")
    case None
    then show ?thesis by simp
  next
    case (Some c)
    obtain e w1 where b: "build_one cp c (fetch_origin X sy ig dep) dep w = (e, w1)"
      by (cases "build_one cp c (fetch_origin X sy ig dep) dep w") auto
    have hd: "\<forall>x. e = Some x \<longrightarrow>
      (\<exists>msg. x = Fetching (dep_id dep) (ClientError msg) \<and>
             fetch_result X r t sy ig dep = Some (Inl msg)) \<or>
      (\<exists>p cause. x = Copying (dep_id dep) (dep_file cp dep) cause \<and>
             fetch_result X r t sy ig dep = Some (Inr p))"
      using build_one_cases [OF b] by (auto simp add: fetch_result_client [OF Some])
    from Cons.IH [of w1] hd show ?thesis
      unfolding run_deps_Cons [OF Some b] by (auto split: option.splits)
  qed
qed

lemma run_deps_unnamed:
  assumes "\<forall>dep\<in>set ds. fetch_result X r t sy ig dep \<noteq> None"
  shows "\<forall>dep\<in>set ds. dep_id dep \<notin> failure_id ` set (fst (run_deps X cp r t sy ig ds w)) \<longrightarrow>
           (\<exists>b. files (snd (run_deps X cp r t sy ig ds w)) (dep_file cp dep) = Some (File b))"
  using assms
proof (induction ds arbitrary: w)
  case Nil
  then show ?case by simp
next
  case (Cons dep ds)
  from Cons.prems obtain c where c: "client_at r t (fetch_origin X sy ig dep) = Some c"
    by (auto simp add: fetch_result_def split: option.splits)
  from Cons.prems have rest: "\<forall>dep\<in>set ds. fetch_result X r t sy ig dep \<noteq> None" by simp
  obtain e w1 where b: "build_one cp c (fetch_origin X sy ig dep) dep w = (e, w1)"
    by (cases "build_one cp c (fetch_origin X sy ig dep) dep w") auto
  have hd: "dep_id dep \<notin> failure_id ` set (fst (run_deps X cp r t sy ig (dep # ds) w)) \<longrightarrow>
           (\<exists>b. files (snd (run_deps X cp r t sy ig (dep # ds) w)) (dep_file cp dep) = Some (File b))"
  proof
    assume n: "dep_id dep \<notin> failure_id ` set (fst (run_deps X cp r t sy ig (dep # ds) w))"
    have "e = None"
    proof (cases e)
      case None then show ?thesis .
    next
      case (Some x)
      with build_one_failure_shape [OF b [unfolded Some]] n show ?thesis
        unfolding run_deps_Cons [OF c b] by auto
    qed
    with build_one_cases [OF b] obtain b0 where "files w1 (dep_file cp dep) = Some (File b0)"
      by auto
    with run_deps_files [of cp X r t sy ig ds w1]
    show "\<exists>b. files (snd (run_deps X cp r t sy ig (dep # ds) w)) (dep_file cp dep) = Some (File b)"
      unfolding run_deps_Cons [OF c b] by auto
  qed
  have tl: "\<forall>d\<in>set ds. dep_id d \<notin> failure_id ` set (fst (run_deps X cp r t sy ig (dep # ds) w)) \<longrightarrow>
           (\<exists>b. files (snd (run_deps X cp r t sy ig (dep # ds) w)) (dep_file cp d) = Some (File b))"
    using Cons.IH [OF rest, of w1] unfolding run_deps_Cons [OF c b] by auto
  from hd tl show ?case by simp
qed

lemma run_deps_all_succeed:
  assumes "files w (path_Join [cp, ''charts'']) = Some Dir"
    and "\<forall>q. under (path_Join [cp, ''charts'']) q \<longrightarrow> files w q \<noteq> Some Dir"
    and "\<forall>dep\<in>set ds. CHR ''/'' \<notin> set (dep_id dep) \<and>
           (\<exists>p b. fetch_result X r t sy ig dep = Some (Inr p) \<and> files w p = Some (File b))"
  shows "fst (run_deps X cp r t sy ig ds w) = []"
  using assms
proof (induction ds arbitrary: w)
  case Nil
  then show ?case by simp
next
  case (Cons dep ds)
  let ?c = "path_Join [cp, ''charts'']"
  from Cons.prems(3) obtain p b where sl: "CHR ''/'' \<notin> set (dep_id dep)"
    and fr: "fetch_result X r t sy ig dep = Some (Inr p)" and fp: "files w p = Some (File b)"
    by auto
  from fr obtain c where c: "client_at r t (fetch_origin X sy ig dep) = Some c"
    and cp: "c (Name dep) (Version dep) = Inr p"
    by (auto simp add: fetch_result_def split: option.splits)
  let ?w0 = "log (EvFetch (fetch_origin X sy ig dep) (Name dep) (Version dep)) w"
  have nd: "files ?w0 (dep_file cp dep) \<noteq> Some Dir"
    using Cons.prems(2) dep_file_under [of cp dep] by simp
  have par: "is_directory ?w0 (path_Dir (dep_file cp dep))"
    using Cons.prems(1) by (simp add: dep_file_parent [OF sl] is_directory_def)
  have fp0: "files ?w0 p = Some (File b)" using fp by simp
  let ?w1 = "(log (EvCopyFile (dep_file cp dep) p) ?w0)\<lparr>files := (files ?w0)(dep_file cp dep \<mapsto> File b)\<rparr>"
  have b: "build_one cp c (fetch_origin X sy ig dep) dep w = (None, ?w1)"
    by (simp add: build_one_def cp utils_CopyFile_ok [OF fp0 nd par] Let_def)
  have 1: "files ?w1 ?c = Some Dir"
    using Cons.prems(1) by (simp add: dep_file_not_charts [symmetric] del: files_log)
       (simp add: dep_file_not_charts)
  have 2: "\<forall>q. under ?c q \<longrightarrow> files ?w1 q \<noteq> Some Dir"
    using Cons.prems(2) by simp
  have 3: "\<forall>d\<in>set ds. CHR ''/'' \<notin> set (dep_id d) \<and>
           (\<exists>p b. fetch_result X r t sy ig d = Some (Inr p) \<and> files ?w1 p = Some (File b))"
  proof
    fix d assume "d \<in> set ds"
    with Cons.prems(3) obtain p' b' where s': "CHR ''/'' \<notin> set (dep_id d)"
      and f': "fetch_result X r t sy ig d = Some (Inr p')" and g': "files w p' = Some (File b')"
      by auto
    have "\<exists>b. files ?w1 p' = Some (File b)"
      using g' by (cases "p' = dep_file cp dep") simp_all
    with s' f' show "CHR ''/'' \<notin> set (dep_id d) \<and>
           (\<exists>p b. fetch_result X r t sy ig d = Some (Inr p) \<and> files ?w1 p = Some (File b))"
      by blast
  qed
  from Cons.IH [OF 1 2 3] show ?case
    unfolding run_deps_Cons [OF c b] by simp
qed

lemmas model_defs = BuildDependencies_def BuildDependencies_resolve_def BuildDependencies_update_def
  BuildDependencies_step2_def authoritative_deps_def
  updateChartMetadataFile_def updateRequirementsFile_def updateLockFile_def
  GetChartLock_def GetLockAPIVersion_def LoadChartfile_def lockFilePath_def writeChartFile_def
  os_RemoveAll_def not_a_directory.simps os_Mkdir_def ioutil_ReadFile_def ioutil_WriteFile_def utils_FileExists_def
  utils_CopyFile_def path_Join_def path_Dir_def log_def under_def is_directory_def
  yaml_Unmarshal_def Metadata_of_def Lock_of_def dependencies_of_def yaml_Marshal_Metadata_def
  yaml_Marshal_Lock_def yaml_Marshal_dependencies_def
  over_slice_def getDependencyRepoURL_def GetUrl_def GetKind_def hashDeps_def provenance_Digest_def
  fetch_origin_def client_at_def dep_id_def dep_file_def multierror_Append_def errors_of_def
  fetch_result_def fetch_event_def Let_def






subsection \<open>Step 1 touches package files only and fetches nothing\<close>

lemma quiet_refl [simp]: "quiet_step cp w w"
  by (simp add: quiet_step_def)

lemma quiet_trans: "quiet_step cp w w1 \<Longrightarrow> quiet_step cp w1 w2 \<Longrightarrow> quiet_step cp w w2"
  by (auto simp add: quiet_step_def)

lemma quiet_log: "\<not> is_fetch e \<Longrightarrow> quiet_step cp w (log e w)"
  by (simp add: quiet_step_def)

lemma quiet_write:
  "p \<in> pkg_paths cp \<Longrightarrow> quiet_step cp w ((log (EvWriteFile p) w)\<lparr>files := (files w)(p \<mapsto> n)\<rparr>)"
  by (auto simp add: quiet_step_def)

lemma utils_FileExists_quiet: "quiet_step cp w (snd (utils_FileExists p w))"
  by (simp add: utils_FileExists_def Let_def quiet_log split: option.splits node.splits)


lemma GetLockAPIVersion_quiet: "quiet_step cp w (snd (GetLockAPIVersion cp w))"
proof -
  let ?a = "utils_FileExists (path_Join [cp, RequirementsLockFilename]) w"
  let ?b = "utils_FileExists (path_Join [cp, ChartLockFilename]) (snd ?a)"
  have qa: "quiet_step cp w (snd ?a)" by (rule utils_FileExists_quiet)
  have qb: "quiet_step cp w (snd ?b)"
    by (rule quiet_trans [OF qa utils_FileExists_quiet])
  show ?thesis
    unfolding GetLockAPIVersion_def using qa qb
    by (cases ?a; cases ?b) (auto split: sum.splits)
qed


lemma ioutil_ReadFile_quiet: "quiet_step cp w (snd (ioutil_ReadFile p w))"
  by (simp add: ioutil_ReadFile_def Let_def quiet_log split: option.splits node.splits)

lemma GetChartLock_quiet: "quiet_step cp w (snd (GetChartLock cp w))"
proof -
  obtain v w1 where a: "GetLockAPIVersion cp w = (v, w1)" by (cases "GetLockAPIVersion cp w") auto
  from GetLockAPIVersion_quiet [of cp w] a have q1: "quiet_step cp w w1" by simp
  have q2: "\<And>p x y. ioutil_ReadFile p w1 = (x, y) \<Longrightarrow> quiet_step cp w y"
    using quiet_trans [OF q1 ioutil_ReadFile_quiet] by (metis snd_conv)
  show ?thesis
    unfolding GetChartLock_def a using q1 q2
    by (auto split: sum.splits prod.splits)
qed

lemma LoadChartfile_quiet: "quiet_step cp w (snd (LoadChartfile p w))"
proof -
  obtain x y where a: "ioutil_ReadFile p w = (x, y)" by (cases "ioutil_ReadFile p w") auto
  from ioutil_ReadFile_quiet [of cp w p] a have "quiet_step cp w y" by simp
  then show ?thesis
    unfolding LoadChartfile_def a by (auto split: sum.splits)
qed

lemma writeChartFile_quiet: "p \<in> pkg_paths cp \<Longrightarrow> quiet_step cp w (snd (writeChartFile p v w))"
  by (simp add: writeChartFile_def ioutil_WriteFile_def Let_def quiet_log quiet_write)

lemma lock_path_pkg:
  "path_Join [cp, if legacy then RequirementsLockFilename else ChartLockFilename] \<in> pkg_paths cp"
  by (simp add: pkg_paths_def)

lemma updateLockFile_quiet:
  "quiet_step cp w (snd (snd (updateLockFile X cp lock deps s t legacy sy ig w)))"
proof -
  have q: "\<And>v x y. writeChartFile (path_Join [cp, if legacy then RequirementsLockFilename else ChartLockFilename]) v w
               = (x, y) \<Longrightarrow> quiet_step cp w y"
    using writeChartFile_quiet [OF lock_path_pkg] by (metis snd_conv)
  show ?thesis
    unfolding updateLockFile_def using q
    by (cases legacy) (auto simp add: Let_def split: option.splits sum.splits prod.splits)
qed

lemma updateChartMetadataFile_quiet:
  "quiet_step cp w (snd (snd (updateChartMetadataFile X cp lock s t sy ig w)))"
proof -
  let ?p = "path_Join [cp, ChartFilename]"
  obtain c w1 where a: "ioutil_ReadFile ?p w = (c, w1)" by (cases "ioutil_ReadFile ?p w") auto
  from ioutil_ReadFile_quiet [of cp w ?p] a have q1: "quiet_step cp w w1" by simp
  have pk: "?p \<in> pkg_paths cp" by (simp add: pkg_paths_def)
  have q2: "\<And>v x y. writeChartFile ?p v w1 = (x, y) \<Longrightarrow> quiet_step cp w y"
    using quiet_trans [OF q1 writeChartFile_quiet [OF pk]] by (metis snd_conv)
  have q3: "\<And>v l d x y. writeChartFile ?p v w1 = (x, y) \<Longrightarrow>
      quiet_step cp w (snd (snd (updateLockFile X cp l d s t False sy ig y)))"
    by (rule quiet_trans [OF q2 updateLockFile_quiet])
  show ?thesis
    unfolding updateChartMetadataFile_def Let_def a using q1 q2 q3
    by (auto split: sum.splits prod.splits option.splits)
qed

lemma updateRequirementsFile_quiet:
  "quiet_step cp w (snd (snd (updateRequirementsFile X cp lock s t sy ig w)))"
proof -
  let ?p = "path_Join [cp, RequirementsFilename]"
  obtain c w1 where a: "ioutil_ReadFile ?p w = (c, w1)" by (cases "ioutil_ReadFile ?p w") auto
  from ioutil_ReadFile_quiet [of cp w ?p] a have q1: "quiet_step cp w w1" by simp
  have pk: "?p \<in> pkg_paths cp" by (simp add: pkg_paths_def)
  have q2: "\<And>v x y. writeChartFile ?p v w1 = (x, y) \<Longrightarrow> quiet_step cp w y"
    using quiet_trans [OF q1 writeChartFile_quiet [OF pk]] by (metis snd_conv)
  have q3: "\<And>v l d x y. writeChartFile ?p v w1 = (x, y) \<Longrightarrow>
      quiet_step cp w (snd (snd (updateLockFile X cp l d s t True sy ig y)))"
    by (rule quiet_trans [OF q2 updateLockFile_quiet])
  show ?thesis
    unfolding updateRequirementsFile_def Let_def a using q1 q2 q3
    by (auto split: sum.splits prod.splits option.splits)
qed

subsection \<open>Where a parse error can come from\<close>

lemma quiet_extends: "quiet_step cp w w' \<Longrightarrow> \<exists>rest. trace w' = trace w @ rest"
  by (auto simp add: quiet_step_def)

lemma quiet_files: "quiet_step cp w w' \<Longrightarrow> q \<notin> pkg_paths cp \<Longrightarrow> files w' q = files w q"
  by (simp add: quiet_step_def)

lemma build_one_extends:
  assumes "build_one cp c og dep w = (r, w')"
  shows "\<exists>rest. trace w' = trace w @ rest"
proof (cases "c (Name dep) (Version dep)")
  case (Inl msg)
  with assms show ?thesis by (auto simp add: build_one_def Let_def)
next
  case (Inr p)
  obtain r2 w2 where cf: "utils_CopyFile (dep_file cp dep) p (log (EvFetch og (Name dep) (Version dep)) w) = (r2, w2)"
    by (cases "utils_CopyFile (dep_file cp dep) p (log (EvFetch og (Name dep) (Version dep)) w)") auto
  from utils_CopyFile_cases [OF cf] assms Inr cf show ?thesis
    by (auto simp add: build_one_def Let_def split: option.splits)
qed

lemma loop_extends:
  "\<exists>rest. trace (snd (BuildDependencies_loop X cp r t sy ig ds errs w)) = trace w @ rest"
proof (induction ds arbitrary: errs w)
  case Nil
  then show ?case by simp
next
  case (Cons dep ds)
  show ?case
  proof (cases "client_at r t (fetch_origin X sy ig dep)")
    case None
    then show ?thesis by (simp add: loop_Cons del: BuildDependencies_loop.simps)
  next
    case (Some c)
    obtain e w1 where b: "build_one cp c (fetch_origin X sy ig dep) dep w = (e, w1)"
      by (cases "build_one cp c (fetch_origin X sy ig dep) dep w") auto
    from build_one_extends [OF b] obtain r1 where t1: "trace w1 = trace w @ r1" ..
    show ?thesis
    proof (cases e)
      case None
      from Cons.IH [of errs w1] obtain r2 where
        "trace (snd (BuildDependencies_loop X cp r t sy ig ds errs w1)) = trace w1 @ r2" ..
      with None Some b t1 show ?thesis
        by (simp add: loop_Cons del: BuildDependencies_loop.simps)
    next
      case (Some x)
      from Cons.IH [of "multierror_Append errs x" w1] obtain r2 where
        "trace (snd (BuildDependencies_loop X cp r t sy ig ds (multierror_Append errs x) w1)) = trace w1 @ r2" ..
      with Some \<open>client_at r t (fetch_origin X sy ig dep) = Some c\<close> b t1 show ?thesis
        by (simp add: loop_Cons del: BuildDependencies_loop.simps)
    qed
  qed
qed

lemma Append_not_parse:
  "(\<forall>x. errs = Some x \<longrightarrow> \<not> is_parse_error x) \<Longrightarrow> \<not> is_parse_error e \<Longrightarrow>
   \<forall>x. multierror_Append errs e = Some x \<longrightarrow> \<not> is_parse_error x"
  by (auto simp add: multierror_Append_def split: option.splits error.splits)

lemma build_one_not_parse: "build_one cp c og dep w = (Some e, w') \<Longrightarrow> \<not> is_parse_error e"
  by (auto dest!: build_one_cases)

lemma loop_not_parse:
  "BuildDependencies_loop X cp r t sy ig ds errs w = (Inr (Some e), w') \<Longrightarrow>
   (\<forall>x. errs = Some x \<longrightarrow> \<not> is_parse_error x) \<Longrightarrow> \<not> is_parse_error e"
proof (induction ds arbitrary: errs w)
  case Nil
  then show ?case by simp
next
  case (Cons dep ds)
  show ?case
  proof (cases "client_at r t (fetch_origin X sy ig dep)")
    case None
    with Cons.prems show ?thesis by (simp add: loop_Cons del: BuildDependencies_loop.simps)
  next
    case (Some c)
    obtain x w1 where b: "build_one cp c (fetch_origin X sy ig dep) dep w = (x, w1)"
      by (cases "build_one cp c (fetch_origin X sy ig dep) dep w") auto
    show ?thesis
    proof (cases x)
      case None
      with Cons.prems(1) Some b
      have "BuildDependencies_loop X cp r t sy ig ds errs w1 = (Inr (Some e), w')"
        by (simp add: loop_Cons del: BuildDependencies_loop.simps)
      from Cons.IH [OF this Cons.prems(2)] show ?thesis .
    next
      case (Some y)
      with Cons.prems(1) \<open>client_at r t (fetch_origin X sy ig dep) = Some c\<close> b
      have l: "BuildDependencies_loop X cp r t sy ig ds (multierror_Append errs y) w1 = (Inr (Some e), w')"
        by (simp add: loop_Cons del: BuildDependencies_loop.simps)
      from build_one_not_parse [OF b [unfolded Some]] have "\<not> is_parse_error y" .
      from Cons.IH [OF l Append_not_parse [OF Cons.prems(2) this]] show ?thesis .
    qed
  qed
qed

lemma step2_extends:
  "\<exists>rest. trace (snd (BuildDependencies_step2 X cp r t sy ig lock dm w)) = trace w @ rest"
  using loop_extends [of X cp r t sy ig _ None w]
  by (auto simp add: BuildDependencies_step2_def Let_def split: option.splits)

lemma step2_not_parse:
  "BuildDependencies_step2 X cp r t sy ig lock dm w = (Inr (Some e), w') \<Longrightarrow> \<not> is_parse_error e"
  using loop_not_parse [of X cp r t sy ig _ None w e w']
  by (auto simp add: BuildDependencies_step2_def Let_def split: option.splits)

lemma update_frame:
  assumes "BuildDependencies_update X cp r s t tm sy ig lock apiVersion dm w = (res, w')"
  shows "(\<exists>rest. trace w' = trace w @ rest) \<and>
         (\<forall>e. res = Inr (Some e) \<and> is_parse_error e \<longrightarrow> quiet_step cp w w')"
proof -
  have main: "\<And>u. u = updateRequirementsFile X cp lock s t sy ig w \<or>
                   u = updateChartMetadataFile X cp lock s t sy ig w \<Longrightarrow>
      (case u of
         (Inl p, lock', w1) \<Rightarrow> (Inl p, w1)
       | (Inr (Some err), lock', w1) \<Rightarrow> (Inr (Some err), w1)
       | (Inr None, lock', w1) \<Rightarrow> BuildDependencies_step2 X cp r tm sy ig lock' dm w1) = (res, w') \<Longrightarrow>
      (\<exists>rest. trace w' = trace w @ rest) \<and>
         (\<forall>e. res = Inr (Some e) \<and> is_parse_error e \<longrightarrow> quiet_step cp w w')"
  proof -
    fix u
    assume u: "u = updateRequirementsFile X cp lock s t sy ig w \<or>
               u = updateChartMetadataFile X cp lock s t sy ig w"
      and c: "(case u of
         (Inl p, lock', w1) \<Rightarrow> (Inl p, w1)
       | (Inr (Some err), lock', w1) \<Rightarrow> (Inr (Some err), w1)
       | (Inr None, lock', w1) \<Rightarrow> BuildDependencies_step2 X cp r tm sy ig lock' dm w1) = (res, w')"
    obtain a lock' w1 where ue: "u = (a, lock', w1)" by (cases u) auto
    from u ue have q: "quiet_step cp w w1"
      using updateRequirementsFile_quiet [of cp w X lock s t sy ig]
            updateChartMetadataFile_quiet [of cp w X lock s t sy ig]
      by (metis snd_conv)
    show "(\<exists>rest. trace w' = trace w @ rest) \<and>
         (\<forall>e. res = Inr (Some e) \<and> is_parse_error e \<longrightarrow> quiet_step cp w w')"
    proof (cases "a = Inr None")
      case False
      with c ue have "w' = w1"
        by (auto split: sum.splits option.splits)
      with q show ?thesis by (auto dest: quiet_extends)
    next
      case True
      with c ue have s2: "BuildDependencies_step2 X cp r tm sy ig lock' dm w1 = (res, w')"
        by simp
      from step2_extends [of X cp r tm sy ig lock' dm w1] s2 quiet_extends [OF q]
      have "\<exists>rest. trace w' = trace w @ rest" by auto
      moreover from s2
      have "\<forall>e. res = Inr (Some e) \<and> is_parse_error e \<longrightarrow> quiet_step cp w w'"
        using step2_not_parse by blast
      ultimately show ?thesis by blast
    qed
  qed
  show ?thesis
  proof (cases "apiVersion = APIV1")
    case True
    with assms show ?thesis
      unfolding BuildDependencies_update_def
      by (intro main [OF disjI1 [OF refl]]) simp
  next
    case False
    show ?thesis
    proof (cases "apiVersion = APIV2")
      case True
      with False assms show ?thesis
        unfolding BuildDependencies_update_def
        by (intro main [OF disjI2 [OF refl]]) simp
    next
      case n2: False
      with False assms show ?thesis
        unfolding BuildDependencies_update_def by auto
    qed
  qed
qed

lemma resolve_frame:
  assumes "BuildDependencies_resolve X cp r s t tm sy ig lock apiVersion w = (res, w')"
  shows "(\<exists>rest. trace w' = trace w @ rest) \<and>
         (\<forall>e. res = Inr (Some e) \<and> is_parse_error e \<longrightarrow> quiet_step cp w w')"
proof (cases "apiVersion = []")
  case False
  with assms update_frame [of X cp r s t tm sy ig lock apiVersion None w res w'] show ?thesis
    by (simp add: BuildDependencies_resolve_def)
next
  case True
  obtain m w1 where l: "LoadChartfile (path_Join [cp, ChartFilename]) w = (m, w1)"
    by (cases "LoadChartfile (path_Join [cp, ChartFilename]) w") auto
  from LoadChartfile_quiet [of cp w "path_Join [cp, ChartFilename]"] l
  have q: "quiet_step cp w w1" by simp
  show ?thesis
  proof (cases m)
    case (Inl err)
    with assms True l have "w' = w1" by (simp add: BuildDependencies_resolve_def)
    with q show ?thesis by (auto dest: quiet_extends)
  next
    case (Inr metadata)
    show ?thesis
    proof (cases "APIVersion metadata = chart_APIVersionV2")
      case False
      with assms True l Inr have "w' = w1" by (simp add: BuildDependencies_resolve_def)
      with q show ?thesis by (auto dest: quiet_extends)
    next
      case v2: True
      with assms True l Inr
      have u: "BuildDependencies_update X cp r s t tm sy ig lock APIV2 (meta_Dependencies metadata) w1 = (res, w')"
        by (simp add: BuildDependencies_resolve_def)
      from update_frame [OF u] quiet_extends [OF q] q show ?thesis
        by (auto intro: quiet_trans)
    qed
  qed
qed

lemma charts_not_pkg:
  "path_Join [cp, ''charts''] \<notin> pkg_paths cp"
  "under (path_Join [cp, ''charts'']) q \<Longrightarrow> q \<notin> pkg_paths cp"
proof -
  have a: "\<And>n. n \<in> {ChartFilename, RequirementsFilename, RequirementsLockFilename, ChartLockFilename} \<Longrightarrow>
     path_Join [cp, ''charts''] \<noteq> path_Join [cp, n]"
    using pkg_not_charts by metis
  have b: "\<And>n. n \<in> {ChartFilename, RequirementsFilename, RequirementsLockFilename, ChartLockFilename} \<Longrightarrow>
     \<not> under (path_Join [cp, ''charts'']) (path_Join [cp, n])"
    using pkg_not_charts by metis
  show "path_Join [cp, ''charts''] \<notin> pkg_paths cp"
    unfolding pkg_paths_def using a by simp
  assume u: "under (path_Join [cp, ''charts'']) q"
  show "q \<notin> pkg_paths cp"
  proof
    assume "q \<in> pkg_paths cp"
    then obtain n where "n \<in> {ChartFilename, RequirementsFilename, RequirementsLockFilename, ChartLockFilename}"
      and "q = path_Join [cp, n]"
      unfolding pkg_paths_def by blast
    with b u show False by simp
  qed
qed

lemma GetChartLock_first:
  "\<exists>rest. trace (snd (GetChartLock cp w)) =
            trace w @ EvStat (path_Join [cp, RequirementsLockFilename]) # rest"
proof -
  let ?rl = "path_Join [cp, RequirementsLockFilename]"
  obtain a w0 where fe: "utils_FileExists ?rl w = (a, w0)" by (cases "utils_FileExists ?rl w") auto
  then have t0: "trace w0 = trace w @ [EvStat ?rl]"
    by (auto simp add: utils_FileExists_def Let_def split: option.splits node.splits)
  have ext: "\<And>v. quiet_step cp w0 v \<Longrightarrow> \<exists>rest. trace v = trace w @ EvStat ?rl # rest"
  proof -
    fix v assume "quiet_step cp w0 v"
    from quiet_extends [OF this] obtain r0 where "trace v = trace w0 @ r0" ..
    with t0 have "trace v = trace w @ EvStat ?rl # r0" by simp
    then show "\<exists>rest. trace v = trace w @ EvStat ?rl # rest" ..
  qed
  obtain b v1 where gv: "GetLockAPIVersion cp w = (b, v1)" by (cases "GetLockAPIVersion cp w") auto
  have q1: "quiet_step cp w0 v1"
  proof (cases a)
    case (Inl err)
    with gv fe show ?thesis by (simp add: GetLockAPIVersion_def)
  next
    case (Inr ok)
    obtain a' w0' where fe': "utils_FileExists (path_Join [cp, ChartLockFilename]) w0 = (a', w0')"
      by (cases "utils_FileExists (path_Join [cp, ChartLockFilename]) w0") auto
    from utils_FileExists_quiet [of cp w0 "path_Join [cp, ChartLockFilename]"] fe'
    have "quiet_step cp w0 w0'" by simp
    with gv fe Inr fe' show ?thesis
      by (auto simp add: GetLockAPIVersion_def split: if_splits sum.splits)
  qed
  have q2: "\<And>p x y. ioutil_ReadFile p v1 = (x, y) \<Longrightarrow> quiet_step cp w0 y"
    using quiet_trans [OF q1 ioutil_ReadFile_quiet] by (metis snd_conv)
  have "quiet_step cp w0 (snd (GetChartLock cp w))"
    unfolding GetChartLock_def gv using q1 q2
    by (auto split: sum.splits prod.splits)
  then show ?thesis by (rule ext)
qed

text \<open>
  Claim C10. Every run of \<open>BuildDependencies\<close> starts by removing the folder
  \<^verbatim>\<open>charts\<close>. When the removal fails, the run returns that error at once: nothing
  else is called, no directory is made, no file is read and the files are as they were.
  When the removal succeeds, the next call makes the directory; when that fails, the run
  returns that error and the folder is gone. When both succeed, the folder is an empty
  directory at that moment, and only then does the run look at the lock files: the next
  call is the first lookup of \<^verbatim>\<open>requirements.lock\<close>, and every read and parse of a
  lock or metadata file comes after it. Consequently, whenever the run ends with an error
  for malformed lock or metadata content, the folder is an empty directory in the final
  state, whatever it held before.
\<close>

theorem charts_folder_reset_first:
  assumes run: "BuildDependencies X chartPath r sourceRepo targetRepo t syncTrusted ignoreTrusted w = (res, w')"
  shows "(\<exists>rest. trace w' = trace w @ EvRemoveAll (path_Join [chartPath, ''charts'']) # rest) \<and>
         (\<forall>err. fst (os_RemoveAll (path_Join [chartPath, ''charts'']) w) = Some err \<longrightarrow>
            res = Inr (Some err) \<and>
            trace w' = trace w @ [EvRemoveAll (path_Join [chartPath, ''charts''])] \<and>
            files w' = files w) \<and>
         (fst (os_RemoveAll (path_Join [chartPath, ''charts'']) w) = None \<longrightarrow>
            (\<exists>rest. trace w' = trace w @ EvRemoveAll (path_Join [chartPath, ''charts''])
                                      # EvMkdir (path_Join [chartPath, ''charts'']) # rest) \<and>
            (\<forall>err. fst (os_Mkdir (path_Join [chartPath, ''charts''])
                           (snd (os_RemoveAll (path_Join [chartPath, ''charts'']) w))) = Some err \<longrightarrow>
               res = Inr (Some err) \<and>
               trace w' = trace w @ [EvRemoveAll (path_Join [chartPath, ''charts'']),
                                     EvMkdir (path_Join [chartPath, ''charts''])] \<and>
               files w' (path_Join [chartPath, ''charts'']) = None \<and>
               (\<forall>q. under (path_Join [chartPath, ''charts'']) q \<longrightarrow> files w' q = None)) \<and>
            (fst (os_Mkdir (path_Join [chartPath, ''charts''])
                    (snd (os_RemoveAll (path_Join [chartPath, ''charts'']) w))) = None \<longrightarrow>
               files (snd (os_Mkdir (path_Join [chartPath, ''charts''])
                        (snd (os_RemoveAll (path_Join [chartPath, ''charts'']) w))))
                 (path_Join [chartPath, ''charts'']) = Some Dir \<and>
               (\<forall>q. under (path_Join [chartPath, ''charts'']) q \<longrightarrow>
                  files (snd (os_Mkdir (path_Join [chartPath, ''charts''])
                           (snd (os_RemoveAll (path_Join [chartPath, ''charts'']) w)))) q = None) \<and>
               (\<exists>rest. trace w' = trace w @ EvRemoveAll (path_Join [chartPath, ''charts''])
                                         # EvMkdir (path_Join [chartPath, ''charts''])
                                         # EvStat (path_Join [chartPath, RequirementsLockFilename])
                                         # rest))) \<and>
         (\<forall>e. res = Inr (Some e) \<and> is_parse_error e \<longrightarrow>
            files w' (path_Join [chartPath, ''charts'']) = Some Dir \<and>
            (\<forall>q. under (path_Join [chartPath, ''charts'']) q \<longrightarrow> files w' q = None))"
proof -
  let ?c = "path_Join [chartPath, ''charts'']"
  let ?rl = "path_Join [chartPath, RequirementsLockFilename]"
  obtain e1 w1 where rm: "os_RemoveAll ?c w = (e1, w1)" by (cases "os_RemoveAll ?c w") auto
  have t1: "trace w1 = trace w @ [EvRemoveAll ?c]"
    using rm by (auto simp add: os_RemoveAll_def Let_def log_def split: if_splits option.splits node.splits)
  show ?thesis
  proof (cases e1)
    case (Some err)
    with rm have f1: "files w1 = files w"
      by (auto simp add: os_RemoveAll_def Let_def log_def split: if_splits option.splits node.splits)
    from run rm Some have r1: "res = Inr (Some err)" and w1: "w' = w1"
      by (simp_all add: BuildDependencies_def)
    from rm Some have "\<exists>op q. err = OsError op q"
      by (auto simp add: os_RemoveAll_def Let_def split: if_splits option.splits node.splits)
    then have np: "\<not> is_parse_error err" by auto
    from t1 w1 have P1: "\<exists>rest. trace w' = trace w @ EvRemoveAll ?c # rest" by simp
    have P2: "\<forall>err. fst (os_RemoveAll ?c w) = Some err \<longrightarrow>
            res = Inr (Some err) \<and> trace w' = trace w @ [EvRemoveAll ?c] \<and> files w' = files w"
      using rm Some r1 w1 t1 f1 by simp
    have P3: "fst (os_RemoveAll ?c w) = None \<longrightarrow>
            (\<exists>rest. trace w' = trace w @ EvRemoveAll ?c # EvMkdir ?c # rest) \<and>
            (\<forall>err. fst (os_Mkdir ?c (snd (os_RemoveAll ?c w))) = Some err \<longrightarrow>
               res = Inr (Some err) \<and> trace w' = trace w @ [EvRemoveAll ?c, EvMkdir ?c] \<and>
               files w' ?c = None \<and> (\<forall>q. under ?c q \<longrightarrow> files w' q = None)) \<and>
            (fst (os_Mkdir ?c (snd (os_RemoveAll ?c w))) = None \<longrightarrow>
               files (snd (os_Mkdir ?c (snd (os_RemoveAll ?c w)))) ?c = Some Dir \<and>
               (\<forall>q. under ?c q \<longrightarrow> files (snd (os_Mkdir ?c (snd (os_RemoveAll ?c w)))) q = None) \<and>
               (\<exists>rest. trace w' = trace w @ EvRemoveAll ?c # EvMkdir ?c # EvStat ?rl # rest))"
      using rm Some by simp
    have P4: "\<forall>e. res = Inr (Some e) \<and> is_parse_error e \<longrightarrow>
            files w' ?c = Some Dir \<and> (\<forall>q. under ?c q \<longrightarrow> files w' q = None)"
      using r1 np by simp
    from P1 P2 P3 P4 show ?thesis by (intro conjI)
  next
    case None
    with rm have f1: "files w1 = (\<lambda>q. if q = ?c \<or> under ?c q then None else files w q)"
      by (auto simp add: os_RemoveAll_def Let_def log_def split: if_splits option.splits node.splits)
    obtain m w2 where mk: "os_Mkdir ?c w1 = (m, w2)" by (cases "os_Mkdir ?c w1") auto
    have t2: "trace w2 = trace w @ [EvRemoveAll ?c, EvMkdir ?c]"
      using mk t1 by (auto simp add: os_Mkdir_def Let_def log_def split: if_splits)
    have P2: "\<forall>err. fst (os_RemoveAll ?c w) = Some err \<longrightarrow>
            res = Inr (Some err) \<and> trace w' = trace w @ [EvRemoveAll ?c] \<and> files w' = files w"
      using rm None by simp
    have main: "(\<exists>rest. trace w' = trace w @ EvRemoveAll ?c # EvMkdir ?c # rest) \<and>
            (\<forall>err. m = Some err \<longrightarrow>
               res = Inr (Some err) \<and> trace w' = trace w @ [EvRemoveAll ?c, EvMkdir ?c] \<and>
               files w' ?c = None \<and> (\<forall>q. under ?c q \<longrightarrow> files w' q = None)) \<and>
            (m = None \<longrightarrow>
               files w2 ?c = Some Dir \<and> (\<forall>q. under ?c q \<longrightarrow> files w2 q = None) \<and>
               (\<exists>rest. trace w' = trace w @ EvRemoveAll ?c # EvMkdir ?c # EvStat ?rl # rest)) \<and>
            (\<forall>e. res = Inr (Some e) \<and> is_parse_error e \<longrightarrow>
               files w' ?c = Some Dir \<and> (\<forall>q. under ?c q \<longrightarrow> files w' q = None))"
    proof (cases m)
      case (Some err)
      with mk have ee: "err = OsError ''mkdir'' ?c" and f2: "files w2 = files w1"
        by (auto simp add: os_Mkdir_def Let_def log_def split: if_splits)
      from run rm None mk Some have r2: "res = Inr (Some err)" and w2: "w' = w2"
        by (simp_all add: BuildDependencies_def)
      from ee have np: "\<not> is_parse_error err" by simp
      have a: "\<exists>rest. trace w' = trace w @ EvRemoveAll ?c # EvMkdir ?c # rest"
        using t2 w2 by simp
      have b: "\<forall>err. m = Some err \<longrightarrow>
               res = Inr (Some err) \<and> trace w' = trace w @ [EvRemoveAll ?c, EvMkdir ?c] \<and>
               files w' ?c = None \<and> (\<forall>q. under ?c q \<longrightarrow> files w' q = None)"
        using Some r2 w2 t2 f2 f1 by simp
      have c: "m = None \<longrightarrow>
               files w2 ?c = Some Dir \<and> (\<forall>q. under ?c q \<longrightarrow> files w2 q = None) \<and>
               (\<exists>rest. trace w' = trace w @ EvRemoveAll ?c # EvMkdir ?c # EvStat ?rl # rest)"
        using Some by simp
      have d: "\<forall>e. res = Inr (Some e) \<and> is_parse_error e \<longrightarrow>
               files w' ?c = Some Dir \<and> (\<forall>q. under ?c q \<longrightarrow> files w' q = None)"
        using r2 np by simp
      from a b c d show ?thesis by (intro conjI)
    next
      case mn: None
      with mk have f2: "files w2 ?c = Some Dir" "\<forall>q. under ?c q \<longrightarrow> files w2 q = None"
        by (auto simp add: os_Mkdir_def Let_def f1 under_not_self split: if_splits)
      have keep: "\<And>w3. quiet_step chartPath w2 w3 \<Longrightarrow>
          files w3 ?c = Some Dir \<and> (\<forall>q. under ?c q \<longrightarrow> files w3 q = None)"
      proof -
        fix w3 assume q: "quiet_step chartPath w2 w3"
        from quiet_files [OF q charts_not_pkg(1)] f2 have b: "files w3 ?c = Some Dir" by simp
        have c: "\<forall>q. under ?c q \<longrightarrow> files w3 q = None"
        proof (intro allI impI)
          fix p assume u: "under ?c p"
          from quiet_files [OF q charts_not_pkg(2) [OF u]] f2 u show "files w3 p = None" by simp
        qed
        from b c show "files w3 ?c = Some Dir \<and> (\<forall>q. under ?c q \<longrightarrow> files w3 q = None)"
          by (intro conjI)
      qed
      obtain g w3 where gl: "GetChartLock chartPath w2 = (g, w3)" by (cases "GetChartLock chartPath w2") auto
      from GetChartLock_quiet [of chartPath w2] gl have q3: "quiet_step chartPath w2 w3" by simp
      from GetChartLock_first [of chartPath w2] gl obtain r3 where
        "trace w3 = trace w2 @ EvStat ?rl # r3" by auto
      with t2 have t3: "trace w3 = trace w @ EvRemoveAll ?c # EvMkdir ?c # EvStat ?rl # r3" by simp
      have later: "\<And>v. \<exists>rest. trace v = trace w3 @ rest \<Longrightarrow>
          \<exists>rest. trace v = trace w @ EvRemoveAll ?c # EvMkdir ?c # EvStat ?rl # rest"
      proof -
        fix v assume "\<exists>rest. trace v = trace w3 @ rest"
        then obtain r0 where "trace v = trace w3 @ r0" ..
        with t3 have "trace v = trace w @ EvRemoveAll ?c # EvMkdir ?c # EvStat ?rl # (r3 @ r0)" by simp
        then show "\<exists>rest. trace v = trace w @ EvRemoveAll ?c # EvMkdir ?c # EvStat ?rl # rest" ..
      qed
      have fin: "(\<exists>rest. trace w' = trace w3 @ rest) \<and>
         (\<forall>e. res = Inr (Some e) \<and> is_parse_error e \<longrightarrow> quiet_step chartPath w2 w')"
      proof (cases g)
        case (Inl err)
        with run rm None mk mn gl have "w' = w3" by (simp add: BuildDependencies_def)
        with q3 show ?thesis by simp
      next
        case (Inr lock)
        obtain v w4 where gv: "GetLockAPIVersion chartPath w3 = (v, w4)"
          by (cases "GetLockAPIVersion chartPath w3") auto
        from GetLockAPIVersion_quiet [of chartPath w3] gv have q34: "quiet_step chartPath w3 w4" by simp
        from quiet_trans [OF q3 q34] have q4: "quiet_step chartPath w2 w4" .
        from quiet_extends [OF q34] obtain r4 where t4: "trace w4 = trace w3 @ r4" ..
        show ?thesis
        proof (cases v)
          case (Inl err)
          with run rm None mk mn gl Inr gv have "w' = w4" by (simp add: BuildDependencies_def)
          with q4 t4 show ?thesis by simp
        next
          case api: (Inr apiVersion)
          with run rm None mk mn gl Inr gv
          have rs: "BuildDependencies_resolve X chartPath r sourceRepo targetRepo t syncTrusted ignoreTrusted
                      lock apiVersion w4 = (res, w')"
            by (simp add: BuildDependencies_def)
          from resolve_frame [OF rs] obtain rest where
            tr: "trace w' = trace w4 @ rest"
            and pe: "\<forall>e. res = Inr (Some e) \<and> is_parse_error e \<longrightarrow> quiet_step chartPath w4 w'"
            by (elim conjE exE)
          from tr t4 have "trace w' = trace w3 @ (r4 @ rest)" by simp
          then have a: "\<exists>rest. trace w' = trace w3 @ rest" ..
          have b: "\<forall>e. res = Inr (Some e) \<and> is_parse_error e \<longrightarrow> quiet_step chartPath w2 w'"
          proof (intro allI impI)
            fix e assume "res = Inr (Some e) \<and> is_parse_error e"
            with pe have "quiet_step chartPath w4 w'" by simp
            from quiet_trans [OF q4 this] show "quiet_step chartPath w2 w'" .
          qed
          from a b show ?thesis by (intro conjI)
        qed
      qed
      from fin have fa: "\<exists>rest. trace w' = trace w3 @ rest" by (rule conjunct1)
      from fin have fb: "\<forall>e. res = Inr (Some e) \<and> is_parse_error e \<longrightarrow> quiet_step chartPath w2 w'"
        by (rule conjunct2)
      from later [OF fa] obtain r9 where
        t9: "trace w' = trace w @ EvRemoveAll ?c # EvMkdir ?c # EvStat ?rl # r9" ..
      then have a: "\<exists>rest. trace w' = trace w @ EvRemoveAll ?c # EvMkdir ?c # rest" by simp
      have b: "\<forall>err. m = Some err \<longrightarrow>
               res = Inr (Some err) \<and> trace w' = trace w @ [EvRemoveAll ?c, EvMkdir ?c] \<and>
               files w' ?c = None \<and> (\<forall>q. under ?c q \<longrightarrow> files w' q = None)"
        using mn by simp
      from f2 later [OF fa]
      have c: "m = None \<longrightarrow>
               files w2 ?c = Some Dir \<and> (\<forall>q. under ?c q \<longrightarrow> files w2 q = None) \<and>
               (\<exists>rest. trace w' = trace w @ EvRemoveAll ?c # EvMkdir ?c # EvStat ?rl # rest)"
        by (intro impI conjI)
      have d: "\<forall>e. res = Inr (Some e) \<and> is_parse_error e \<longrightarrow>
               files w' ?c = Some Dir \<and> (\<forall>q. under ?c q \<longrightarrow> files w' q = None)"
      proof (intro allI impI)
        fix e assume "res = Inr (Some e) \<and> is_parse_error e"
        with fb have "quiet_step chartPath w2 w'" by simp
        from keep [OF this]
        show "files w' ?c = Some Dir \<and> (\<forall>q. under ?c q \<longrightarrow> files w' q = None)" .
      qed
      from a b c d show ?thesis by (intro conjI)
    qed
    from main have Q1: "\<exists>rest. trace w' = trace w @ EvRemoveAll ?c # EvMkdir ?c # rest"
      by (elim conjE)
    then obtain r1 where "trace w' = trace w @ EvRemoveAll ?c # EvMkdir ?c # r1" ..
    then have P1: "\<exists>rest. trace w' = trace w @ EvRemoveAll ?c # rest" by simp
    from main have Q2: "\<forall>err. m = Some err \<longrightarrow>
               res = Inr (Some err) \<and> trace w' = trace w @ [EvRemoveAll ?c, EvMkdir ?c] \<and>
               files w' ?c = None \<and> (\<forall>q. under ?c q \<longrightarrow> files w' q = None)"
      by (elim conjE)
    from main have Q3: "m = None \<longrightarrow>
               files w2 ?c = Some Dir \<and> (\<forall>q. under ?c q \<longrightarrow> files w2 q = None) \<and>
               (\<exists>rest. trace w' = trace w @ EvRemoveAll ?c # EvMkdir ?c # EvStat ?rl # rest)"
      by (elim conjE)
    from main have P4: "\<forall>e. res = Inr (Some e) \<and> is_parse_error e \<longrightarrow>
               files w' ?c = Some Dir \<and> (\<forall>q. under ?c q \<longrightarrow> files w' q = None)"
      by (elim conjE)
    have s1: "snd (os_RemoveAll ?c w) = w1" using rm by simp
    have s2: "fst (os_Mkdir ?c w1) = m" "snd (os_Mkdir ?c w1) = w2" using mk by simp_all
    have P3: "fst (os_RemoveAll ?c w) = None \<longrightarrow>
            (\<exists>rest. trace w' = trace w @ EvRemoveAll ?c # EvMkdir ?c # rest) \<and>
            (\<forall>err. fst (os_Mkdir ?c (snd (os_RemoveAll ?c w))) = Some err \<longrightarrow>
               res = Inr (Some err) \<and> trace w' = trace w @ [EvRemoveAll ?c, EvMkdir ?c] \<and>
               files w' ?c = None \<and> (\<forall>q. under ?c q \<longrightarrow> files w' q = None)) \<and>
            (fst (os_Mkdir ?c (snd (os_RemoveAll ?c w))) = None \<longrightarrow>
               files (snd (os_Mkdir ?c (snd (os_RemoveAll ?c w)))) ?c = Some Dir \<and>
               (\<forall>q. under ?c q \<longrightarrow> files (snd (os_Mkdir ?c (snd (os_RemoveAll ?c w)))) q = None) \<and>
               (\<exists>rest. trace w' = trace w @ EvRemoveAll ?c # EvMkdir ?c # EvStat ?rl # rest))"
      unfolding s1 s2 by (rule impI) (intro conjI Q1 Q2 Q3)
    from P1 P2 P3 P4 show ?thesis by (intro conjI)
  qed
qed

lemma broken_run:
  "fst (BuildDependencies ref_ext ''p'' cache_client ex_source ex_target no_clients [] ex_ignore broken_pkg)
     = Inr (Some (Unmarshaling ''p/Chart.lock'' (YamlError ''dependencies: ['')))"
  by (simp add: model_defs ref_defs ex_defs const_defs)

lemma broken_reset:
  "fst (os_RemoveAll ''p/charts'' broken_pkg) = None \<and>
   fst (os_Mkdir ''p/charts'' (snd (os_RemoveAll ''p/charts'' broken_pkg))) = None"
  by (simp add: os_RemoveAll_def not_a_directory.simps os_Mkdir_def path_Dir_def is_directory_def
        under_def log_def Let_def broken_pkg_def)

lemma blocked_reset:
  "fst (os_RemoveAll ''p/charts'' blocked_pkg) = Some (OsError ''unlinkat'' ''p/charts'')"
  by (simp add: os_RemoveAll_def not_a_directory.simps path_Dir_def log_def Let_def blocked_pkg_def)

text \<open>
  The package with a lock file that is not YAML: the run fails with the parse error,
  after removing and making \<^verbatim>\<open>charts\<close> and only then looking up the lock; the
  folder is an empty directory and the stale archive is gone. And a chart path that is a
  regular file: the removal fails, the run returns that error, and the removal is the
  only call made.
\<close>

theorem charts_folder_reset_first_witness:
  "fst (BuildDependencies ref_ext ''p'' cache_client ex_source ex_target no_clients [] ex_ignore broken_pkg)
     = Inr (Some (Unmarshaling ''p/Chart.lock'' (YamlError ''dependencies: [''))) \<and>
   is_parse_error (Unmarshaling ''p/Chart.lock'' (YamlError ''dependencies: ['')) \<and>
   files broken_pkg ''p/charts/stale-0.0.1.tgz'' = Some (File (Blob ''stale'')) \<and>
   fst (os_RemoveAll ''p/charts'' broken_pkg) = None \<and>
   fst (os_Mkdir ''p/charts'' (snd (os_RemoveAll ''p/charts'' broken_pkg))) = None \<and>
   (\<exists>rest. trace (snd (BuildDependencies ref_ext ''p'' cache_client ex_source ex_target no_clients []
                          ex_ignore broken_pkg))
            = EvRemoveAll ''p/charts'' # EvMkdir ''p/charts'' # EvStat ''p/requirements.lock'' # rest) \<and>
   files (snd (os_Mkdir ''p/charts'' (snd (os_RemoveAll ''p/charts'' broken_pkg)))) ''p/charts''
     = Some Dir \<and>
   files (snd (os_Mkdir ''p/charts'' (snd (os_RemoveAll ''p/charts'' broken_pkg))))
     ''p/charts/stale-0.0.1.tgz'' = None \<and>
   files (snd (BuildDependencies ref_ext ''p'' cache_client ex_source ex_target no_clients []
                 ex_ignore broken_pkg)) ''p/charts'' = Some Dir \<and>
   files (snd (BuildDependencies ref_ext ''p'' cache_client ex_source ex_target no_clients []
                 ex_ignore broken_pkg)) ''p/charts/stale-0.0.1.tgz'' = None \<and>
   fst (os_RemoveAll ''p/charts'' blocked_pkg) = Some (OsError ''unlinkat'' ''p/charts'') \<and>
   fst (BuildDependencies ref_ext ''p'' cache_client ex_source ex_target no_clients [] ex_ignore blocked_pkg)
     = Inr (Some (OsError ''unlinkat'' ''p/charts'')) \<and>
   trace (snd (BuildDependencies ref_ext ''p'' cache_client ex_source ex_target no_clients []
                 ex_ignore blocked_pkg)) = [EvRemoveAll ''p/charts''] \<and>
   files (snd (BuildDependencies ref_ext ''p'' cache_client ex_source ex_target no_clients []
                 ex_ignore blocked_pkg)) = files blocked_pkg"
proof -
  let ?run = "BuildDependencies ref_ext ''p'' cache_client ex_source ex_target no_clients [] ex_ignore broken_pkg"
  let ?blk = "BuildDependencies ref_ext ''p'' cache_client ex_source ex_target no_clients [] ex_ignore blocked_pkg"
  let ?w2 = "snd (os_Mkdir ''p/charts'' (snd (os_RemoveAll ''p/charts'' broken_pkg)))"
  have c: "path_Join [''p'', ''charts''] = ''p/charts''"
    "path_Join [''p'', RequirementsLockFilename] = ''p/requirements.lock''"
    by (simp_all add: path_Join_def const_defs)
  have run: "?run = (fst ?run, snd ?run)" by simp
  have blk: "?blk = (fst ?blk, snd ?blk)" by simp
  have u: "under ''p/charts'' ''p/charts/stale-0.0.1.tgz''" by (simp add: under_def)
  have t0: "trace broken_pkg = []" by (simp add: broken_pkg_def)
  have t0': "trace blocked_pkg = []" by (simp add: blocked_pkg_def)
  have s0: "files broken_pkg ''p/charts/stale-0.0.1.tgz'' = Some (File (Blob ''stale''))"
    by (simp add: broken_pkg_def)
  have pe: "is_parse_error (Unmarshaling ''p/Chart.lock'' (YamlError ''dependencies: [''))" by simp
  from broken_reset have r1: "fst (os_RemoveAll ''p/charts'' broken_pkg) = None" by (rule conjunct1)
  from broken_reset have r2: "fst (os_Mkdir ''p/charts'' (snd (os_RemoveAll ''p/charts'' broken_pkg))) = None"
    by (rule conjunct2)
  note inst = charts_folder_reset_first [OF run, unfolded c]
  from inst have P3: "fst (os_RemoveAll ''p/charts'' broken_pkg) = None \<longrightarrow>
            (\<exists>rest. trace (snd ?run) = trace broken_pkg @ EvRemoveAll ''p/charts'' # EvMkdir ''p/charts'' # rest) \<and>
            (\<forall>err. fst (os_Mkdir ''p/charts'' (snd (os_RemoveAll ''p/charts'' broken_pkg))) = Some err \<longrightarrow>
               fst ?run = Inr (Some err) \<and>
               trace (snd ?run) = trace broken_pkg @ [EvRemoveAll ''p/charts'', EvMkdir ''p/charts''] \<and>
               files (snd ?run) ''p/charts'' = None \<and>
               (\<forall>q. under ''p/charts'' q \<longrightarrow> files (snd ?run) q = None)) \<and>
            (fst (os_Mkdir ''p/charts'' (snd (os_RemoveAll ''p/charts'' broken_pkg))) = None \<longrightarrow>
               files ?w2 ''p/charts'' = Some Dir \<and>
               (\<forall>q. under ''p/charts'' q \<longrightarrow> files ?w2 q = None) \<and>
               (\<exists>rest. trace (snd ?run) = trace broken_pkg @ EvRemoveAll ''p/charts'' # EvMkdir ''p/charts''
                                             # EvStat ''p/requirements.lock'' # rest))"
    by (elim conjE)
  from P3 r1 r2 have A: "files ?w2 ''p/charts'' = Some Dir"
    and B: "\<forall>q. under ''p/charts'' q \<longrightarrow> files ?w2 q = None"
    and C: "\<exists>rest. trace (snd ?run) = trace broken_pkg @ EvRemoveAll ''p/charts'' # EvMkdir ''p/charts''
                                             # EvStat ''p/requirements.lock'' # rest"
    by simp_all
  from B u have B': "files ?w2 ''p/charts/stale-0.0.1.tgz'' = None" by simp
  from C t0 have C': "\<exists>rest. trace (snd ?run) = EvRemoveAll ''p/charts'' # EvMkdir ''p/charts''
                                             # EvStat ''p/requirements.lock'' # rest" by simp
  from inst have P4: "\<forall>e. fst ?run = Inr (Some e) \<and> is_parse_error e \<longrightarrow>
            files (snd ?run) ''p/charts'' = Some Dir \<and>
            (\<forall>q. under ''p/charts'' q \<longrightarrow> files (snd ?run) q = None)"
    by (elim conjE)
  from P4 broken_run pe have D: "files (snd ?run) ''p/charts'' = Some Dir"
    and E: "\<forall>q. under ''p/charts'' q \<longrightarrow> files (snd ?run) q = None"
    by simp_all
  from E u have E': "files (snd ?run) ''p/charts/stale-0.0.1.tgz'' = None" by simp
  note inst' = charts_folder_reset_first [OF blk, unfolded c]
  from inst' have P2: "\<forall>err. fst (os_RemoveAll ''p/charts'' blocked_pkg) = Some err \<longrightarrow>
            fst ?blk = Inr (Some err) \<and>
            trace (snd ?blk) = trace blocked_pkg @ [EvRemoveAll ''p/charts''] \<and>
            files (snd ?blk) = files blocked_pkg"
    by (elim conjE)
  from P2 blocked_reset t0' have F: "fst ?blk = Inr (Some (OsError ''unlinkat'' ''p/charts''))"
    and G: "trace (snd ?blk) = [EvRemoveAll ''p/charts'']"
    and H: "files (snd ?blk) = files blocked_pkg"
    by simp_all
  from broken_run pe s0 r1 r2 C' A B' D E' blocked_reset F G H show ?thesis by (intro conjI)
qed

subsection \<open>Which entries step 2 fetches\<close>








lemma authoritative_None: "authoritative_deps None dm = dm"
  by (cases dm) (simp_all add: authoritative_deps_def)




subsection \<open>A package with inline declarations and no lock\<close>

lemma build_one_writes:
  "build_one cp c og dep w = (r, w') \<Longrightarrow> filter is_write (trace w') = filter is_write (trace w)"
  by (auto simp add: build_one_def utils_CopyFile_def log_def Let_def
        split: sum.splits option.splits node.splits if_splits)

lemma run_deps_writes:
  "filter is_write (trace (snd (run_deps X cp r t sy ig ds w))) = filter is_write (trace w)"
proof (induction ds arbitrary: w)
  case Nil
  show ?case by simp
next
  case (Cons dep ds)
  show ?case
  proof (cases "client_at r t (fetch_origin X sy ig dep)")
    case None
    then show ?thesis by simp
  next
    case (Some c)
    obtain e w1 where b: "build_one cp c (fetch_origin X sy ig dep) dep w = (e, w1)"
      by (cases "build_one cp c (fetch_origin X sy ig dep) dep w") auto
    from Cons.IH [of w1] build_one_writes [OF b] show ?thesis
      unfolding run_deps_Cons [OF Some b] by simp
  qed
qed

lemma root_not_charts:
  "cp \<noteq> path_Join [cp, ''charts'']" "\<not> under (path_Join [cp, ''charts'']) cp"
  by (auto simp add: path_Join_def under_def prefix_def)

lemma inline_prefix:
  assumes root: "files w cp = Some Dir"
    and nl1: "files w (path_Join [cp, RequirementsLockFilename]) = None"
    and nl2: "files w (path_Join [cp, ChartLockFilename]) = None"
    and chart: "files w (path_Join [cp, ChartFilename]) = Some (File (Yaml d))"
    and v2: "y_apiVersion d = chart_APIVersionV2"
    and T: "getDependencyRepoURL X t = Inr T"
  shows "\<exists>w6. BuildDependencies X cp r s t tm sy ig w
                = BuildDependencies_step2 X cp r tm sy ig None (y_dependencies d) w6 \<and>
           filter is_write (trace w6) = filter is_write (trace w) @ [EvWriteFile (path_Join [cp, ChartFilename])] \<and>
           filter is_fetch (trace w6) = filter is_fetch (trace w) \<and>
           files w6 = (\<lambda>q. if q = path_Join [cp, ChartFilename]
                           then Some (File (Yaml (yaml_Marshal_Metadata ((Metadata_of d)
                                  \<lparr>meta_Dependencies := map_option (map (rewrite_entry X s sy ig T)) (y_dependencies d)\<rparr>))))
                           else if q = path_Join [cp, ''charts''] then Some Dir
                           else if under (path_Join [cp, ''charts'']) q then None
                           else files w q)"
proof -
  let ?c = "path_Join [cp, ''charts'']"
  let ?cf = "path_Join [cp, ChartFilename]"
  let ?rl = "path_Join [cp, RequirementsLockFilename]"
  let ?cl = "path_Join [cp, ChartLockFilename]"
  let ?new = "File (Yaml (yaml_Marshal_Metadata ((Metadata_of d)
                \<lparr>meta_Dependencies := map_option (map (rewrite_entry X s sy ig T)) (y_dependencies d)\<rparr>)))"
  have n1: "?cf \<noteq> ?c" "\<not> under ?c ?cf" using pkg_not_charts [of ChartFilename cp] by simp_all
  have n2: "?rl \<noteq> ?c" "\<not> under ?c ?rl" using pkg_not_charts [of RequirementsLockFilename cp] by simp_all
  have n3: "?cl \<noteq> ?c" "\<not> under ?c ?cl" using pkg_not_charts [of ChartLockFilename cp] by simp_all
  have pd: "path_Dir ?c = cp" by (intro path_Dir_Join2) simp_all
  define w1 where "w1 = (log (EvRemoveAll ?c) w)\<lparr>files := (\<lambda>q. if q = ?c \<or> under ?c q then None else files w q)\<rparr>"
  define w2 where "w2 = (log (EvMkdir ?c) w1)\<lparr>files := (files w1)(?c \<mapsto> Dir)\<rparr>"
  define w3 where "w3 = log (EvStat ?cl) (log (EvStat ?rl) w2)"
  define w4 where "w4 = log (EvStat ?cl) (log (EvStat ?rl) w3)"
  define w5 where "w5 = log (EvReadFile ?cf) w4"
  define w6 where "w6 = (log (EvWriteFile ?cf) (log (EvReadFile ?cf) w5))\<lparr>files := (files w5)(?cf \<mapsto> ?new)\<rparr>"
  have "\<not> not_a_directory w ?c"
    using root by (simp add: not_a_directory.simps [of w ?c] pd)
  then have rm: "os_RemoveAll ?c w = (None, w1)"
    by (simp add: os_RemoveAll_def w1_def Let_def)
  have f1: "files w1 = (\<lambda>q. if q = ?c \<or> under ?c q then None else files w q)"
    by (simp add: w1_def)
  have t1: "trace w1 = trace w @ [EvRemoveAll ?c]" by (simp add: w1_def log_def)
  have mk: "os_Mkdir ?c w1 = (None, w2)"
    using root root_not_charts [of cp] by (simp add: os_Mkdir_def is_directory_def pd Let_def f1 w2_def)
  have f2: "files w2 = (\<lambda>q. if q = ?c then Some Dir else if under ?c q then None else files w q)"
    by (rule ext) (simp add: w2_def f1)
  have t2: "trace w2 = trace w @ [EvRemoveAll ?c, EvMkdir ?c]" by (simp add: w2_def t1 log_def)
  have g2: "files w2 cp = Some Dir" "files w2 ?rl = None" "files w2 ?cl = None"
           "files w2 ?cf = Some (File (Yaml d))"
    using root nl1 nl2 chart n1 n2 n3 root_not_charts [of cp] by (simp_all add: f2)
  have nf2: "\<forall>c. files w2 cp \<noteq> Some (File c)" using g2(1) by simp
  have gv2: "GetLockAPIVersion cp w2 = (Inr [], w3)"
    using GetLockAPIVersion_eq [OF nf2] g2(2,3) by (simp add: w3_def)
  have gl: "GetChartLock cp w2 = (Inr None, w3)"
    by (simp add: GetChartLock_def gv2)
  have f3: "files w3 = files w2" by (simp add: w3_def)
  have t3: "trace w3 = trace w2 @ [EvStat ?rl, EvStat ?cl]" by (simp add: w3_def log_def)
  have nf3: "\<forall>c. files w3 cp \<noteq> Some (File c)" using g2(1) by (simp add: f3)
  have gv3: "GetLockAPIVersion cp w3 = (Inr [], w4)"
    using GetLockAPIVersion_eq [OF nf3] g2(2,3) by (simp add: w4_def f3)
  have f4: "files w4 = files w2" by (simp add: w4_def f3)
  have t4: "trace w4 = trace w3 @ [EvStat ?rl, EvStat ?cl]" by (simp add: w4_def log_def)
  have c4: "files w4 ?cf = Some (File (Yaml d))" using g2(4) by (simp add: f4)
  have lc: "LoadChartfile ?cf w4 = (Inr (Metadata_of d), w5)"
    by (simp add: LoadChartfile_def ioutil_ReadFile_file [OF c4] yaml_Unmarshal_def w5_def)
  have f5: "files w5 = files w2" by (simp add: w5_def f4)
  have t5: "trace w5 = trace w4 @ [EvReadFile ?cf]" by (simp add: w5_def log_def)
  have r5: "is_directory w5 cp" using g2(1) by (simp add: is_directory_def f5)
  have c5: "files w5 ?cf = Some (File (Yaml d))" using g2(4) by (simp add: f5)
  have up: "updateChartMetadataFile X cp None s t sy ig w5 = (Inr None, None, w6)"
    using updateChartMetadataFile_written [OF T r5 c5, of None s sy ig] by (simp add: Let_def w6_def)
  have f6: "files w6 = (files w2)(?cf \<mapsto> ?new)" by (simp add: w6_def f5)
  have t6: "trace w6 = trace w5 @ [EvReadFile ?cf, EvWriteFile ?cf]" by (simp add: w6_def log_def)
  have ne: "APIV2 \<noteq> APIV1" by (simp add: const_defs)
  have u: "BuildDependencies_update X cp r s t tm sy ig None APIV2 (y_dependencies d) w5
             = BuildDependencies_step2 X cp r tm sy ig None (y_dependencies d) w6"
    unfolding BuildDependencies_update_def using ne by (simp add: up)
  have rs: "BuildDependencies_resolve X cp r s t tm sy ig None [] w4
             = BuildDependencies_step2 X cp r tm sy ig None (y_dependencies d) w6"
    unfolding BuildDependencies_resolve_def using v2 u by (simp add: lc Metadata_of_def)
  have A: "BuildDependencies X cp r s t tm sy ig w
             = BuildDependencies_step2 X cp r tm sy ig None (y_dependencies d) w6"
    unfolding BuildDependencies_def by (simp add: rm mk gl gv3 rs)
  have B: "filter is_write (trace w6) = filter is_write (trace w) @ [EvWriteFile ?cf]"
    by (simp add: t6 t5 t4 t3 t2)
  have C: "filter is_fetch (trace w6) = filter is_fetch (trace w)"
    by (simp add: t6 t5 t4 t3 t2)
  have D: "files w6 = (\<lambda>q. if q = ?cf then Some ?new
                           else if q = ?c then Some Dir
                           else if under ?c q then None
                           else files w q)"
    by (rule ext) (simp add: f6 f2)
  from A B C D show ?thesis by blast
qed

lemma step2_inline:
  assumes "\<forall>dep\<in>set (slice dm). fetch_result X r tm sy ig dep \<noteq> None"
  shows "\<exists>errs. BuildDependencies_step2 X cp r tm sy ig None dm w
                  = (Inr errs, snd (run_deps X cp r tm sy ig (slice dm) w)) \<and>
           errors_of errs = fst (run_deps X cp r tm sy ig (slice dm) w) \<and>
           (errs = None \<longleftrightarrow> fst (run_deps X cp r tm sy ig (slice dm) w) = [])"
proof (cases dm)
  case None
  then show ?thesis
    by (simp add: BuildDependencies_step2_def authoritative_None slice_def errors_of_def)
next
  case (Some ds)
  with assms have c: "\<forall>dep\<in>set ds. fetch_result X r tm sy ig dep \<noteq> None"
    by (simp add: slice_def)
  from loop_eq_run [OF c, of cp None w] Some show ?thesis
    by (simp add: BuildDependencies_step2_def authoritative_None slice_def errors_of_def)
qed

text \<open>
  Claim C8. Take a package whose root is a directory, that has neither lock file, and
  whose \<^verbatim>\<open>Chart.yaml\<close> is a Modern metadata (API version V2) with its dependencies
  declared inline; let the target have a canonical dependency URL \<open>T\<close> and let no
  selected client be nil. Then \<open>BuildDependencies\<close> returns normally, and every error
  it reports is the failure to fetch or to copy one of the declared dependencies; no lock
  file exists afterwards, and the only file written is \<^verbatim>\<open>Chart.yaml\<close>, once, with
  the declarations rewritten (so no lock is written and no digest is computed). One
  archive is fetched for every inline declaration, in order, the origin decided on the
  declaration as it was read. The folder \<^verbatim>\<open>charts\<close> is a directory that holds
  nothing but archives of the declarations. When moreover every fetch hands back an
  archive that exists outside of \<^verbatim>\<open>charts\<close>, and no identity key contains a slash, the
  call returns no error and the archive of every declaration is in the folder.
\<close>

theorem inline_dependencies_without_lock:
  assumes root: "files w chartPath = Some Dir"
    and nl1: "files w (path_Join [chartPath, RequirementsLockFilename]) = None"
    and nl2: "files w (path_Join [chartPath, ChartLockFilename]) = None"
    and chart: "files w (path_Join [chartPath, ChartFilename]) = Some (File (Yaml d))"
    and v2: "y_apiVersion d = chart_APIVersionV2"
    and T: "getDependencyRepoURL X targetRepo = Inr T"
    and clients: "\<forall>dep\<in>set (slice (y_dependencies d)).
                    fetch_result X r t syncTrusted ignoreTrusted dep \<noteq> None"
    and run: "BuildDependencies X chartPath r sourceRepo targetRepo t syncTrusted ignoreTrusted w = (res, w')"
  shows "(\<exists>errs. res = Inr errs \<and>
            (\<forall>e\<in>set (errors_of errs). \<exists>dep\<in>set (slice (y_dependencies d)).
               (\<exists>cause. e = Fetching (dep_id dep) cause) \<or>
               (\<exists>cause. e = Copying (dep_id dep) (dep_file chartPath dep) cause))) \<and>
         files w' (path_Join [chartPath, RequirementsLockFilename]) = None \<and>
         files w' (path_Join [chartPath, ChartLockFilename]) = None \<and>
         filter is_write (trace w') =
           filter is_write (trace w) @ [EvWriteFile (path_Join [chartPath, ChartFilename])] \<and>
         files w' (path_Join [chartPath, ChartFilename]) =
           Some (File (Yaml (yaml_Marshal_Metadata ((Metadata_of d)
             \<lparr>meta_Dependencies :=
                map_option (map (rewrite_entry X sourceRepo syncTrusted ignoreTrusted T))
                  (y_dependencies d)\<rparr>)))) \<and>
         filter is_fetch (trace w') =
           filter is_fetch (trace w) @
             map (fetch_event X syncTrusted ignoreTrusted) (slice (y_dependencies d)) \<and>
         files w' (path_Join [chartPath, ''charts'']) = Some Dir \<and>
         (\<forall>q. under (path_Join [chartPath, ''charts'']) q \<and> files w' q \<noteq> None \<longrightarrow>
              q \<in> dep_file chartPath ` set (slice (y_dependencies d))) \<and>
         ((\<forall>dep\<in>set (slice (y_dependencies d)).
              CHR ''/'' \<notin> set (dep_id dep) \<and>
              (\<exists>p b. fetch_result X r t syncTrusted ignoreTrusted dep = Some (Inr p) \<and>
                     files w p = Some (File b) \<and> p \<noteq> path_Join [chartPath, ''charts''] \<and>
                     \<not> under (path_Join [chartPath, ''charts'']) p)) \<longrightarrow>
          res = Inr None \<and>
          (\<forall>dep\<in>set (slice (y_dependencies d)).
              \<exists>b. files w' (dep_file chartPath dep) = Some (File b)))"
proof -
  let ?c = "path_Join [chartPath, ''charts'']"
  let ?cf = "path_Join [chartPath, ChartFilename]"
  let ?rl = "path_Join [chartPath, RequirementsLockFilename]"
  let ?cl = "path_Join [chartPath, ChartLockFilename]"
  let ?ds = "slice (y_dependencies d)"
  let ?new = "File (Yaml (yaml_Marshal_Metadata ((Metadata_of d)
                \<lparr>meta_Dependencies :=
                   map_option (map (rewrite_entry X sourceRepo syncTrusted ignoreTrusted T))
                     (y_dependencies d)\<rparr>)))"
  have n1: "?cf \<noteq> ?c" "\<not> under ?c ?cf" using pkg_not_charts [of ChartFilename chartPath] by simp_all
  have n2: "?rl \<noteq> ?c" "\<not> under ?c ?rl" using pkg_not_charts [of RequirementsLockFilename chartPath] by simp_all
  have n3: "?cl \<noteq> ?c" "\<not> under ?c ?cl" using pkg_not_charts [of ChartLockFilename chartPath] by simp_all
  from inline_prefix [OF root nl1 nl2 chart v2 T, of r sourceRepo t syncTrusted ignoreTrusted]
  obtain w6 where
    A: "BuildDependencies X chartPath r sourceRepo targetRepo t syncTrusted ignoreTrusted w
          = BuildDependencies_step2 X chartPath r t syncTrusted ignoreTrusted None (y_dependencies d) w6"
    and B: "filter is_write (trace w6) = filter is_write (trace w) @ [EvWriteFile ?cf]"
    and C: "filter is_fetch (trace w6) = filter is_fetch (trace w)"
    and D: "files w6 = (\<lambda>q. if q = ?cf then Some ?new
                           else if q = ?c then Some Dir
                           else if under ?c q then None
                           else files w q)"
    by (elim exE conjE)
  let ?run = "run_deps X chartPath r t syncTrusted ignoreTrusted ?ds w6"
  from step2_inline [OF clients, of chartPath w6] obtain errs where
    s2: "BuildDependencies_step2 X chartPath r t syncTrusted ignoreTrusted None (y_dependencies d) w6
           = (Inr errs, snd ?run)"
    and eo: "errors_of errs = fst ?run"
    and en: "errs = None \<longleftrightarrow> fst ?run = []"
    by (elim exE conjE)
  from run A s2 have res: "res = Inr errs" and w': "w' = snd ?run" by simp_all
  note fr = run_deps_files [of chartPath X r t syncTrusted ignoreTrusted ?ds w6]
  from fr have fr1: "\<And>q. \<not> under ?c q \<Longrightarrow> files w' q = files w6 q"
    unfolding w' by (elim conjE) simp
  from fr have fr3: "\<And>q. files w' q = Some Dir \<longleftrightarrow> files w6 q = Some Dir"
    unfolding w' by (elim conjE) simp
  from fr have fr4: "\<And>q. files w' q \<noteq> None \<Longrightarrow> files w6 q \<noteq> None \<or> q \<in> dep_file chartPath ` set ?ds"
    unfolding w' by (elim conjE) simp
  have P1: "\<exists>errs. res = Inr errs \<and>
            (\<forall>e\<in>set (errors_of errs). \<exists>dep\<in>set ?ds.
               (\<exists>cause. e = Fetching (dep_id dep) cause) \<or>
               (\<exists>cause. e = Copying (dep_id dep) (dep_file chartPath dep) cause))"
  proof (rule exI [of _ errs], rule conjI [OF res], rule ballI)
    fix e assume "e \<in> set (errors_of errs)"
    with eo have "e \<in> set (fst ?run)" by simp
    with run_deps_sound [of X chartPath r t syncTrusted ignoreTrusted ?ds w6]
    obtain dep where dm: "dep \<in> set ?ds"
      and de: "(\<exists>msg. e = Fetching (dep_id dep) (ClientError msg) \<and>
                  fetch_result X r t syncTrusted ignoreTrusted dep = Some (Inl msg)) \<or>
               (\<exists>p cause. e = Copying (dep_id dep) (dep_file chartPath dep) cause \<and>
                  fetch_result X r t syncTrusted ignoreTrusted dep = Some (Inr p))"
      by blast
    from de have "(\<exists>cause. e = Fetching (dep_id dep) cause) \<or>
               (\<exists>cause. e = Copying (dep_id dep) (dep_file chartPath dep) cause)"
      by (elim disjE exE conjE) simp_all
    with dm show "\<exists>dep\<in>set ?ds.
               (\<exists>cause. e = Fetching (dep_id dep) cause) \<or>
               (\<exists>cause. e = Copying (dep_id dep) (dep_file chartPath dep) cause)" ..
  qed
  have P2: "files w' ?rl = None" using fr1 [OF n2(2)] n1 n2 nl1 pkg_distinct [of chartPath] by (simp add: D)
  have P3: "files w' ?cl = None" using fr1 [OF n3(2)] n1 n3 nl2 pkg_distinct [of chartPath] by (simp add: D)
  have P4: "filter is_write (trace w') = filter is_write (trace w) @ [EvWriteFile ?cf]"
    unfolding w' by (simp add: run_deps_writes B)
  have P5: "files w' ?cf = Some ?new" using fr1 [OF n1(2)] by (simp add: D)
  have P6: "filter is_fetch (trace w') =
           filter is_fetch (trace w) @ map (fetch_event X syncTrusted ignoreTrusted) ?ds"
    unfolding w' by (simp add: run_deps_fetches [OF clients] C)
  have c6: "files w6 ?c = Some Dir" using n1 by (simp add: D)
  have P7: "files w' ?c = Some Dir" using fr3 [of ?c] c6 by simp
  have u6: "\<And>q. under ?c q \<Longrightarrow> files w6 q = None"
  proof -
    fix q assume u: "under ?c q"
    with n1(2) have "q \<noteq> ?cf" by auto
    moreover from u under_not_self have "q \<noteq> ?c" by auto
    ultimately show "files w6 q = None" using u by (simp add: D)
  qed
  have P8: "\<forall>q. under ?c q \<and> files w' q \<noteq> None \<longrightarrow> q \<in> dep_file chartPath ` set ?ds"
  proof (intro allI impI)
    fix q assume a: "under ?c q \<and> files w' q \<noteq> None"
    then have "files w6 q = None" using u6 by simp
    with fr4 [of q] a show "q \<in> dep_file chartPath ` set ?ds" by simp
  qed
  have P9: "(\<forall>dep\<in>set ?ds.
              CHR ''/'' \<notin> set (dep_id dep) \<and>
              (\<exists>p b. fetch_result X r t syncTrusted ignoreTrusted dep = Some (Inr p) \<and>
                     files w p = Some (File b) \<and> p \<noteq> ?c \<and> \<not> under ?c p)) \<longrightarrow>
          res = Inr None \<and>
          (\<forall>dep\<in>set ?ds. \<exists>b. files w' (dep_file chartPath dep) = Some (File b))"
  proof (rule impI)
    assume ok: "\<forall>dep\<in>set ?ds.
              CHR ''/'' \<notin> set (dep_id dep) \<and>
              (\<exists>p b. fetch_result X r t syncTrusted ignoreTrusted dep = Some (Inr p) \<and>
                     files w p = Some (File b) \<and> p \<noteq> ?c \<and> \<not> under ?c p)"
    have ok6: "\<forall>dep\<in>set ?ds. CHR ''/'' \<notin> set (dep_id dep) \<and>
           (\<exists>p b. fetch_result X r t syncTrusted ignoreTrusted dep = Some (Inr p) \<and> files w6 p = Some (File b))"
    proof (rule ballI)
      fix dep assume "dep \<in> set ?ds"
      with ok obtain p b where sl: "CHR ''/'' \<notin> set (dep_id dep)"
        and fp: "fetch_result X r t syncTrusted ignoreTrusted dep = Some (Inr p)"
        and fb: "files w p = Some (File b)" and pc: "p \<noteq> ?c" and pu: "\<not> under ?c p"
        by blast
      have "\<exists>b. files w6 p = Some (File b)"
        using fb pc pu by (simp add: D)
      with fp have "\<exists>p b. fetch_result X r t syncTrusted ignoreTrusted dep = Some (Inr p) \<and> files w6 p = Some (File b)"
        by (elim exE) (intro exI conjI)
      with sl show "CHR ''/'' \<notin> set (dep_id dep) \<and>
           (\<exists>p b. fetch_result X r t syncTrusted ignoreTrusted dep = Some (Inr p) \<and> files w6 p = Some (File b))" ..
    qed
    have nd: "\<forall>q. under ?c q \<longrightarrow> files w6 q \<noteq> Some Dir" using u6 by simp
    from run_deps_all_succeed [OF c6 nd ok6] have e0: "fst ?run = []" .
    with en res have r0: "res = Inr None" by simp
    from run_deps_unnamed [OF clients, of chartPath w6] e0
    have "\<forall>dep\<in>set ?ds. \<exists>b. files w' (dep_file chartPath dep) = Some (File b)"
      unfolding w' by simp
    with r0 show "res = Inr None \<and>
          (\<forall>dep\<in>set ?ds. \<exists>b. files w' (dep_file chartPath dep) = Some (File b))" ..
  qed
  from P1 P2 P3 P4 P5 P6 P7 P8 P9 show ?thesis by (intro conjI)
qed


text \<open>
  The package with three inline declarations and no lock, all served from the cache:
  the call returns no error, \<^verbatim>\<open>Chart.yaml\<close> is the only file written and holds the
  three declarations at the target's \<^verbatim>\<open>oci\<close> URL, no lock file appears, the stale
  archive is gone and the three archives are in \<^verbatim>\<open>charts\<close>.
\<close>

theorem inline_dependencies_without_lock_witness:
  "files inline_pkg ''p/Chart.yaml'' = Some (File (Yaml (mk_doc ''v2'' (Some inline_deps)))) \<and>
   files inline_pkg ''p/requirements.lock'' = None \<and>
   files inline_pkg ''p/Chart.lock'' = None \<and>
   files inline_pkg ''p/charts/stale-0.0.1.tgz'' = Some (File (Blob ''stale'')) \<and>
   fst (BuildDependencies ref_ext ''p'' cache_client ex_source ex_target no_clients [] ex_ignore inline_pkg)
     = Inr None \<and>
   files (snd (BuildDependencies ref_ext ''p'' cache_client ex_source ex_target no_clients [] ex_ignore
                 inline_pkg)) ''p/requirements.lock'' = None \<and>
   files (snd (BuildDependencies ref_ext ''p'' cache_client ex_source ex_target no_clients [] ex_ignore
                 inline_pkg)) ''p/Chart.lock'' = None \<and>
   filter is_write (trace (snd (BuildDependencies ref_ext ''p'' cache_client ex_source ex_target
                                  no_clients [] ex_ignore inline_pkg)))
     = [EvWriteFile ''p/Chart.yaml''] \<and>
   files (snd (BuildDependencies ref_ext ''p'' cache_client ex_source ex_target no_clients [] ex_ignore
                 inline_pkg)) ''p/Chart.yaml''
     = Some (File (Yaml (mk_doc ''v2'' (Some
         [mk_dep ''redis'' ''1.0.0'' ''oci://tgt/charts'',
          mk_dep ''etcd'' ''1.2.3'' ''oci://tgt/charts'',
          mk_dep ''nginx'' ''2.0.0'' ''oci://tgt/charts''])))) \<and>
   filter is_fetch (trace (snd (BuildDependencies ref_ext ''p'' cache_client ex_source ex_target
                                  no_clients [] ex_ignore inline_pkg)))
     = [EvFetch TargetSide ''redis'' ''1.0.0'', EvFetch TargetSide ''etcd'' ''1.2.3'',
        EvFetch TargetSide ''nginx'' ''2.0.0''] \<and>
   files (snd (BuildDependencies ref_ext ''p'' cache_client ex_source ex_target no_clients [] ex_ignore
                 inline_pkg)) ''p/charts'' = Some Dir \<and>
   files (snd (BuildDependencies ref_ext ''p'' cache_client ex_source ex_target no_clients [] ex_ignore
                 inline_pkg)) ''p/charts/stale-0.0.1.tgz'' = None \<and>
   (\<exists>b. files (snd (BuildDependencies ref_ext ''p'' cache_client ex_source ex_target no_clients []
                       ex_ignore inline_pkg)) ''p/charts/redis-1.0.0.tgz'' = Some (File b)) \<and>
   (\<exists>b. files (snd (BuildDependencies ref_ext ''p'' cache_client ex_source ex_target no_clients []
                       ex_ignore inline_pkg)) ''p/charts/etcd-1.2.3.tgz'' = Some (File b)) \<and>
   (\<exists>b. files (snd (BuildDependencies ref_ext ''p'' cache_client ex_source ex_target no_clients []
                       ex_ignore inline_pkg)) ''p/charts/nginx-2.0.0.tgz'' = Some (File b))"
proof -
  let ?run = "BuildDependencies ref_ext ''p'' cache_client ex_source ex_target no_clients [] ex_ignore inline_pkg"
  let ?d = "mk_doc ''v2'' (Some inline_deps)"
  have paths: "path_Join [''p'', ''charts''] = ''p/charts''"
    "path_Join [''p'', ChartFilename] = ''p/Chart.yaml''"
    "path_Join [''p'', RequirementsLockFilename] = ''p/requirements.lock''"
    "path_Join [''p'', ChartLockFilename] = ''p/Chart.lock''"
    by (simp_all add: path_Join_def const_defs)
  have root: "files inline_pkg ''p'' = Some Dir" by (simp add: inline_pkg_def)
  have nl1: "files inline_pkg (path_Join [''p'', RequirementsLockFilename]) = None"
    by (simp add: inline_pkg_def paths)
  have nl2: "files inline_pkg (path_Join [''p'', ChartLockFilename]) = None"
    by (simp add: inline_pkg_def paths)
  have chart: "files inline_pkg (path_Join [''p'', ChartFilename]) = Some (File (Yaml ?d))"
    by (simp add: inline_pkg_def paths)
  have st: "files inline_pkg ''p/charts/stale-0.0.1.tgz'' = Some (File (Blob ''stale''))"
    by (simp add: inline_pkg_def)
  have v2: "y_apiVersion ?d = chart_APIVersionV2" by (simp add: mk_doc_def const_defs)
  have ds: "slice (y_dependencies ?d) = inline_deps" by (simp add: mk_doc_def slice_def)
  have fr: "\<forall>dep\<in>set inline_deps. fetch_result ref_ext cache_client no_clients [] ex_ignore dep
              = Some (Inr (''cache/'' @ Name dep @ ''-'' @ Version dep @ ''.tgz''))"
    by (simp add: inline_deps_def mk_dep_def fetch_result_def client_at_def fetch_origin_def
          ref_ext_def ref_ShouldIgnoreRepo_def ex_ignore_def cache_client_def)
  have clients: "\<forall>dep\<in>set (slice (y_dependencies ?d)).
                   fetch_result ref_ext cache_client no_clients [] ex_ignore dep \<noteq> None"
    using fr by (simp add: ds)
  have run: "?run = (fst ?run, snd ?run)" by simp
  note inst = inline_dependencies_without_lock [OF root nl1 nl2 chart v2 ex_target_url clients run,
      unfolded paths ds]
  from inst have P2: "files (snd ?run) ''p/requirements.lock'' = None" by (elim conjE)
  from inst have P3: "files (snd ?run) ''p/Chart.lock'' = None" by (elim conjE)
  from inst have P4: "filter is_write (trace (snd ?run)) =
           filter is_write (trace inline_pkg) @ [EvWriteFile ''p/Chart.yaml'']" by (elim conjE)
  from inst have P5: "files (snd ?run) ''p/Chart.yaml'' =
           Some (File (Yaml (yaml_Marshal_Metadata ((Metadata_of ?d)
             \<lparr>meta_Dependencies :=
                map_option (map (rewrite_entry ref_ext ex_source [] ex_ignore ''oci://tgt/charts''))
                  (y_dependencies ?d)\<rparr>))))" by (elim conjE)
  from inst have P6: "filter is_fetch (trace (snd ?run)) =
           filter is_fetch (trace inline_pkg) @ map (fetch_event ref_ext [] ex_ignore) inline_deps"
    by (elim conjE)
  from inst have P7: "files (snd ?run) ''p/charts'' = Some Dir" by (elim conjE)
  from inst have P8: "\<forall>q. under ''p/charts'' q \<and> files (snd ?run) q \<noteq> None \<longrightarrow>
              q \<in> dep_file ''p'' ` set inline_deps" by (elim conjE)
  from inst have P9: "(\<forall>dep\<in>set inline_deps.
              CHR ''/'' \<notin> set (dep_id dep) \<and>
              (\<exists>p b. fetch_result ref_ext cache_client no_clients [] ex_ignore dep = Some (Inr p) \<and>
                     files inline_pkg p = Some (File b) \<and> p \<noteq> ''p/charts'' \<and>
                     \<not> under ''p/charts'' p)) \<longrightarrow>
          fst ?run = Inr None \<and>
          (\<forall>dep\<in>set inline_deps. \<exists>b. files (snd ?run) (dep_file ''p'' dep) = Some (File b))"
    by (elim conjE)
  have ok: "\<forall>dep\<in>set inline_deps.
              CHR ''/'' \<notin> set (dep_id dep) \<and>
              (\<exists>p b. fetch_result ref_ext cache_client no_clients [] ex_ignore dep = Some (Inr p) \<and>
                     files inline_pkg p = Some (File b) \<and> p \<noteq> ''p/charts'' \<and>
                     \<not> under ''p/charts'' p)"
    by (simp add: inline_deps_def mk_dep_def fetch_result_def client_at_def fetch_origin_def
          ref_ext_def ref_ShouldIgnoreRepo_def ex_ignore_def cache_client_def dep_id_def
          inline_pkg_def under_def)
  from P9 ok have R1: "fst ?run = Inr None"
    and R2: "\<forall>dep\<in>set inline_deps. \<exists>b. files (snd ?run) (dep_file ''p'' dep) = Some (File b)"
    by simp_all
  from P4 have Q4: "filter is_write (trace (snd ?run)) = [EvWriteFile ''p/Chart.yaml'']"
    by (simp add: inline_pkg_def)
  from P5 have Q5: "files (snd ?run) ''p/Chart.yaml''
     = Some (File (Yaml (mk_doc ''v2'' (Some
         [mk_dep ''redis'' ''1.0.0'' ''oci://tgt/charts'',
          mk_dep ''etcd'' ''1.2.3'' ''oci://tgt/charts'',
          mk_dep ''nginx'' ''2.0.0'' ''oci://tgt/charts'']))))"
    by (simp add: mk_doc_def mk_dep_def inline_deps_def yaml_Marshal_Metadata_def Metadata_of_def
          rewrite_entry_def needs_rewrite_def GetUrl_def ex_source_def ex_ignore_def
          ref_ext_def ref_ShouldIgnoreRepo_def)
  from P6 have Q6: "filter is_fetch (trace (snd ?run))
     = [EvFetch TargetSide ''redis'' ''1.0.0'', EvFetch TargetSide ''etcd'' ''1.2.3'',
        EvFetch TargetSide ''nginx'' ''2.0.0'']"
    by (simp add: inline_pkg_def inline_deps_def mk_dep_def fetch_event_def fetch_origin_def
          ref_ext_def ref_ShouldIgnoreRepo_def ex_ignore_def)
  have "under ''p/charts'' ''p/charts/stale-0.0.1.tgz''" by (simp add: under_def)
  moreover have "''p/charts/stale-0.0.1.tgz'' \<notin> dep_file ''p'' ` set inline_deps"
    by (simp add: inline_deps_def mk_dep_def dep_file_def dep_id_def path_Join_def)
  ultimately have Q8: "files (snd ?run) ''p/charts/stale-0.0.1.tgz'' = None"
    using P8 by blast
  from R2 have A1: "\<exists>b. files (snd ?run) ''p/charts/redis-1.0.0.tgz'' = Some (File b)"
    and A2: "\<exists>b. files (snd ?run) ''p/charts/etcd-1.2.3.tgz'' = Some (File b)"
    and A3: "\<exists>b. files (snd ?run) ''p/charts/nginx-2.0.0.tgz'' = Some (File b)"
    by (simp_all add: inline_deps_def mk_dep_def dep_file_def dep_id_def path_Join_def)
  from chart [unfolded paths] nl1 [unfolded paths] nl2 [unfolded paths] st R1 P2 P3 Q4 Q5 Q6 P7 Q8 A1 A2 A3
  show ?thesis by (intro conjI)
qed

subsection \<open>What the lock and the metadata of a package are\<close>



lemma LoadChartfile_files: "files (snd (LoadChartfile p w)) = files w"
proof -
  obtain x y where a: "ioutil_ReadFile p w = (x, y)" by (cases "ioutil_ReadFile p w") auto
  from ioutil_ReadFile_frame [of p w] a have "files y = files w" by simp
  then show ?thesis
    unfolding LoadChartfile_def a by (auto split: sum.splits)
qed




subsection \<open>The fetches of a run\<close>







text \<open>
  Claim C3 says that for a dependency declared at the source repository's URL both the
  declaration entry and the corresponding lock entry are set to the target's URL. Here
  \<^verbatim>\<open>redis\<close> is declared at the source URL while its lock entry holds the URL of the
  trusted repository, which the classifier ignores. The run succeeds; the declaration
  is written back at the target's URL, the lock entry is written back as it was.
\<close>

theorem source_declaration_lock_kept:
  "files pinned_pkg ''p/Chart.yaml'' =
     Some (File (Yaml (mk_doc ''v2'' (Some [mk_dep ''redis'' ''1.0.0'' ''http://src/charts''])))) \<and>
   files pinned_pkg ''p/Chart.lock'' =
     Some (File (Yaml (mk_doc [] (Some [mk_dep ''redis'' ''1.0.0'' ''http://trusted/charts''])))) \<and>
   GetUrl ex_source = ''http://src/charts'' \<and>
   getDependencyRepoURL ref_ext ex_target = Inr ''oci://tgt/charts'' \<and>
   fst (BuildDependencies ref_ext ''p'' cache_client ex_source ex_target all_clients [] ex_ignore pinned_pkg)
     = Inr None \<and>
   (\<exists>d'. files (snd (BuildDependencies ref_ext ''p'' cache_client ex_source ex_target all_clients []
                        ex_ignore pinned_pkg)) ''p/Chart.yaml'' = Some (File (Yaml d')) \<and>
         y_dependencies d' = Some [mk_dep ''redis'' ''1.0.0'' ''oci://tgt/charts'']) \<and>
   (\<exists>d'. files (snd (BuildDependencies ref_ext ''p'' cache_client ex_source ex_target all_clients []
                        ex_ignore pinned_pkg)) ''p/Chart.lock'' = Some (File (Yaml d')) \<and>
         y_dependencies d' = Some [mk_dep ''redis'' ''1.0.0'' ''http://trusted/charts''])"
  by (simp add: model_defs ref_defs ex_defs const_defs)

end
